theory Spec2Isabelle
  imports Complex_Main "HOL-Library.Char_ord" "HOL-Library.List_Lexorder" "HOL-Library.AList"
    "HOL-Library.Monad_Syntax"
begin

unbundle bit_operations_syntax

section \<open>LINspector: a shallow embedding of the trace analysis engine\<close>

text \<open>
  The development follows \<^verbatim>\<open>linspector.py\<close>. Python integers are unbounded and are
  modelled by \<^typ>\<open>int\<close>; the bit operators \<^verbatim>\<open>&\<close>, \<^verbatim>\<open>|\<close>, \<^verbatim>\<open>^\<close>, \<^verbatim>\<open>~\<close>, \<^verbatim>\<open><<\<close> and
  \<^verbatim>\<open>>>\<close> are \<open>AND\<close>, \<open>OR\<close>, \<open>XOR\<close>, \<open>NOT\<close>, \<^const>\<open>push_bit\<close> and \<^const>\<open>drop_bit\<close> on
  \<^typ>\<open>int\<close>, which agree with Python's two's-complement reading of negative numbers.
  Python floats (timestamps, scaling factors) are idealised as \<^typ>\<open>real\<close>: only their
  order, equality and exact arithmetic are used, rounding is not modelled.
  An exception is a value \<open>Inl e\<close> of a sum type; a dictionary whose order matters is an
  association list, otherwise a map.
\<close>

datatype py_error =
  ValueError | AttributeError | IndexError | KeyError | TypeError | IOError

subsection \<open>Data model (the dataclasses of the source)\<close>

record LDFSignal =
  sg_name :: string
  sg_length :: int
  sg_publisher :: string
  sg_subscriber :: string
  sg_start_bit :: "int option"
  sg_unit :: "string option"
  sg_factor :: real
  sg_offset :: real
  sg_logical_map :: "(int \<times> string) list"
  sg_encoding_type :: string

record LDFFrame =
  fr_name :: string
  fr_id :: "int option"
  fr_publisher :: "string option"
  fr_dlc :: "int option"
  fr_signals :: "LDFSignal list"
  fr_frame_type :: string
  fr_associated_frames :: "string list"

record LogEntry =
  timestamp :: real
  channel :: string
  frame_id :: string
  frame_id_int :: int
  type :: string
  data :: "int list"
  raw_line :: string
  declared_checksum :: "int option"
  csm :: "string option"
  physical_metadata :: "(string \<times> string) list option"
  event_channel :: "int option"
  full_time_tbit :: "real option"
  header_time_tbit :: "real option"

text \<open>
  \<^verbatim>\<open>str.lower()\<close> on the 8-bit characters of \<^typ>\<open>string\<close>: the ASCII capitals are
  mapped to their small letters, everything else is kept.
\<close>

definition lower_char :: "char \<Rightarrow> char" where
  "lower_char c =
     (if CHR ''A'' \<le> c \<and> c \<le> CHR ''Z'' then char_of (of_char c + (32::nat)) else c)"

definition lower :: "string \<Rightarrow> string" where
  "lower s = map lower_char s"

subsection \<open>Numeric primitives\<close>

text \<open>\<^verbatim>\<open>calculate_pid\<close>: raises \<^verbatim>\<open>ValueError\<close> outside \<open>0..0x3F\<close>.\<close>

definition calculate_pid :: "int \<Rightarrow> py_error + int" where
  "calculate_pid fid =
     (if \<not> (0 \<le> fid \<and> fid \<le> 0x3F) then Inl ValueError
      else
        let id_bits = fid AND 0x3F;
            p0 = ((drop_bit 0 id_bits) AND 1) XOR ((drop_bit 1 id_bits) AND 1)
                   XOR ((drop_bit 2 id_bits) AND 1) XOR ((drop_bit 4 id_bits) AND 1);
            p1 = (NOT (((drop_bit 1 id_bits) AND 1) XOR ((drop_bit 3 id_bits) AND 1)
                   XOR ((drop_bit 4 id_bits) AND 1) XOR ((drop_bit 5 id_bits) AND 1))) AND 1
        in Inr ((id_bits OR (push_bit 6 p0) OR (push_bit 7 p1)) AND 0xFF))"

text \<open>
  The parity formula in the words of the specification, on the bits \<open>b0..b5\<close> of the
  identifier: \<open>P0 = b0 \<oplus> b1 \<oplus> b2 \<oplus> b4\<close>, \<open>P1 = \<not> (b1 \<oplus> b3 \<oplus> b4 \<oplus> b5)\<close>,
  \<open>PID = id | P0 << 6 | P1 << 7\<close>.
\<close>

definition xor_bool :: "bool \<Rightarrow> bool \<Rightarrow> bool" where
  "xor_bool a b = (a \<noteq> b)"

definition pid_spec :: "int \<Rightarrow> int" where
  "pid_spec fid =
     (let P0 = xor_bool (xor_bool (xor_bool (bit fid 0) (bit fid 1)) (bit fid 2)) (bit fid 4);
          P1 = (\<not> xor_bool (xor_bool (xor_bool (bit fid 1) (bit fid 3)) (bit fid 4)) (bit fid 5))
      in fid OR push_bit 6 (of_bool P0) OR push_bit 7 (of_bool P1))"

text \<open>
  The carry-folding loop of \<^verbatim>\<open>calculate_checksum\<close>:
  \<^verbatim>\<open>while sum_val > 0xFF: sum_val = (sum_val & 0xFF) + (sum_val >> 8)\<close>.
\<close>

lemma and_255_mod: "(s::int) AND 255 = s mod 256"
proof -
  have "s AND mask 8 = s mod 2 ^ 8"
    by (simp add: take_bit_eq_mod flip: take_bit_eq_mask)
  moreover have "mask 8 = (255::int)"
    by (simp add: mask_eq_exp_minus_1)
  ultimately show ?thesis by simp
qed

lemma drop_bit_8_div: "drop_bit 8 (s::int) = s div 256"
  by (simp add: drop_bit_eq_div)

lemma fold_step_decreases: "255 < (s::int) \<Longrightarrow> s mod 256 + s div 256 < s"
  by presburger

function fold_carries :: "int \<Rightarrow> int" where
  "fold_carries sum_val =
     (if sum_val > 0xFF then fold_carries ((sum_val AND 0xFF) + drop_bit 8 sum_val)
      else sum_val)"
  by pat_completeness auto
termination
  by (relation "measure nat") (auto simp: and_255_mod drop_bit_8_div fold_step_decreases)

declare fold_carries.simps [simp del]

text \<open>
  \<^verbatim>\<open>calculate_checksum(data_bytes, pid_for_enhanced=None)\<close>. The comprehension
  \<^verbatim>\<open>[d for d in data_bytes if isinstance(d, int)]\<close> keeps every element of a list of
  integers, so \<open>valid_data\<close> is the argument itself.
\<close>

definition calculate_checksum :: "int list \<Rightarrow> int option \<Rightarrow> py_error + int" where
  "calculate_checksum data_bytes pid_for_enhanced =
     (let valid_data = data_bytes in
      case pid_for_enhanced of
        Some pid \<Rightarrow>
          if \<not> (0 \<le> pid \<and> pid \<le> 0xFF) then Inl ValueError
          else Inr ((NOT (fold_carries (pid + sum_list valid_data))) AND 0xFF)
      | None \<Rightarrow>
          if valid_data = [] then Inr 0xFF
          else Inr ((NOT (fold_carries (sum_list valid_data))) AND 0xFF))"

text \<open>
  The reference classic checksum in the words of the specification: sum all data bytes,
  fold carries while the sum exceeds \<open>0xFF\<close>, and return \<open>~sum & 0xFF\<close>.
\<close>

function classic_fold_spec :: "int \<Rightarrow> int" where
  "classic_fold_spec s =
     (if 0xFF < s then classic_fold_spec ((s AND 0xFF) + drop_bit 8 s) else s)"
  by pat_completeness auto
termination
  by (relation "measure nat") (auto simp: and_255_mod drop_bit_8_div fold_step_decreases)

declare classic_fold_spec.simps [simp del]

definition classic_checksum_spec :: "int list \<Rightarrow> int" where
  "classic_checksum_spec D = (NOT (classic_fold_spec (sum_list D))) AND 0xFF"


subsection \<open>Per-record LIN validators\<close>

text \<open>
  The buckets of \<^verbatim>\<open>log_stats['error_summary']\<close>. Both dictionaries are
  \<^verbatim>\<open>defaultdict\<close>s: reading a missing key yields the default bucket below.
\<close>

record parity_bucket =
  p_count :: nat
  p_first_ts :: "real option"
  p_last_ts :: "real option"
  p_example_line :: "string option"

definition parity_default :: parity_bucket where
  "parity_default =
     \<lparr>p_count = 0, p_first_ts = None, p_last_ts = None, p_example_line = None\<rparr>"

record checksum_bucket =
  cb_count :: nat
  cb_first_ts :: "real option"
  cb_last_ts :: "real option"
  cb_example_line :: "string option"
  cb_frame_name :: "string option"

definition checksum_default :: checksum_bucket where
  "checksum_default =
     \<lparr>cb_count = 0, cb_first_ts = None, cb_last_ts = None, cb_example_line = None,
       cb_frame_name = None\<rparr>"

text \<open>The PID that \<^verbatim>\<open>validate_id_parity\<close> recomputes from the logged identifier.\<close>

definition expected_pid :: "int \<Rightarrow> int" where
  "expected_pid pid =
     (let raw_id = pid AND 0x3F;
          p0 = ((drop_bit 0 raw_id) XOR (drop_bit 1 raw_id) XOR (drop_bit 2 raw_id)
                  XOR (drop_bit 4 raw_id)) AND 1;
          p1 = (NOT ((drop_bit 1 raw_id) XOR (drop_bit 3 raw_id) XOR (drop_bit 4 raw_id)
                  XOR (drop_bit 5 raw_id))) AND 1
      in raw_id OR (push_bit 6 p0) OR (push_bit 7 p1))"

definition validate_id_parity ::
  "LogEntry \<Rightarrow> (int \<rightharpoonup> parity_bucket) \<Rightarrow> (int \<rightharpoonup> parity_bucket)" where
  "validate_id_parity entry summary =
     (let pid = frame_id_int entry in
      if channel entry \<noteq> ''LIN'' \<or> pid < 0x40 then summary
      else if expected_pid pid \<noteq> pid then
        (let rec0 = (case summary pid of None \<Rightarrow> parity_default | Some r \<Rightarrow> r);
             rec1 = rec0\<lparr>p_count := p_count rec0 + 1\<rparr>;
             rec2 = (if p_first_ts rec1 = None
                     then rec1\<lparr>p_first_ts := Some (timestamp entry),
                               p_example_line := Some (raw_line entry)\<rparr>
                     else rec1)
         in summary(pid \<mapsto> rec2\<lparr>p_last_ts := Some (timestamp entry)\<rparr>))
      else summary)"

text \<open>
  \<^verbatim>\<open>validate_lin_checksum\<close>. \<^verbatim>\<open>entry.data\<close> is a list in every \<^verbatim>\<open>LogEntry\<close> the
  tokenizer builds, so the test \<^verbatim>\<open>entry.data is None\<close> is always false. The second
  guard evaluates \<^verbatim>\<open>entry.csm.lower()\<close> whenever the data list is empty; on a record
  without a CSM field (\<^verbatim>\<open>csm is None\<close>) that attribute access raises
  \<^verbatim>\<open>AttributeError\<close>, outside every \<^verbatim>\<open>try\<close> block. The two \<^verbatim>\<open>try\<close> blocks turn an
  exception of \<^verbatim>\<open>calculate_pid\<close> or \<^verbatim>\<open>calculate_checksum\<close> into a silent return.
\<close>

definition bump_checksum_bucket ::
  "LogEntry \<Rightarrow> string \<Rightarrow> (int \<times> int \<times> int) \<Rightarrow>
   ((int \<times> int \<times> int) \<rightharpoonup> checksum_bucket) \<Rightarrow> ((int \<times> int \<times> int) \<rightharpoonup> checksum_bucket)" where
  "bump_checksum_bucket entry frame_name_for_log error_key summary =
     (let rec0 = (case summary error_key of None \<Rightarrow> checksum_default | Some r \<Rightarrow> r);
          rec1 = rec0\<lparr>cb_count := cb_count rec0 + 1\<rparr>;
          rec2 = (if cb_first_ts rec1 = None
                  then rec1\<lparr>cb_first_ts := Some (timestamp entry),
                            cb_example_line := Some (raw_line entry),
                            cb_frame_name := Some frame_name_for_log\<rparr>
                  else rec1)
      in summary(error_key \<mapsto> rec2\<lparr>cb_last_ts := Some (timestamp entry)\<rparr>))"

definition validate_lin_checksum ::
  "LogEntry \<Rightarrow> (int \<rightharpoonup> LDFFrame) \<Rightarrow> ((int \<times> int \<times> int) \<rightharpoonup> checksum_bucket) \<Rightarrow>
   py_error + ((int \<times> int \<times> int) \<rightharpoonup> checksum_bucket)" where
  "validate_lin_checksum entry ldf_id_to_frame_map summary =
     (if channel entry \<noteq> ''LIN'' \<or> lower (type entry) \<noteq> ''rx''
         \<or> declared_checksum entry = None
      then Inr summary
      else if data entry = [] \<and> csm entry = None then Inl AttributeError
      else if data entry = [] \<and> lower (the (csm entry)) \<noteq> ''enhanced'' then Inr summary
      else
        (let frame_definition = ldf_id_to_frame_map (frame_id_int entry);
             frame_name_for_log =
               (case frame_definition of Some f \<Rightarrow> fr_name f | None \<Rightarrow> frame_id entry);
             data_for_checksum = data entry;
             checksum_type = lower (case csm entry of None \<Rightarrow> [] | Some c \<Rightarrow> c);
             with_pid =
               (if checksum_type = ''enhanced''
                then (case calculate_pid (frame_id_int entry) of
                        Inl e \<Rightarrow> None
                      | Inr pid \<Rightarrow> Some (pid # data_for_checksum))
                else Some data_for_checksum)
         in (case with_pid of
               None \<Rightarrow> Inr summary
             | Some data_for_checksum' \<Rightarrow>
                 (case calculate_checksum data_for_checksum' None of
                    Inl e \<Rightarrow> Inr summary
                  | Inr expected_checksum \<Rightarrow>
                      (if expected_checksum \<noteq> the (declared_checksum entry)
                       then Inr (bump_checksum_bucket entry frame_name_for_log
                                   (frame_id_int entry, expected_checksum,
                                    the (declared_checksum entry)) summary)
                       else Inr summary)))))"

text \<open>Concrete log records used below to evaluate the validators.\<close>

definition entry_no_csm :: LogEntry where
  "entry_no_csm =
     \<lparr>timestamp = 0.010, channel = ''LIN'', frame_id = ''02'', frame_id_int = 2,
      type = ''Rx'', data = [], raw_line = ''0.010 Li 02 Rx checksum=00'',
      declared_checksum = Some 0, csm = None, physical_metadata = None,
      event_channel = None, full_time_tbit = None, header_time_tbit = None\<rparr>"

definition entry_full_pid :: LogEntry where
  "entry_full_pid =
     \<lparr>timestamp = 0.010, channel = ''LIN'', frame_id = ''C1'', frame_id_int = 0xC1,
      type = ''Rx'', data = [0x55],
      raw_line = ''0.010 Li C1 Rx 1 55 checksum=00 CSM=Enhanced'',
      declared_checksum = Some 0, csm = Some ''Enhanced'', physical_metadata = None,
      event_channel = None, full_time_tbit = None, header_time_tbit = None\<rparr>"

definition entry_enh :: LogEntry where
  "entry_enh =
     \<lparr>timestamp = 0.010, channel = ''LIN'', frame_id = ''02'', frame_id_int = 2,
      type = ''Rx'', data = [0x55],
      raw_line = ''0.010 Li 02 Rx 1 55 checksum=00 CSM=Enhanced'',
      declared_checksum = Some 0, csm = Some ''Enhanced'', physical_metadata = None,
      event_channel = None, full_time_tbit = None, header_time_tbit = None\<rparr>"

subsection \<open>Schedule grouper\<close>

text \<open>
  A schedule table is the list of \<^verbatim>\<open>{'frame_name': ..., 'delay_ms': ...}\<close> dictionaries
  that \<^verbatim>\<open>parse_ldf\<close> builds; \<^verbatim>\<open>LDFData.schedules\<close> is a dictionary from schedule names
  to tables, kept here as an association list in insertion order.
\<close>

record ScheduleEntry =
  frame_name :: string
  delay_ms :: int

type_synonym schedule_dict = "(string \<times> ScheduleEntry list) list"

text \<open>
  \<^verbatim>\<open>d[k]\<close> for a key known to be present (the key is drawn from \<^verbatim>\<open>d.keys()\<close>).
\<close>

definition dict_get :: "('k \<times> 'v) list \<Rightarrow> 'k \<Rightarrow> 'v" where
  "dict_get d k = the (map_of d k)"

text \<open>\<^verbatim>\<open>d[k].append(v)\<close> on a \<^verbatim>\<open>defaultdict(list)\<close>.\<close>

definition dd_append :: "'k \<Rightarrow> 'v \<Rightarrow> ('k \<times> 'v list) list \<Rightarrow> ('k \<times> 'v list) list" where
  "dd_append k v d =
     (case map_of d k of
        None \<Rightarrow> d @ [(k, [v])]
      | Some vs \<Rightarrow> AList.update k (vs @ [v]) d)"

record 'h grouping_state =
  hash_to_representative_name :: "'h \<rightharpoonup> string"
  representative_to_all_grouped_names_map :: "(string \<times> string list) list"
  original_name_to_representative_name_map :: "(string \<times> string) list"

text \<open>
  One iteration of the loop over the sorted schedule names. The parameter
  \<open>content_hash\<close> stands for
  \<^verbatim>\<open>md5(json.dumps(entries, sort_keys=True).encode('utf-8')).hexdigest()\<close>. Every table
  is a list of dictionaries of a string and an integer, so the \<^verbatim>\<open>isinstance\<close> test
  succeeds and \<^verbatim>\<open>json.dumps\<close> does not raise: the two fallback branches of the source
  cannot be reached.
\<close>

definition group_step ::
  "(ScheduleEntry list \<Rightarrow> 'h) \<Rightarrow> schedule_dict \<Rightarrow> string \<Rightarrow>
   'h grouping_state \<Rightarrow> 'h grouping_state" where
  "group_step content_hash schedules original_name st =
     (let entries = dict_get schedules original_name;
          hv = content_hash entries;
          h2r = (if hash_to_representative_name st hv = None
                 then (hash_to_representative_name st)(hv \<mapsto> original_name)
                 else hash_to_representative_name st);
          representative_name = the (h2r hv)
      in \<lparr>hash_to_representative_name = h2r,
          representative_to_all_grouped_names_map =
            dd_append representative_name original_name
              (representative_to_all_grouped_names_map st),
          original_name_to_representative_name_map =
            AList.update original_name representative_name
              (original_name_to_representative_name_map st)\<rparr>)"

definition grouping_init :: "'h grouping_state" where
  "grouping_init =
     \<lparr>hash_to_representative_name = Map.empty,
      representative_to_all_grouped_names_map = [],
      original_name_to_representative_name_map = []\<rparr>"

definition group_equivalent_schedules ::
  "(ScheduleEntry list \<Rightarrow> 'h) \<Rightarrow> schedule_dict \<Rightarrow>
   schedule_dict \<times> (string \<times> string) list \<times> (string \<times> string list) list" where
  "group_equivalent_schedules content_hash schedules =
     (if schedules = [] then ([], [], [])
      else
        let sorted_original_schedule_names = sort (map fst schedules);
            st = fold (group_step content_hash schedules) sorted_original_schedule_names
                   grouping_init;
            unique_schedules =
              fold (\<lambda>rep_name u. AList.update rep_name (dict_get schedules rep_name) u)
                (map fst (representative_to_all_grouped_names_map st)) [];
            grouped =
              map (\<lambda>(rep_name, names). (rep_name, sort (remdups names)))
                (representative_to_all_grouped_names_map st)
        in (unique_schedules, original_name_to_representative_name_map st, grouped))"

text \<open>The first component of the result: the unique-schedules dictionary.\<close>

definition unique_schedules_of ::
  "(ScheduleEntry list \<Rightarrow> 'h) \<Rightarrow> schedule_dict \<Rightarrow> schedule_dict" where
  "unique_schedules_of content_hash schedules =
     fst (group_equivalent_schedules content_hash schedules)"

text \<open>The second component, read as a dictionary: original name to representative.\<close>

definition representative_of ::
  "(ScheduleEntry list \<Rightarrow> 'h) \<Rightarrow> schedule_dict \<Rightarrow> string \<Rightarrow> string option" where
  "representative_of content_hash schedules original_name =
     map_of (fst (snd (group_equivalent_schedules content_hash schedules))) original_name"

text \<open>
  Auxiliary notions for the proofs: the first name of a list whose table has a given
  hash, and the representative that a name receives from a list of names.
\<close>

definition first_with ::
  "(ScheduleEntry list \<Rightarrow> 'h) \<Rightarrow> schedule_dict \<Rightarrow> string list \<Rightarrow> 'h \<Rightarrow> string option" where
  "first_with ch S ps hv = find (\<lambda>m. ch (dict_get S m) = hv) ps"

definition rep_in ::
  "(ScheduleEntry list \<Rightarrow> 'h) \<Rightarrow> schedule_dict \<Rightarrow> string list \<Rightarrow> string \<Rightarrow> string" where
  "rep_in ch S ps n = the (first_with ch S ps (ch (dict_get S n)))"

definition loop_inv ::
  "(ScheduleEntry list \<Rightarrow> 'h) \<Rightarrow> schedule_dict \<Rightarrow> string list \<Rightarrow> 'h grouping_state \<Rightarrow> bool" where
  "loop_inv ch S ps st \<longleftrightarrow>
     hash_to_representative_name st = first_with ch S ps
     \<and> original_name_to_representative_name_map st = map (\<lambda>n. (n, rep_in ch S ps n)) ps
     \<and> map fst (representative_to_all_grouped_names_map st)
         = filter (\<lambda>n. rep_in ch S ps n = n) ps"

text \<open>Three schedule tables; the first two have the same entries.\<close>

definition example_schedules :: schedule_dict where
  "example_schedules =
     [(''T2'', [\<lparr>frame_name = ''F1'', delay_ms = 10\<rparr>, \<lparr>frame_name = ''F2'', delay_ms = 10\<rparr>]),
      (''T1'', [\<lparr>frame_name = ''F1'', delay_ms = 10\<rparr>, \<lparr>frame_name = ''F2'', delay_ms = 10\<rparr>]),
      (''T3'', [\<lparr>frame_name = ''F1'', delay_ms = 10\<rparr>, \<lparr>frame_name = ''F2'', delay_ms = 20\<rparr>])]"

subsection \<open>CAN database model\<close>

record DBCSignal =
  ds_name :: string
  ds_start_bit :: "int option"
  ds_length :: "int option"
  ds_factor :: real
  ds_offset :: real
  ds_unit :: "string option"
  is_big_endian :: bool
  is_signed :: bool
  ds_logical_map :: "(int \<times> string) list"
  is_multiplexer_switch :: bool
  multiplexer_value :: "int option"
  min_value_defined :: "real option"
  max_value_defined :: "real option"

datatype attr_value = AInt int | AFloat real | AStr string | ABool bool

record DBCMessage =
  msg_id :: int
  msg_name :: string
  msg_dlc :: "int option"
  node_name :: "string option"
  msg_signals :: "DBCSignal list"
  attributes :: "(string \<times> attr_value) list"

subsection \<open>Bit-field extraction\<close>

text \<open>
  \<^verbatim>\<open>data_bytes[byte_index]\<close>: an index from \<open>-len\<close> up to \<open>-1\<close> addresses the list
  from its end, and any index beyond either end raises \<^verbatim>\<open>IndexError\<close>.
\<close>

definition list_get :: "'a list \<Rightarrow> int \<Rightarrow> py_error + 'a" where
  "list_get xs i =
     (if 0 \<le> i \<and> i < int (length xs) then Inr (xs ! nat i)
      else if i < 0 \<and> - int (length xs) \<le> i then Inr (xs ! nat (int (length xs) + i))
      else Inl IndexError)"

text \<open>
  The big-endian loop \<^verbatim>\<open>for i in range(length)\<close>, over the list of its indices;
  \<open>big_endian_bit\<close> is the \<^verbatim>\<open>bit_value\<close> read in iteration \<open>i\<close>.
\<close>

definition big_endian_bit :: "int list \<Rightarrow> int \<Rightarrow> int \<Rightarrow> py_error + int" where
  "big_endian_bit data_bytes start_bit i =
     (let bit_index = 8 * (start_bit div 8) + (7 - (start_bit mod 8)) + i;
          byte_index = bit_index div 8;
          bit_in_byte = bit_index mod 8
      in case list_get data_bytes byte_index of
           Inl e \<Rightarrow> Inl e
         | Inr byte \<Rightarrow> Inr ((drop_bit (nat (7 - bit_in_byte)) byte) AND 1))"

primrec extract_big_endian :: "int list \<Rightarrow> int \<Rightarrow> int list \<Rightarrow> int \<Rightarrow> py_error + int" where
  "extract_big_endian data_bytes start_bit [] extracted_value = Inr extracted_value"
| "extract_big_endian data_bytes start_bit (i # is) extracted_value =
     (case big_endian_bit data_bytes start_bit i of
        Inl e \<Rightarrow> Inl e
      | Inr bit_value \<Rightarrow>
          extract_big_endian data_bytes start_bit is
            ((push_bit 1 extracted_value) OR bit_value))"

text \<open>The little-endian accumulation \<^verbatim>\<open>raw_value_combined |= (byte & 0xFF) << (8 * idx)\<close>.\<close>

primrec combine_little_endian :: "int list \<Rightarrow> nat \<Rightarrow> int \<Rightarrow> int" where
  "combine_little_endian [] idx raw_value_combined = raw_value_combined"
| "combine_little_endian (byte # bs) idx raw_value_combined =
     combine_little_endian bs (idx + 1)
       (raw_value_combined OR push_bit (8 * idx) (byte AND 0xFF))"

text \<open>
  \<^verbatim>\<open>extract_signal_value\<close>. A shift by a negative count raises \<^verbatim>\<open>ValueError\<close> in
  Python; a read past the end of the data raises \<^verbatim>\<open>IndexError\<close>.
\<close>

definition sign_extend :: "bool \<Rightarrow> int \<Rightarrow> int \<Rightarrow> int" where
  "sign_extend signed len extracted_value =
     (if signed \<and> len > 0 then
        (let sign_bit_mask = push_bit (nat (len - 1)) (1::int)
         in if extracted_value AND sign_bit_mask \<noteq> 0
            then extracted_value - push_bit (nat len) 1
            else extracted_value)
      else extracted_value)"

definition extract_signal_value ::
  "int list \<Rightarrow> int \<Rightarrow> int \<Rightarrow> bool \<Rightarrow> bool \<Rightarrow> py_error + int" where
  "extract_signal_value data_bytes start_bit len big_endian signed =
     (if big_endian then
        (case extract_big_endian data_bytes start_bit [0..len - 1] 0 of
           Inl e \<Rightarrow> Inl e
         | Inr v \<Rightarrow> Inr (sign_extend signed len v))
      else if len < 0 \<or> start_bit < 0 then Inl ValueError
      else
        (let raw_value_combined = combine_little_endian data_bytes 0 0;
             mask = push_bit (nat len) 1 - 1
         in Inr (sign_extend signed len
                   ((drop_bit (nat start_bit) raw_value_combined) AND mask))))"

subsection \<open>Gateway mappings, event capture and the correlation post-pass\<close>

datatype signal_obj = LinSig LDFSignal | CanSig DBCSignal

record gateway_mapping =
  source_network :: string
  source_message :: string
  source_signal :: string
  target_network :: string
  target_message :: string
  target_signal :: string
  map_index :: int
  source_signal_obj :: "signal_obj option"
  target_signal_obj :: "signal_obj option"

text \<open>
  Attribute access on a resolved signal object. \<^verbatim>\<open>LDFSignal\<close> has no
  \<^verbatim>\<open>is_big_endian\<close> or \<^verbatim>\<open>is_signed\<close> attribute, so \<^verbatim>\<open>getattr(..., False)\<close> yields
  \<^verbatim>\<open>False\<close>; its \<^verbatim>\<open>length\<close> is never \<^verbatim>\<open>None\<close>.
\<close>

fun obj_start_bit :: "signal_obj \<Rightarrow> int option" where
  "obj_start_bit (LinSig s) = sg_start_bit s"
| "obj_start_bit (CanSig s) = ds_start_bit s"

fun obj_length :: "signal_obj \<Rightarrow> int option" where
  "obj_length (LinSig s) = Some (sg_length s)"
| "obj_length (CanSig s) = ds_length s"

fun obj_is_big_endian :: "signal_obj \<Rightarrow> bool" where
  "obj_is_big_endian (LinSig s) = False"
| "obj_is_big_endian (CanSig s) = is_big_endian s"

fun obj_is_signed :: "signal_obj \<Rightarrow> bool" where
  "obj_is_signed (LinSig s) = False"
| "obj_is_signed (CanSig s) = is_signed s"

text \<open>
  The entries of \<^verbatim>\<open>log_stats['gateway_results']\<close>. The sentinels \<^verbatim>\<open>float('inf')\<close> and
  \<^verbatim>\<open>float('-inf')\<close> of the latency minimum and maximum are \<^const>\<open>None\<close>.
  \<^verbatim>\<open>latency_examples\<close> is created empty and never written.
\<close>

record latency_stats =
  ls_sum :: real
  ls_min :: "real option"
  ls_max :: "real option"
  ls_count :: nat
  ls_average :: "real option"

record mismatch_example =
  ts_source :: real
  raw_source :: int
  phys_source :: real
  logical_source :: string
  ts_target :: real
  raw_target :: int
  phys_target :: real
  logical_target :: string
  mm_type :: string
  latency_ms :: real

record gateway_result =
  comparisons :: nat
  matches :: nat
  mismatches_value :: nat
  mismatches_type :: nat
  mismatches_timing :: nat
  gr_first_ts :: "real option"
  gr_last_ts :: "real option"
  mismatch_examples :: "mismatch_example list"
  mapping_info :: "gateway_mapping option"
  latency :: latency_stats
  latency_examples :: "real list"

definition gateway_result_default :: gateway_result where
  "gateway_result_default =
     \<lparr>comparisons = 0, matches = 0, mismatches_value = 0, mismatches_type = 0,
      mismatches_timing = 0, gr_first_ts = None, gr_last_ts = None,
      mismatch_examples = [], mapping_info = None,
      latency = \<lparr>ls_sum = 0, ls_min = None, ls_max = None, ls_count = 0,
                  ls_average = None\<rparr>,
      latency_examples = []\<rparr>"

type_synonym gateway_events = "(int \<times> (real \<times> int) list) list"

record gateway_state =
  gateway_source_events :: gateway_events
  gateway_target_events :: gateway_events
  gateway_results :: "int \<rightharpoonup> gateway_result"

definition gateway_state_init :: gateway_state where
  "gateway_state_init =
     \<lparr>gateway_source_events = [], gateway_target_events = [],
      gateway_results = Map.empty\<rparr>"

text \<open>
  The body of one \<^verbatim>\<open>for m in src_maps\<close> (or \<^verbatim>\<open>tgt_maps\<close>) iteration of
  \<^verbatim>\<open>process_log_file\<close>; \<open>is_source\<close> selects the side.
\<close>

definition capture_mapping ::
  "bool \<Rightarrow> LogEntry \<Rightarrow> gateway_mapping \<Rightarrow> gateway_state \<Rightarrow> py_error + gateway_state" where
  "capture_mapping is_source entry m st =
     (case (if is_source then source_signal_obj m else target_signal_obj m) of
        None \<Rightarrow> Inr st
      | Some sig_info \<Rightarrow>
          (case (obj_start_bit sig_info, obj_length sig_info) of
             (Some start_bit, Some len) \<Rightarrow>
               (if data entry = [] then Inr st
                else
                  (case extract_signal_value (data entry) start_bit len
                          (obj_is_big_endian sig_info) (obj_is_signed sig_info) of
                     Inl e \<Rightarrow> Inl e
                   | Inr raw_val \<Rightarrow>
                       (let res = (case gateway_results st (map_index m) of
                                     None \<Rightarrow> gateway_result_default | Some r \<Rightarrow> r);
                            res' = (if mapping_info res = None
                                    then res\<lparr>mapping_info := Some m\<rparr> else res);
                            st' = (if is_source
                                   then st\<lparr>gateway_source_events :=
                                             dd_append (map_index m) (timestamp entry, raw_val)
                                               (gateway_source_events st)\<rparr>
                                   else st\<lparr>gateway_target_events :=
                                             dd_append (map_index m) (timestamp entry, raw_val)
                                               (gateway_target_events st)\<rparr>)
                        in Inr (st'\<lparr>gateway_results :=
                                      (gateway_results st')(map_index m \<mapsto> res')\<rparr>))))
           | _ \<Rightarrow> Inr st))"

primrec capture_mappings ::
  "bool \<Rightarrow> LogEntry \<Rightarrow> gateway_mapping list \<Rightarrow> gateway_state \<Rightarrow> py_error + gateway_state" where
  "capture_mappings is_source entry [] st = Inr st"
| "capture_mappings is_source entry (m # ms) st =
     (case capture_mapping is_source entry m st of
        Inl e \<Rightarrow> Inl e
      | Inr st' \<Rightarrow> capture_mappings is_source entry ms st')"

text \<open>
  \<^verbatim>\<open>gateway_lookup\<close>: per side, network and frame identifier the list of mappings
  (\<^verbatim>\<open>.get(..., [])\<close> on a missing key is the empty list).
\<close>

record gateway_lookup =
  lookup_source :: "string \<Rightarrow> int \<Rightarrow> gateway_mapping list"
  lookup_target :: "string \<Rightarrow> int \<Rightarrow> gateway_mapping list"

text \<open>
  The gateway block of the main loop for one record. The flags are
  \<^verbatim>\<open>config.get('enable_gateway_validation')\<close> and the \<^verbatim>\<open>active\<close> field of the network
  cycle state at that record.
\<close>

definition gateway_event_capture ::
  "bool \<Rightarrow> gateway_lookup \<Rightarrow> (LogEntry \<times> bool) \<Rightarrow> gateway_state \<Rightarrow> py_error + gateway_state" where
  "gateway_event_capture enable_gateway_validation lookup ea st =
     (let entry = fst ea; active = snd ea in
      if enable_gateway_validation \<and> active then
        (case capture_mappings True entry
                (lookup_source lookup (channel entry) (frame_id_int entry)) st of
           Inl e \<Rightarrow> Inl e
         | Inr st' \<Rightarrow>
             capture_mappings False entry
               (lookup_target lookup (channel entry) (frame_id_int entry)) st')
      else Inr st)"

primrec capture_all ::
  "bool \<Rightarrow> gateway_lookup \<Rightarrow> (LogEntry \<times> bool) list \<Rightarrow> gateway_state \<Rightarrow>
   py_error + gateway_state" where
  "capture_all en lookup [] st = Inr st"
| "capture_all en lookup (ea # eas) st =
     (case gateway_event_capture en lookup ea st of
        Inl e \<Rightarrow> Inl e
      | Inr st' \<Rightarrow> capture_all en lookup eas st')"

text \<open>
  \<^verbatim>\<open>_get_comparison_details\<close>. \<^verbatim>\<open>DBCSignal\<close> has no \<^verbatim>\<open>encoding_type\<close> attribute and
  \<^verbatim>\<open>LDFSignal\<close> no \<^verbatim>\<open>is_signed\<close>, so \<^verbatim>\<open>getattr\<close> returns its default there.
\<close>

record comparison_details =
  cd_factor :: real
  cd_offset :: real
  cd_logical_map :: "(int \<times> string) list"
  cd_is_signed :: bool
  cd_length :: "int option"
  cd_encoding_type :: string
  cd_unit :: "string option"

definition starts_with :: "string \<Rightarrow> string \<Rightarrow> bool" where
  "starts_with s p = (take (length p) s = p)"

definition details_of_ldf :: "LDFSignal \<Rightarrow> comparison_details" where
  "details_of_ldf s =
     \<lparr>cd_factor = sg_factor s, cd_offset = sg_offset s, cd_logical_map = sg_logical_map s,
      cd_is_signed = False, cd_length = Some (sg_length s),
      cd_encoding_type = sg_encoding_type s, cd_unit = sg_unit s\<rparr>"

definition details_of_dbc :: "DBCSignal \<Rightarrow> comparison_details" where
  "details_of_dbc s =
     \<lparr>cd_factor = ds_factor s, cd_offset = ds_offset s, cd_logical_map = ds_logical_map s,
      cd_is_signed = is_signed s, cd_length = ds_length s,
      cd_encoding_type = ''physical'', cd_unit = ds_unit s\<rparr>"

definition get_comparison_details ::
  "string \<Rightarrow> string \<Rightarrow> (string \<rightharpoonup> LDFSignal) \<Rightarrow> (string \<rightharpoonup> DBCSignal) \<Rightarrow>
   comparison_details option" where
  "get_comparison_details signal_name network_type ldf_signals_by_name dbc_signals_by_name =
     (if network_type = ''LIN'' then
        (case ldf_signals_by_name signal_name of
           None \<Rightarrow> None | Some s \<Rightarrow> Some (details_of_ldf s))
      else if starts_with network_type ''CAN'' then
        (case dbc_signals_by_name signal_name of
           None \<Rightarrow> None | Some s \<Rightarrow> Some (details_of_dbc s))
      else None)"

text \<open>\<^verbatim>\<open>compare_gateway_values\<close>, with \<^verbatim>\<open>PHYSICAL_COMPARISON_EPSILON = 1e-6\<close>.\<close>

definition signed_raw :: "comparison_details \<Rightarrow> int \<Rightarrow> int" where
  "signed_raw details raw =
     (case cd_length details of
        None \<Rightarrow> raw
      | Some len_bits \<Rightarrow>
          if cd_is_signed details \<and> len_bits > 0 then
            (if raw AND push_bit (nat (len_bits - 1)) 1 \<noteq> 0
             then raw - push_bit (nat len_bits) 1 else raw)
          else raw)"

definition compare_gateway_values ::
  "int \<Rightarrow> int \<Rightarrow> comparison_details \<Rightarrow> comparison_details \<Rightarrow> bool \<times> string" where
  "compare_gateway_values source_val_raw target_val_raw source_details target_details =
     (let src_has_logic = (map_of (cd_logical_map source_details) source_val_raw \<noteq> None);
          tgt_has_logic = (map_of (cd_logical_map target_details) target_val_raw \<noteq> None)
      in if src_has_logic \<and> tgt_has_logic
         then (source_val_raw = target_val_raw, ''raw_logical'')
         else if \<not> src_has_logic \<and> \<not> tgt_has_logic then
           (let src_val_phys = real_of_int (signed_raw source_details source_val_raw)
                                 * cd_factor source_details + cd_offset source_details;
                tgt_val_phys = real_of_int (signed_raw target_details target_val_raw)
                                 * cd_factor target_details + cd_offset target_details
            in (\<bar>src_val_phys - tgt_val_phys\<bar> < 1 / 1000000, ''physical''))
         else (False, ''hybrid_mismatch''))"

definition convert_signal_value :: "int \<Rightarrow> real \<Rightarrow> real \<Rightarrow> real" where
  "convert_signal_value raw_value factor offset = real_of_int raw_value * factor + offset"

text \<open>
  The inner loops of \<^verbatim>\<open>_post_process_gateway_correlation\<close> for one target event:
  the \<^verbatim>\<open>while\<close> loop that advances \<^verbatim>\<open>source_pointer\<close> past stale source events, and
  the \<^verbatim>\<open>for\<close> loop over \<^verbatim>\<open>range(source_pointer, num_source_events)\<close> that keeps the
  last source event before the target and stops at the first one not before it.
\<close>

function advance_pointer :: "(real \<times> int) list \<Rightarrow> nat \<Rightarrow> real \<Rightarrow> nat" where
  "advance_pointer sources source_pointer bound =
     (if source_pointer < length sources \<and> fst (sources ! source_pointer) < bound
      then advance_pointer sources (source_pointer + 1) bound
      else source_pointer)"
  by pat_completeness auto
termination
  by (relation "measure (\<lambda>(sources, source_pointer, bound). length sources - source_pointer)")
    auto

declare advance_pointer.simps [simp del]

primrec scan_candidates ::
  "(real \<times> int) list \<Rightarrow> real \<Rightarrow> (real \<times> int) option \<Rightarrow> (real \<times> int) option" where
  "scan_candidates [] ts_tgt best_source_candidate = best_source_candidate"
| "scan_candidates (s # ss) ts_tgt best_source_candidate =
     (if fst s \<ge> ts_tgt then best_source_candidate
      else scan_candidates ss ts_tgt (Some s))"

definition update_latency :: "real \<Rightarrow> latency_stats \<Rightarrow> latency_stats" where
  "update_latency latency_s lat_stats =
     lat_stats\<lparr>ls_count := ls_count lat_stats + 1,
               ls_sum := ls_sum lat_stats + latency_s,
               ls_min := Some (case ls_min lat_stats of
                                 None \<Rightarrow> latency_s | Some m \<Rightarrow> min m latency_s),
               ls_max := Some (case ls_max lat_stats of
                                 None \<Rightarrow> latency_s | Some m \<Rightarrow> max m latency_s)\<rparr>"

definition logical_or_dash :: "(int \<times> string) list \<Rightarrow> int \<Rightarrow> string" where
  "logical_or_dash logical_map raw = (case map_of logical_map raw of None \<Rightarrow> ''-'' | Some l \<Rightarrow> l)"

text \<open>The body of the loop \<^verbatim>\<open>for ts_target, raw_target in targets\<close>.\<close>

definition correlate_target ::
  "real \<Rightarrow> (real \<times> int) list \<Rightarrow> comparison_details \<Rightarrow> comparison_details \<Rightarrow>
   (real \<times> int) \<Rightarrow> (nat \<times> gateway_result) \<Rightarrow> (nat \<times> gateway_result)" where
  "correlate_target gateway_tolerance_s sources src_details tgt_details tgt pr =
     (let ts_tgt = fst tgt; raw_tgt = snd tgt;
          source_pointer =
            advance_pointer sources (fst pr) (ts_tgt - gateway_tolerance_s);
          best_source_candidate = scan_candidates (drop source_pointer sources) ts_tgt None;
          res = (snd pr)\<lparr>comparisons := comparisons (snd pr) + 1\<rparr>
      in case best_source_candidate of
           None \<Rightarrow> (source_pointer, res\<lparr>mismatches_timing := mismatches_timing res + 1\<rparr>)
         | Some src \<Rightarrow>
             (let ts_src = fst src; raw_src = snd src;
                  latency_s = ts_tgt - ts_src;
                  res1 = (if latency_s \<ge> 0
                          then res\<lparr>latency := update_latency latency_s (latency res)\<rparr>
                          else res);
                  mc = compare_gateway_values raw_src raw_tgt src_details tgt_details
              in if fst mc then (source_pointer, res1\<lparr>matches := matches res1 + 1\<rparr>)
                 else
                   (let res2 = (if snd mc = ''hybrid_mismatch''
                                then res1\<lparr>mismatches_type := mismatches_type res1 + 1\<rparr>
                                else res1\<lparr>mismatches_value := mismatches_value res1 + 1\<rparr>)
                    in (source_pointer,
                        res2\<lparr>mismatch_examples := mismatch_examples res2 @
                          [\<lparr>ts_source = ts_src, raw_source = raw_src,
                            phys_source = convert_signal_value raw_src
                              (cd_factor src_details) (cd_offset src_details),
                            logical_source = logical_or_dash (cd_logical_map src_details) raw_src,
                            ts_target = ts_tgt, raw_target = raw_tgt,
                            phys_target = convert_signal_value raw_tgt
                              (cd_factor tgt_details) (cd_offset tgt_details),
                            logical_target = logical_or_dash (cd_logical_map tgt_details) raw_tgt,
                            mm_type = snd mc,
                            latency_ms = latency_s * 1000\<rparr>]\<rparr>))))"

text \<open>
  The body of the loop \<^verbatim>\<open>for map_idx, targets in target_events.items()\<close>. Reading
  \<^verbatim>\<open>log_stats['gateway_results'][map_idx]\<close> inserts the default entry when the key is
  missing.
\<close>

definition correlate_mapping ::
  "real \<Rightarrow> (string \<rightharpoonup> LDFSignal) \<Rightarrow> (string \<rightharpoonup> DBCSignal) \<Rightarrow> gateway_events \<Rightarrow>
   (int \<times> (real \<times> int) list) \<Rightarrow> (int \<rightharpoonup> gateway_result) \<Rightarrow> (int \<rightharpoonup> gateway_result)" where
  "correlate_mapping gateway_tolerance_s ldf_sigs dbc_sigs source_events it results =
     (let map_idx = fst it; targets = snd it;
          sources = (case map_of source_events map_idx of None \<Rightarrow> [] | Some s \<Rightarrow> s)
      in if sources = [] \<or> targets = [] then results
         else
           (let res = (case results map_idx of
                         None \<Rightarrow> gateway_result_default | Some r \<Rightarrow> r);
                results1 = results(map_idx \<mapsto> res)
            in case mapping_info res of
                 None \<Rightarrow> results1
               | Some mi \<Rightarrow>
                   (case get_comparison_details (source_signal mi) (source_network mi)
                           ldf_sigs dbc_sigs of
                      None \<Rightarrow> results1
                    | Some src_details \<Rightarrow>
                        (case get_comparison_details (target_signal mi) (target_network mi)
                                ldf_sigs dbc_sigs of
                           None \<Rightarrow> results1
                         | Some tgt_details \<Rightarrow>
                             results1(map_idx \<mapsto>
                               snd (fold (correlate_target gateway_tolerance_s sources
                                            src_details tgt_details)
                                      targets (0, res)))))))"

definition post_process_gateway_correlation ::
  "real \<Rightarrow> (string \<rightharpoonup> LDFSignal) \<Rightarrow> (string \<rightharpoonup> DBCSignal) \<Rightarrow> gateway_state \<Rightarrow>
   (int \<rightharpoonup> gateway_result)" where
  "post_process_gateway_correlation gateway_tolerance_s ldf_sigs dbc_sigs st =
     fold (correlate_mapping gateway_tolerance_s ldf_sigs dbc_sigs (gateway_source_events st))
       (gateway_target_events st) (gateway_results st)"

text \<open>The counter identity of a gateway result.\<close>

definition balanced :: "gateway_result \<Rightarrow> bool" where
  "balanced res \<longleftrightarrow>
     comparisons res =
       matches res + mismatches_value res + mismatches_type res + mismatches_timing res"

definition all_balanced :: "(int \<rightharpoonup> gateway_result) \<Rightarrow> bool" where
  "all_balanced results \<longleftrightarrow> (\<forall>idx res. results idx = Some res \<longrightarrow> balanced res)"

text \<open>
  A gateway scenario: LIN signal \<open>A\<close> of frame 1 is mapped to CAN1 signal \<open>B\<close> of message
  \<open>0x100\<close>; the log has one source event and two target events, the second one second
  later.
\<close>

definition sig_A :: LDFSignal where
  "sig_A = \<lparr>sg_name = ''A'', sg_length = 8, sg_publisher = ''M'', sg_subscriber = ''S'',
            sg_start_bit = Some 0, sg_unit = None, sg_factor = 1, sg_offset = 0,
            sg_logical_map = [], sg_encoding_type = ''physical''\<rparr>"

definition sig_B :: DBCSignal where
  "sig_B = \<lparr>ds_name = ''B'', ds_start_bit = Some 0, ds_length = Some 8, ds_factor = 1,
            ds_offset = 0, ds_unit = Some [], is_big_endian = False, is_signed = False,
            ds_logical_map = [], is_multiplexer_switch = False, multiplexer_value = None,
            min_value_defined = None, max_value_defined = None\<rparr>"

definition mapping_AB :: gateway_mapping where
  "mapping_AB =
     \<lparr>source_network = ''LIN'', source_message = ''F_src'', source_signal = ''A'',
      target_network = ''CAN1'', target_message = ''Msg'', target_signal = ''B'',
      map_index = 0, source_signal_obj = Some (LinSig sig_A),
      target_signal_obj = Some (CanSig sig_B)\<rparr>"

definition lookup_AB :: gateway_lookup where
  "lookup_AB =
     \<lparr>lookup_source = (\<lambda>net fid. if net = ''LIN'' \<and> fid = 1 then [mapping_AB] else []),
      lookup_target = (\<lambda>net fid. if net = ''CAN1'' \<and> fid = 0x100 then [mapping_AB] else [])\<rparr>"

definition bare_entry :: "real \<Rightarrow> string \<Rightarrow> int \<Rightarrow> int list \<Rightarrow> LogEntry" where
  "bare_entry ts ch fid bytes =
     \<lparr>timestamp = ts, channel = ch, frame_id = [], frame_id_int = fid, type = ''Rx'',
      data = bytes, raw_line = [], declared_checksum = None, csm = None,
      physical_metadata = None, event_channel = None, full_time_tbit = None,
      header_time_tbit = None\<rparr>"

definition log_AB :: "(LogEntry \<times> bool) list" where
  "log_AB =
     [(bare_entry 0 ''LIN'' 1 [2], True),
      (bare_entry (1 / 100) ''CAN1'' 0x100 [2], True),
      (bare_entry 1 ''CAN1'' 0x100 [3], True)]"

definition state_AB :: gateway_state where
  "state_AB =
     \<lparr>gateway_source_events = [(0, [(0, 2)])],
      gateway_target_events = [(0, [(1 / 100, 2), (1, 3)])],
      gateway_results =
        [0 \<mapsto> gateway_result_default\<lparr>mapping_info := Some mapping_AB\<rparr>]\<rparr>"

text \<open>A big-endian CAN signal in the second data byte, and a record with one byte.\<close>

definition sig_C :: DBCSignal where
  "sig_C = \<lparr>ds_name = ''C'', ds_start_bit = Some 15, ds_length = Some 8, ds_factor = 1,
            ds_offset = 0, ds_unit = Some [], is_big_endian = True, is_signed = False,
            ds_logical_map = [], is_multiplexer_switch = False, multiplexer_value = None,
            min_value_defined = None, max_value_defined = None\<rparr>"

definition mapping_AC :: gateway_mapping where
  "mapping_AC = mapping_AB\<lparr>target_signal := ''C'', target_signal_obj := Some (CanSig sig_C)\<rparr>"

definition lookup_AC :: gateway_lookup where
  "lookup_AC =
     \<lparr>lookup_source = (\<lambda>net fid. if net = ''LIN'' \<and> fid = 1 then [mapping_AC] else []),
      lookup_target = (\<lambda>net fid. if net = ''CAN1'' \<and> fid = 0x100 then [mapping_AC] else [])\<rparr>"

subsection \<open>Per-channel aggregation of CAN databases\<close>

text \<open>
  \<^verbatim>\<open>parse_dbcs_for_channel\<close> calls \<^verbatim>\<open>parse_dbc_single_file\<close> on every path. The model
  takes the outcome of each of these calls as its input: either an exception or the
  pair of the message dictionary and the attribute dictionary of the file (both in
  insertion order). The optional fields \<^verbatim>\<open>cycle_time\<close>, \<^verbatim>\<open>start_delay_time\<close>,
  \<^verbatim>\<open>nr_of_repetition\<close>, \<^verbatim>\<open>cycle_time_fast\<close> and \<^verbatim>\<open>delay_time\<close> of \<^verbatim>\<open>DBCMessage\<close> are
  never set by this code and are left out.
\<close>

type_synonym attribute_dict = "(string \<times> attr_value) list"

type_synonym dbc_file_result = "py_error + ((int \<times> DBCMessage) list \<times> attribute_dict)"

record AggregatedMessageData =
  agg_name :: string
  agg_id :: int
  signals_dict :: "(string \<times> DBCSignal) list"
  agg_dlc :: "int option"
  agg_node_name :: "string option"
  agg_attributes :: attribute_dict

record channel_state =
  channel_messages_aggregated :: "(int \<times> AggregatedMessageData) list"
  global_attributes_aggregated :: attribute_dict
  first_baudrate_found :: "attr_value option"

definition channel_state_init :: channel_state where
  "channel_state_init =
     \<lparr>channel_messages_aggregated = [], global_attributes_aggregated = [],
      first_baudrate_found = None\<rparr>"

text \<open>\<^verbatim>\<open>for sig in signals: d[sig.name] = sig\<close> and \<^verbatim>\<open>d.update(other)\<close>.\<close>

definition put_signals :: "DBCSignal list \<Rightarrow> (string \<times> DBCSignal) list \<Rightarrow> (string \<times> DBCSignal) list" where
  "put_signals sigs d = fold (\<lambda>s. AList.update (ds_name s) s) sigs d"

definition dict_update :: "('k \<times> 'v) list \<Rightarrow> ('k \<times> 'v) list \<Rightarrow> ('k \<times> 'v) list" where
  "dict_update other d = fold (\<lambda>kv. AList.update (fst kv) (snd kv)) other d"

text \<open>
  The first half of the loop body over the messages of one file: create the aggregate,
  or merge into the existing one.
\<close>

definition aggregate_message ::
  "int \<Rightarrow> DBCMessage \<Rightarrow> (int \<times> AggregatedMessageData) list \<Rightarrow>
   (int \<times> AggregatedMessageData) list" where
  "aggregate_message mid msg_obj agg =
     (case map_of agg mid of
        None \<Rightarrow>
          AList.update mid
            \<lparr>agg_name = msg_name msg_obj, agg_id = msg_id msg_obj,
             signals_dict = put_signals (msg_signals msg_obj) [],
             agg_dlc = msg_dlc msg_obj, agg_node_name = node_name msg_obj,
             agg_attributes = attributes msg_obj\<rparr> agg
      | Some existing_aggregation \<Rightarrow>
          (let e1 = existing_aggregation
                      \<lparr>signals_dict := put_signals (msg_signals msg_obj)
                                         (signals_dict existing_aggregation)\<rparr>;
               e2 = (if agg_dlc e1 = None \<and> msg_dlc msg_obj \<noteq> None
                     then e1\<lparr>agg_dlc := msg_dlc msg_obj\<rparr> else e1);
               e3 = (if agg_node_name e2 = None \<and> node_name msg_obj \<noteq> None
                     then e2\<lparr>agg_node_name := node_name msg_obj\<rparr> else e2)
           in AList.update mid
                (e3\<lparr>agg_attributes := dict_update (attributes msg_obj) (agg_attributes e3)\<rparr>)
                agg))"

text \<open>
  The second half of the loop body: the baud-rate check, which sits inside the loop
  over the messages, and its \<^verbatim>\<open>else\<close> branch for a file without a \<^verbatim>\<open>Baudrate\<close>
  attribute. The result carries the exception raised, if any, together with the state
  reached: the mutations made before a \<^verbatim>\<open>raise\<close> persist.
\<close>

definition message_step ::
  "attribute_dict \<Rightarrow> (int \<times> DBCMessage) \<Rightarrow> channel_state \<Rightarrow> py_error option \<times> channel_state" where
  "message_step current_file_attributes im st =
     (let mid = fst im; msg_obj = snd im;
          st1 = st\<lparr>channel_messages_aggregated :=
                     aggregate_message mid msg_obj (channel_messages_aggregated st)\<rparr>
      in case map_of current_file_attributes ''Baudrate'' of
           Some file_baudrate \<Rightarrow>
             (case first_baudrate_found st1 of
                None \<Rightarrow>
                  (None, st1\<lparr>first_baudrate_found := Some file_baudrate,
                              global_attributes_aggregated :=
                                AList.update ''Baudrate'' file_baudrate
                                  (global_attributes_aggregated st1)\<rparr>)
              | Some first \<Rightarrow>
                  (if first \<noteq> file_baudrate then (Some ValueError, st1) else (None, st1)))
         | None \<Rightarrow>
             (let existing_aggregation = dict_get (channel_messages_aggregated st1) mid;
                  e' = existing_aggregation
                         \<lparr>signals_dict := put_signals (msg_signals msg_obj)
                                            (signals_dict existing_aggregation),
                          agg_name := msg_name msg_obj,
                          agg_dlc := msg_dlc msg_obj,
                          agg_node_name := node_name msg_obj\<rparr>
              in (None, st1\<lparr>channel_messages_aggregated :=
                              AList.update mid e' (channel_messages_aggregated st1)\<rparr>)))"

primrec message_loop ::
  "attribute_dict \<Rightarrow> (int \<times> DBCMessage) list \<Rightarrow> channel_state \<Rightarrow> py_error option \<times> channel_state" where
  "message_loop attrs [] st = (None, st)"
| "message_loop attrs (im # ims) st =
     (case message_step attrs im st of
        (Some e, st') \<Rightarrow> (Some e, st')
      | (None, st') \<Rightarrow> message_loop attrs ims st')"

text \<open>
  The body of the loop over the files is a \<^verbatim>\<open>try\<close> block whose handler
  \<^verbatim>\<open>except Exception as e: print(...); continue\<close> catches every exception, the
  \<^verbatim>\<open>ValueError\<close> of the baud-rate check included.
\<close>

definition file_step :: "dbc_file_result \<Rightarrow> channel_state \<Rightarrow> channel_state" where
  "file_step file_result st =
     (case file_result of
        Inl e \<Rightarrow> st
      | Inr (current_file_messages, current_file_attributes) \<Rightarrow>
          snd (message_loop current_file_attributes current_file_messages st))"

definition final_message :: "AggregatedMessageData \<Rightarrow> DBCMessage" where
  "final_message agg_data =
     \<lparr>msg_id = agg_id agg_data, msg_name = agg_name agg_data, msg_dlc = agg_dlc agg_data,
      node_name = agg_node_name agg_data, msg_signals = map snd (signals_dict agg_data),
      attributes = agg_attributes agg_data\<rparr>"

definition parse_dbcs_for_channel ::
  "dbc_file_result list \<Rightarrow> py_error + ((int \<times> DBCMessage) list \<times> attribute_dict)" where
  "parse_dbcs_for_channel file_results =
     (let st = fold file_step file_results channel_state_init
      in Inr (map (\<lambda>(mid, agg_data). (mid, final_message agg_data))
                (channel_messages_aggregated st),
              global_attributes_aggregated st))"

text \<open>Two database files for one channel with different explicit baud rates.\<close>

definition msg_M1 :: DBCMessage where
  "msg_M1 = \<lparr>msg_id = 0x100, msg_name = ''M1'', msg_dlc = Some 8, node_name = Some ''ECU1'',
             msg_signals = [sig_B],
             attributes = [(''_is_extended_format_dbc_'', ABool False),
                           (''_dbc_raw_id_'', AInt 0x100)]\<rparr>"

definition msg_M2 :: DBCMessage where
  "msg_M2 = \<lparr>msg_id = 0x200, msg_name = ''M2'', msg_dlc = Some 8, node_name = Some ''ECU2'',
             msg_signals = [sig_C],
             attributes = [(''_is_extended_format_dbc_'', ABool False),
                           (''_dbc_raw_id_'', AInt 0x200)]\<rparr>"

definition dbc_500k :: dbc_file_result where
  "dbc_500k = Inr ([(0x100, msg_M1)],
                   [(''Baudrate'', AInt 500000), (''_Baudrate_source'', AStr ''explicit'')])"

definition dbc_250k :: dbc_file_result where
  "dbc_250k = Inr ([(0x200, msg_M2)],
                   [(''Baudrate'', AInt 250000), (''_Baudrate_source'', AStr ''explicit'')])"

subsection \<open>LIN description data\<close>

text \<open>
  \<^verbatim>\<open>LDFData\<close>. The \<^verbatim>\<open>nodes\<close> dictionary has the keys \<^verbatim>\<open>master\<close>,
  \<^verbatim>\<open>master_timebase_s\<close>, \<^verbatim>\<open>master_jitter_s\<close>, \<^verbatim>\<open>slaves\<close> and
  \<^verbatim>\<open>slaves_with_error_signal\<close>; a key that may be absent is an option. An entry of
  \<^verbatim>\<open>signal_encoding\<close> is a dictionary with optional keys.
\<close>

record ldf_nodes =
  master :: "string option"
  master_timebase_s :: "real option"
  master_jitter_s :: "real option"
  slaves :: "string list"
  slaves_with_error_signal :: "(string \<times> string) list"

record encoding_details =
  enc_factor :: "real option"
  enc_offset :: "real option"
  enc_unit :: "string option"
  enc_min_value :: "real option"
  enc_max_value :: "real option"
  enc_logical_map :: "(int \<times> string) list option"
  enc_encoding_type :: "string option"

record LDFData =
  nodes :: ldf_nodes
  frames :: "(string \<times> LDFFrame) list"
  schedules :: schedule_dict
  signal_encoding :: "(string \<times> encoding_details) list"

subsection \<open>Schedule adherence state machine\<close>

datatype event_details =
  NoDetails | TriggerFrame string | SequenceMismatch "string list" string | FrameName string

record schedule_event =
  ev_ts :: real
  ev_type :: string
  ev_details :: event_details

text \<open>
  \<^verbatim>\<open>log_stats['schedule_runtime_state']\<close>. The key \<^verbatim>\<open>'id'\<close> is absent until the first
  cycle start writes it; reading it while absent raises \<^verbatim>\<open>KeyError\<close>.
\<close>

record schedule_runtime_state =
  active_schedules :: "string list"
  current_index :: nat
  last_event_timestamp :: "real option"
  cycle_start_timestamp :: "real option"
  cycle_log :: "schedule_event list"
  cycle_id :: int
  has_timing_errors :: bool
  rs_id :: "int option"

record cycle_record =
  cy_id :: int
  schedule_name :: string
  start_ts :: real
  end_ts :: real
  status :: string
  events :: "schedule_event list"
  had_timing_errors :: bool

text \<open>
  The accumulators; \<^verbatim>\<open>float('inf')\<close> and \<^verbatim>\<open>float('-inf')\<close> as initial minimum and
  maximum are \<^const>\<open>None\<close>. The nested \<^verbatim>\<open>defaultdict\<close> \<^verbatim>\<open>slave_reliability\<close> is keyed
  here by the pair of publisher and frame name.
\<close>

record slot_timing =
  sum_ms :: real
  sum_sq_ms :: real
  slot_count :: nat
  min_ms :: "real option"
  max_ms :: "real option"

definition slot_timing_factory :: slot_timing where
  "slot_timing_factory =
     \<lparr>sum_ms = 0, sum_sq_ms = 0, slot_count = 0, min_ms = None, max_ms = None\<rparr>"

record timing_mismatch =
  tm_count :: nat
  sum_observed_ms :: real
  min_observed_ms :: "real option"
  max_observed_ms :: "real option"
  expected_ms :: real
  tm_frame_name :: string
  tm_publisher :: "string option"
  tm_first_ts :: "real option"
  tm_last_ts :: "real option"

definition timing_mismatch_factory :: timing_mismatch where
  "timing_mismatch_factory =
     \<lparr>tm_count = 0, sum_observed_ms = 0, min_observed_ms = None, max_observed_ms = None,
      expected_ms = 0, tm_frame_name = [], tm_publisher = Some [], tm_first_ts = None,
      tm_last_ts = None\<rparr>"

record reliability =
  requests :: nat
  responses :: nat

record schedule_stats =
  schedule_runtime :: schedule_runtime_state
  cycles :: "cycle_record list"
  global_errors :: "schedule_event list"
  schedule_slot_timing :: "(string \<times> nat) \<rightharpoonup> slot_timing"
  slave_reliability :: "(string \<times> string) \<rightharpoonup> reliability"
  schedule_timing_mismatches :: "(string \<times> nat) \<rightharpoonup> timing_mismatch"

definition schedule_stats_init :: schedule_stats where
  "schedule_stats_init =
     \<lparr>schedule_runtime =
        \<lparr>active_schedules = [], current_index = 0, last_event_timestamp = None,
         cycle_start_timestamp = None, cycle_log = [], cycle_id = 0,
         has_timing_errors = False, rs_id = None\<rparr>,
      cycles = [], global_errors = [], schedule_slot_timing = Map.empty,
      slave_reliability = Map.empty, schedule_timing_mismatches = Map.empty\<rparr>"

text \<open>The nested helpers \<^verbatim>\<open>_reset_state\<close>, \<^verbatim>\<open>_log_cycle_event\<close> and \<^verbatim>\<open>_finalize_cycle\<close>.\<close>

definition reset_state :: "schedule_stats \<Rightarrow> schedule_stats" where
  "reset_state ls =
     ls\<lparr>schedule_runtime := (schedule_runtime ls)
          \<lparr>active_schedules := [], current_index := 0, last_event_timestamp := None,
           cycle_start_timestamp := None, cycle_log := [],
           cycle_id := cycle_id (schedule_runtime ls) + 1,
           has_timing_errors := False\<rparr>\<rparr>"

definition log_cycle_event ::
  "real \<Rightarrow> string \<Rightarrow> event_details \<Rightarrow> schedule_stats \<Rightarrow> schedule_stats" where
  "log_cycle_event current_ts event_type details ls =
     ls\<lparr>schedule_runtime := (schedule_runtime ls)
          \<lparr>cycle_log := cycle_log (schedule_runtime ls) @
             [\<lparr>ev_ts = current_ts, ev_type = event_type, ev_details = details\<rparr>]\<rparr>\<rparr>"

text \<open>
  \<^verbatim>\<open>if not state.get('cycle_start_timestamp')\<close> holds for \<^verbatim>\<open>None\<close> and also for the
  timestamp \<open>0.0\<close>.
\<close>

definition falsy_timestamp :: "real option \<Rightarrow> bool" where
  "falsy_timestamp t = (case t of None \<Rightarrow> True | Some x \<Rightarrow> x = 0)"

definition finalize_cycle :: "real \<Rightarrow> string \<Rightarrow> schedule_stats \<Rightarrow> py_error + schedule_stats" where
  "finalize_cycle current_ts cycle_status ls =
     (let state = schedule_runtime ls in
      if falsy_timestamp (cycle_start_timestamp state) then Inr (reset_state ls)
      else
        (let final_schedule_name =
               (if length (active_schedules state) = 1 then hd (active_schedules state)
                else ''Ambiguous'')
         in if cycle_log state \<noteq> [] then
              (case rs_id state of
                 None \<Rightarrow> Inl KeyError
               | Some i \<Rightarrow>
                   Inr (reset_state
                          (ls\<lparr>cycles := cycles ls @
                                [\<lparr>cy_id = i, schedule_name = final_schedule_name,
                                  start_ts = the (cycle_start_timestamp state),
                                  end_ts = current_ts, status = cycle_status,
                                  events = cycle_log state,
                                  had_timing_errors = has_timing_errors state\<rparr>]\<rparr>)))
            else Inr (reset_state ls)))"

text \<open>\<^verbatim>\<open>ldf_data.schedules[sched_name]\<close>: a missing key raises \<^verbatim>\<open>KeyError\<close>.\<close>

definition schedule_of :: "LDFData \<Rightarrow> string \<Rightarrow> py_error + ScheduleEntry list" where
  "schedule_of ldf_data sched_name =
     (case map_of (schedules ldf_data) sched_name of
        None \<Rightarrow> Inl KeyError | Some s \<Rightarrow> Inr s)"

text \<open>
  \<^verbatim>\<open>check_and_finalize_if_complete\<close>. Both call sites return from the validator
  whatever the Boolean result is, so only the state is kept.
\<close>

definition check_and_finalize_if_complete ::
  "LDFData \<Rightarrow> real \<Rightarrow> schedule_stats \<Rightarrow> py_error + schedule_stats" where
  "check_and_finalize_if_complete ldf_data current_ts ls =
     (let state = schedule_runtime ls in
      if length (active_schedules state) = 1 then
        (case schedule_of ldf_data (hd (active_schedules state)) of
           Inl e \<Rightarrow> Inl e
         | Inr sched \<Rightarrow>
             if current_index state \<ge> length sched
             then finalize_cycle current_ts ''Completed''
                    (log_cycle_event current_ts ''Cycle Completed'' NoDetails ls)
             else Inr ls)
      else Inr ls)"

text \<open>The branch \<^verbatim>\<open>if not state.get('active_schedules')\<close> of the loop.\<close>

definition candidate_schedules :: "LDFData \<Rightarrow> string \<Rightarrow> string list" where
  "candidate_schedules ldf_data current_frame_name =
     map fst (filter (\<lambda>(n, s). s \<noteq> [] \<and> frame_name (hd s) = current_frame_name)
                (schedules ldf_data))"

definition start_cycle_or_intrusion ::
  "LDFData \<Rightarrow> real \<Rightarrow> string \<Rightarrow> schedule_stats \<Rightarrow> py_error + schedule_stats" where
  "start_cycle_or_intrusion ldf_data current_ts current_frame_name ls =
     (let cands = candidate_schedules ldf_data current_frame_name in
      if cands \<noteq> [] then
        check_and_finalize_if_complete ldf_data current_ts
          (log_cycle_event current_ts ''Cycle Start'' (TriggerFrame current_frame_name)
             (ls\<lparr>schedule_runtime := (schedule_runtime ls)
                   \<lparr>active_schedules := sort cands, current_index := 1,
                    last_event_timestamp := Some current_ts,
                    cycle_start_timestamp := Some current_ts,
                    rs_id := Some (cycle_id (schedule_runtime ls))\<rparr>\<rparr>))
      else
        Inr (ls\<lparr>global_errors := global_errors ls @
                  [\<lparr>ev_ts = current_ts, ev_type = ''Intrusion Frame'',
                    ev_details = FrameName current_frame_name\<rparr>]\<rparr>))"

text \<open>
  The dictionary \<^verbatim>\<open>expected_frames_info\<close>: for every active schedule that still has an
  entry at the cursor, the name of the frame of that entry, with the schedules expecting
  it.
\<close>

primrec expected_frames_info ::
  "LDFData \<Rightarrow> nat \<Rightarrow> string list \<Rightarrow> (string \<times> string list) list \<Rightarrow>
   py_error + (string \<times> string list) list" where
  "expected_frames_info ldf_data current_idx [] info = Inr info"
| "expected_frames_info ldf_data current_idx (sched_name # rest) info =
     (case schedule_of ldf_data sched_name of
        Inl e \<Rightarrow> Inl e
      | Inr sched \<Rightarrow>
          expected_frames_info ldf_data current_idx rest
            (if current_idx < length sched
             then dd_append (frame_name (sched ! current_idx)) sched_name info
             else info))"

text \<open>Python truth value of \<^verbatim>\<open>frame_def.publisher\<close>, then the comparison with the master.\<close>

definition slave_publisher :: "LDFData \<Rightarrow> string \<Rightarrow> string option" where
  "slave_publisher ldf_data fname =
     (case map_of (frames ldf_data) fname of
        None \<Rightarrow> None
      | Some frame_def \<Rightarrow>
          (case fr_publisher frame_def of
             None \<Rightarrow> None
           | Some p \<Rightarrow> if p \<noteq> [] \<and> Some p \<noteq> master (nodes ldf_data) then Some p else None))"

definition bump_requests :: "LDFData \<Rightarrow> string \<Rightarrow> schedule_stats \<Rightarrow> schedule_stats" where
  "bump_requests ldf_data fname ls =
     (case slave_publisher ldf_data fname of
        None \<Rightarrow> ls
      | Some p \<Rightarrow>
          (let r = (case slave_reliability ls (p, fname) of
                      None \<Rightarrow> \<lparr>requests = 0, responses = 0\<rparr> | Some r \<Rightarrow> r)
           in ls\<lparr>slave_reliability :=
                   (slave_reliability ls)((p, fname) \<mapsto> r\<lparr>requests := requests r + 1\<rparr>)\<rparr>))"

definition bump_responses :: "LDFData \<Rightarrow> string \<Rightarrow> schedule_stats \<Rightarrow> schedule_stats" where
  "bump_responses ldf_data fname ls =
     (case slave_publisher ldf_data fname of
        None \<Rightarrow> ls
      | Some p \<Rightarrow>
          (let r = (case slave_reliability ls (p, fname) of
                      None \<Rightarrow> \<lparr>requests = 0, responses = 0\<rparr> | Some r \<Rightarrow> r)
           in ls\<lparr>slave_reliability :=
                   (slave_reliability ls)((p, fname) \<mapsto> r\<lparr>responses := responses r + 1\<rparr>)\<rparr>))"

definition opt_min :: "real option \<Rightarrow> real \<Rightarrow> real" where
  "opt_min m x = (case m of None \<Rightarrow> x | Some y \<Rightarrow> min y x)"

definition opt_max :: "real option \<Rightarrow> real \<Rightarrow> real" where
  "opt_max m x = (case m of None \<Rightarrow> x | Some y \<Rightarrow> max y x)"

text \<open>
  The body of \<^verbatim>\<open>for sched_name in potential_matches\<close>: slot statistics and the timing
  check of one schedule. \<open>last_ts\<close> is \<^verbatim>\<open>state['last_event_timestamp']\<close>.
\<close>

definition slot_step ::
  "LDFData \<Rightarrow> real \<Rightarrow> real \<Rightarrow> real \<Rightarrow> string \<Rightarrow> nat \<Rightarrow> real \<Rightarrow> string \<Rightarrow>
   schedule_stats \<Rightarrow> py_error + schedule_stats" where
  "slot_step ldf_data tolerance_factor min_absolute_tolerance_s current_ts current_frame_name
     current_idx last_ts sched_name ls =
     (case schedule_of ldf_data sched_name of
        Inl e \<Rightarrow> Inl e
      | Inr sched \<Rightarrow>
          if \<not> current_idx < length sched then Inl IndexError
          else
            (let expected_delay_ms = real_of_int (delay_ms (sched ! current_idx));
                 observed_delay_s = current_ts - last_ts;
                 observed_delay_ms = observed_delay_s * 1000;
                 slot_key = (sched_name, current_idx);
                 stats = (case schedule_slot_timing ls slot_key of
                            None \<Rightarrow> slot_timing_factory | Some s \<Rightarrow> s);
                 stats' = stats\<lparr>sum_ms := sum_ms stats + observed_delay_ms,
                               sum_sq_ms := sum_sq_ms stats + observed_delay_ms ^ 2,
                               slot_count := slot_count stats + 1,
                               min_ms := Some (opt_min (min_ms stats) observed_delay_ms),
                               max_ms := Some (opt_max (max_ms stats) observed_delay_ms)\<rparr>;
                 ls1 = ls\<lparr>schedule_slot_timing :=
                           (schedule_slot_timing ls)(slot_key \<mapsto> stats')\<rparr>;
                 jitter_s = (case master_jitter_s (nodes ldf_data) of
                               None \<Rightarrow> 0 | Some j \<Rightarrow> j);
                 tolerance_abs =
                   max ((expected_delay_ms / 1000) * tolerance_factor)
                     min_absolute_tolerance_s + jitter_s
             in if \<not> (\<bar>observed_delay_s - expected_delay_ms / 1000\<bar> \<le> tolerance_abs) then
                  (let m = (case schedule_timing_mismatches ls1 slot_key of
                              None \<Rightarrow> timing_mismatch_factory | Some m \<Rightarrow> m);
                       m1 = m\<lparr>tm_count := tm_count m + 1,
                              sum_observed_ms := sum_observed_ms m + observed_delay_ms,
                              min_observed_ms :=
                                Some (opt_min (min_observed_ms m) observed_delay_ms),
                              max_observed_ms :=
                                Some (opt_max (max_observed_ms m) observed_delay_ms)\<rparr>;
                       m2 = (if tm_first_ts m1 = None
                             then m1\<lparr>tm_first_ts := Some current_ts,
                                     expected_ms := expected_delay_ms,
                                     tm_frame_name := current_frame_name,
                                     tm_publisher :=
                                       (case map_of (frames ldf_data) current_frame_name of
                                          None \<Rightarrow> Some ''N/A''
                                        | Some frame_def \<Rightarrow> fr_publisher frame_def)\<rparr>
                             else m1)
                   in Inr (ls1\<lparr>schedule_runtime :=
                                 (schedule_runtime ls1)\<lparr>has_timing_errors := True\<rparr>,
                               schedule_timing_mismatches :=
                                 (schedule_timing_mismatches ls1)
                                   (slot_key \<mapsto> m2\<lparr>tm_last_ts := Some current_ts\<rparr>)\<rparr>))
                else Inr ls1))"

primrec slot_loop ::
  "(string \<Rightarrow> schedule_stats \<Rightarrow> py_error + schedule_stats) \<Rightarrow> string list \<Rightarrow>
   schedule_stats \<Rightarrow> py_error + schedule_stats" where
  "slot_loop step [] ls = Inr ls"
| "slot_loop step (sched_name # rest) ls =
     (case step sched_name ls of
        Inl e \<Rightarrow> Inl e
      | Inr ls' \<Rightarrow> slot_loop step rest ls')"

text \<open>
  The branch \<^verbatim>\<open>if current_frame_name in expected_frames_info\<close>. Subtracting
  \<^verbatim>\<open>state['last_event_timestamp']\<close> while it is \<^verbatim>\<open>None\<close> raises \<^verbatim>\<open>TypeError\<close>.
\<close>

definition matched_slot ::
  "LDFData \<Rightarrow> real \<Rightarrow> real \<Rightarrow> real \<Rightarrow> string \<Rightarrow> string list \<Rightarrow>
   schedule_stats \<Rightarrow> py_error + schedule_stats" where
  "matched_slot ldf_data tolerance_factor min_absolute_tolerance_s current_ts
     current_frame_name potential_matches ls =
     (let ls1 = bump_responses ldf_data current_frame_name ls;
          current_idx = current_index (schedule_runtime ls1)
      in case (case potential_matches of
                 [] \<Rightarrow> Inr ls1
               | _ \<Rightarrow>
                   (case last_event_timestamp (schedule_runtime ls1) of
                      None \<Rightarrow> Inl TypeError
                    | Some last_ts \<Rightarrow>
                        slot_loop
                          (slot_step ldf_data tolerance_factor min_absolute_tolerance_s
                             current_ts current_frame_name current_idx last_ts)
                          potential_matches ls1)) of
           Inl e \<Rightarrow> Inl e
         | Inr ls2 \<Rightarrow>
             check_and_finalize_if_complete ldf_data current_ts
               (ls2\<lparr>schedule_runtime := (schedule_runtime ls2)
                     \<lparr>active_schedules := sort potential_matches,
                      current_index := current_index (schedule_runtime ls2) + 1,
                      last_event_timestamp := Some current_ts\<rparr>\<rparr>))"

lemma finalize_cycle_resets:
  "finalize_cycle current_ts cycle_status ls = Inr ls' \<Longrightarrow>
   active_schedules (schedule_runtime ls') = []"
  by (auto simp: finalize_cycle_def reset_state_def Let_def split: if_splits option.splits)

text \<open>
  The \<^verbatim>\<open>while True\<close> loop of \<^verbatim>\<open>validate_schedule_order_and_presence\<close>. A
  \<^verbatim>\<open>continue\<close> is the recursive call; it is only reached after \<^verbatim>\<open>_finalize_cycle\<close>,
  which empties \<^verbatim>\<open>active_schedules\<close>, so the next iteration takes the first branch and
  returns.
\<close>

function schedule_loop ::
  "LDFData \<Rightarrow> real \<Rightarrow> real \<Rightarrow> real \<Rightarrow> string \<Rightarrow> schedule_stats \<Rightarrow>
   py_error + schedule_stats" where
  "schedule_loop ldf_data tolerance_factor min_absolute_tolerance_s current_ts
     current_frame_name ls =
     (if active_schedules (schedule_runtime ls) = [] then
        start_cycle_or_intrusion ldf_data current_ts current_frame_name ls
      else
        (case expected_frames_info ldf_data (current_index (schedule_runtime ls))
                (active_schedules (schedule_runtime ls)) [] of
           Inl e \<Rightarrow> Inl e
         | Inr info \<Rightarrow>
             if info = [] then
               (case finalize_cycle current_ts ''Aborted'' ls of
                  Inl e \<Rightarrow> Inl e
                | Inr ls' \<Rightarrow>
                    schedule_loop ldf_data tolerance_factor min_absolute_tolerance_s
                      current_ts current_frame_name ls')
             else
               (let ls1 = fold (bump_requests ldf_data) (map fst info) ls in
                case map_of info current_frame_name of
                  Some potential_matches \<Rightarrow>
                    matched_slot ldf_data tolerance_factor min_absolute_tolerance_s
                      current_ts current_frame_name potential_matches ls1
                | None \<Rightarrow>
                    (case finalize_cycle current_ts ''Aborted''
                            (log_cycle_event current_ts ''Sequence Mismatch''
                               (SequenceMismatch (map fst info) current_frame_name) ls1) of
                       Inl e \<Rightarrow> Inl e
                     | Inr ls' \<Rightarrow>
                         schedule_loop ldf_data tolerance_factor min_absolute_tolerance_s
                           current_ts current_frame_name ls'))))"
  by pat_completeness auto
termination
  by (relation "measure (\<lambda>(ldf_data, tf, mt, ts, fname, ls).
                  if active_schedules (schedule_runtime ls) = [] then 0 else 1)")
    (auto dest: finalize_cycle_resets)

declare schedule_loop.simps [simp del]

definition validate_schedule_order_and_presence ::
  "LogEntry \<Rightarrow> LDFData \<Rightarrow> (int \<rightharpoonup> LDFFrame) \<Rightarrow> schedule_stats \<Rightarrow> real \<Rightarrow> real \<Rightarrow>
   py_error + schedule_stats" where
  "validate_schedule_order_and_presence entry ldf_data ldf_id_to_frame_map ls
     tolerance_factor min_absolute_tolerance_s =
     (if type entry \<notin> {''Rx'', ''TransmErr'', ''RcvError''} then Inr ls
      else
        (case ldf_id_to_frame_map (frame_id_int entry) of
           None \<Rightarrow> Inr ls
         | Some current_frame_obj \<Rightarrow>
             schedule_loop ldf_data tolerance_factor min_absolute_tolerance_s
               (timestamp entry) (fr_name current_frame_obj) ls))"

text \<open>Feeding a list of records to the validator, stopping at the first exception.\<close>

primrec validate_schedule_all ::
  "LDFData \<Rightarrow> (int \<rightharpoonup> LDFFrame) \<Rightarrow> real \<Rightarrow> real \<Rightarrow> LogEntry list \<Rightarrow> schedule_stats \<Rightarrow>
   py_error + schedule_stats" where
  "validate_schedule_all ldf_data m tf mt [] ls = Inr ls"
| "validate_schedule_all ldf_data m tf mt (entry # rest) ls =
     (case validate_schedule_order_and_presence entry ldf_data m ls tf mt of
        Inl e \<Rightarrow> Inl e
      | Inr ls' \<Rightarrow> validate_schedule_all ldf_data m tf mt rest ls')"

text \<open>
  Auxiliary notions for the proofs about the schedule state machine: the invariant that
  the key \<^verbatim>\<open>'id'\<close> is present whenever a cycle start timestamp is, and the state that
  \<^verbatim>\<open>_finalize_cycle("Aborted")\<close> receives when the observed frame is not among the
  expected ones (with a \<^verbatim>\<open>Sequence Mismatch\<close> event unless nothing was expected).
\<close>

definition cursor_inv :: "schedule_stats \<Rightarrow> bool" where
  "cursor_inv ls \<longleftrightarrow>
     (rs_id (schedule_runtime ls) = None \<longrightarrow> cycle_start_timestamp (schedule_runtime ls) = None)"

definition no_match_state ::
  "LDFData \<Rightarrow> real \<Rightarrow> string \<Rightarrow> (string \<times> string list) list \<Rightarrow> schedule_stats \<Rightarrow>
   schedule_stats" where
  "no_match_state ldf_data current_ts current_frame_name info ls =
     (if info = [] then ls
      else log_cycle_event current_ts ''Sequence Mismatch''
             (SequenceMismatch (map fst info) current_frame_name)
             (fold (bump_requests ldf_data) (map fst info) ls))"

text \<open>
  A cluster with master \<open>M\<close>, slave \<open>S\<close>, three frames and two schedule tables that list
  the same frames with different delays.
\<close>

definition frame_F :: "string \<Rightarrow> int \<Rightarrow> string \<Rightarrow> LDFFrame" where
  "frame_F n i p =
     \<lparr>fr_name = n, fr_id = Some i, fr_publisher = Some p, fr_dlc = Some 2, fr_signals = [],
      fr_frame_type = ''standard'', fr_associated_frames = []\<rparr>"

definition ldf_AB :: LDFData where
  "ldf_AB =
     \<lparr>nodes = \<lparr>master = Some ''M'', master_timebase_s = Some (5 / 1000),
                master_jitter_s = Some 0, slaves = [''S''], slaves_with_error_signal = []\<rparr>,
      frames = [(''F1'', frame_F ''F1'' 1 ''M''), (''F2'', frame_F ''F2'' 2 ''S''),
                (''F3'', frame_F ''F3'' 3 ''S'')],
      schedules =
        [(''A'', [\<lparr>frame_name = ''F1'', delay_ms = 10\<rparr>, \<lparr>frame_name = ''F2'', delay_ms = 10\<rparr>]),
         (''B'', [\<lparr>frame_name = ''F1'', delay_ms = 20\<rparr>, \<lparr>frame_name = ''F2'', delay_ms = 20\<rparr>])],
      signal_encoding = []\<rparr>"

definition frame_map_AB :: "int \<rightharpoonup> LDFFrame" where
  "frame_map_AB =
     [1 \<mapsto> frame_F ''F1'' 1 ''M'', 2 \<mapsto> frame_F ''F2'' 2 ''S'', 3 \<mapsto> frame_F ''F3'' 3 ''S'']"

definition rx :: "real \<Rightarrow> int \<Rightarrow> LogEntry" where
  "rx ts fid = bare_entry ts ''LIN'' fid [0, 0]"

definition cursor_after_F1 :: schedule_stats where
  "cursor_after_F1 =
     schedule_stats_init\<lparr>schedule_runtime :=
       \<lparr>active_schedules = [''A'', ''B''], current_index = 1,
        last_event_timestamp = Some (1 / 10), cycle_start_timestamp = Some (1 / 10),
        cycle_log = [\<lparr>ev_ts = 1 / 10, ev_type = ''Cycle Start'',
                      ev_details = TriggerFrame ''F1''\<rparr>],
        cycle_id = 0, has_timing_errors = False, rs_id = Some 0\<rparr>\<rparr>"

subsection \<open>Log tokenizer\<close>

text \<open>
  \<^verbatim>\<open>parse_log\<close> matches every stripped line against seven compiled regular expressions
  and then works on the group dictionaries of the matches. The model starts there: a line
  is given by its stripped text and, for each pattern, the group dictionary of the match
  (\<^const>\<open>None\<close> when the pattern does not match; a group that did not take part in the
  match has no entry).
\<close>

type_synonym groupdict = "(string \<times> string) list"

record line_matches =
  raw_line_stripped :: string
  m_spike :: "groupdict option"
  m_transerr :: "groupdict option"
  m_rcverr :: "groupdict option"
  m_lin :: "groupdict option"
  m_event :: "groupdict option"
  m_canfd :: "groupdict option"
  m_can :: "groupdict option"

text \<open>
  The conversions \<^verbatim>\<open>int(s, 16)\<close>, \<^verbatim>\<open>int(s)\<close> and \<^verbatim>\<open>float(s)\<close> on the strings that the
  patterns can capture (digits, hexadecimal digits, digits with a decimal point, with
  surrounding blanks); \<^const>\<open>None\<close> stands for \<^verbatim>\<open>ValueError\<close>.
\<close>

definition digit_val :: "nat \<Rightarrow> char \<Rightarrow> nat option" where
  "digit_val base c =
     (let n = (of_char c :: nat);
          v = (if 48 \<le> n \<and> n \<le> 57 then Some (n - 48)
               else if 97 \<le> n \<and> n \<le> 102 then Some (n - 87)
               else if 65 \<le> n \<and> n \<le> 70 then Some (n - 55)
               else None)
      in case v of None \<Rightarrow> None | Some d \<Rightarrow> if d < base then Some d else None)"

primrec digits_val :: "nat \<Rightarrow> string \<Rightarrow> nat \<Rightarrow> nat option" where
  "digits_val base [] acc = Some acc"
| "digits_val base (c # cs) acc =
     (case digit_val base c of
        None \<Rightarrow> None
      | Some d \<Rightarrow> digits_val base cs (acc * base + d))"

definition is_blank :: "char \<Rightarrow> bool" where
  "is_blank c = (c = CHR '' '' \<or> c = CHR 0x09 \<or> c = CHR 0x0A \<or> c = CHR 0x0D)"

definition strip :: "string \<Rightarrow> string" where
  "strip s = rev (dropWhile is_blank (rev (dropWhile is_blank s)))"

definition py_int :: "nat \<Rightarrow> string \<Rightarrow> int option" where
  "py_int base s =
     (let t = strip s in
      if t = [] then None else map_option int (digits_val base t 0))"

definition py_float :: "string \<Rightarrow> real option" where
  "py_float s =
     (let t = strip s;
          ip = takeWhile (\<lambda>c. c \<noteq> CHR ''.'') t;
          fp = drop 1 (dropWhile (\<lambda>c. c \<noteq> CHR ''.'') t)
      in if ip = [] \<and> fp = [] then None
         else
           (case (digits_val 10 ip 0, digits_val 10 fp 0) of
              (Some i, Some f) \<Rightarrow> Some (real i + real f / 10 ^ length fp)
            | _ \<Rightarrow> None))"

text \<open>\<^verbatim>\<open>s.split()\<close>: the maximal runs of non-blank characters.\<close>

fun split_blank :: "string \<Rightarrow> string \<Rightarrow> string list" where
  "split_blank [] cur = (if cur = [] then [] else [rev cur])"
| "split_blank (c # cs) cur =
     (if is_blank c then (if cur = [] then split_blank cs [] else rev cur # split_blank cs [])
      else split_blank cs (c # cur))"

text \<open>Python truth value of \<^verbatim>\<open>match_dict.get(k)\<close>: present and not empty.\<close>

definition group :: "groupdict \<Rightarrow> string \<Rightarrow> string option" where
  "group match_dict k =
     (case map_of match_dict k of
        None \<Rightarrow> None
      | Some v \<Rightarrow> if v = [] then None else Some v)"

primrec all_some :: "'a option list \<Rightarrow> 'a list option" where
  "all_some [] = Some []"
| "all_some (x # xs) =
     (case x of
        None \<Rightarrow> None
      | Some v \<Rightarrow> map_option ((#) v) (all_some xs))"

definition hex_bytes :: "groupdict \<Rightarrow> int list option" where
  "hex_bytes match_dict =
     (case group match_dict ''data'' of
        None \<Rightarrow> Some []
      | Some d \<Rightarrow> all_some (map (py_int 16) (split_blank d [])))"

text \<open>An optional numeric field: absent is \<^verbatim>\<open>None\<close>, unparsable raises.\<close>

definition optional_field ::
  "(string \<Rightarrow> 'a option) \<Rightarrow> groupdict \<Rightarrow> string \<Rightarrow> 'a option option" where
  "optional_field conv match_dict k =
     (case group match_dict k of
        None \<Rightarrow> Some None
      | Some v \<Rightarrow> map_option Some (conv v))"

definition plain_entry :: "real \<Rightarrow> string \<Rightarrow> string \<Rightarrow> int \<Rightarrow> string \<Rightarrow> int list \<Rightarrow> string \<Rightarrow> LogEntry" where
  "plain_entry ts ch fid fid_int ty bytes raw =
     \<lparr>timestamp = ts, channel = ch, frame_id = fid, frame_id_int = fid_int, type = ty,
      data = bytes, raw_line = raw, declared_checksum = None, csm = None,
      physical_metadata = None, event_channel = None, full_time_tbit = None,
      header_time_tbit = None\<rparr>"

text \<open>
  The \<^verbatim>\<open>if\<close>/\<^verbatim>\<open>elif\<close> chain inside the \<^verbatim>\<open>try\<close> block, one function per branch. The
  handler \<^verbatim>\<open>except (ValueError, TypeError, KeyError): log_entry = None\<close> makes every
  failed conversion and every missing mandatory group yield no entry.
\<close>

definition spike_entry :: "string \<Rightarrow> groupdict \<Rightarrow> LogEntry option" where
  "spike_entry raw match_dict = do {
     ts_str \<leftarrow> map_of match_dict ''ts'';
     ts \<leftarrow> py_float ts_str;
     Some (plain_entry ts ''LIN'' ''Spike'' (- 1) ''Spike'' [] raw)
   }"

definition error_entry :: "string \<Rightarrow> string \<Rightarrow> groupdict \<Rightarrow> LogEntry option" where
  "error_entry raw err_type match_dict = do {
     let frame_id_str = (case group match_dict ''id'' of None \<Rightarrow> err_type | Some v \<Rightarrow> v);
     let frame_id_int =
           (if frame_id_str \<noteq> [] \<and> frame_id_str \<noteq> err_type
            then (case py_int 16 frame_id_str of None \<Rightarrow> - 1 | Some v \<Rightarrow> v)
            else - 1);
     let full_time_val = (case group match_dict ''full_time'' of
                            None \<Rightarrow> None | Some v \<Rightarrow> py_float v);
     let header_time_val = (case group match_dict ''header_time'' of
                              None \<Rightarrow> None | Some v \<Rightarrow> py_float v);
     ts_str \<leftarrow> map_of match_dict ''ts'';
     ts \<leftarrow> py_float ts_str;
     Some ((plain_entry ts ''LIN'' frame_id_str frame_id_int err_type [] raw)
             \<lparr>full_time_tbit := full_time_val, header_time_tbit := header_time_val\<rparr>)
   }"

definition lin_entry :: "string \<Rightarrow> groupdict \<Rightarrow> LogEntry option" where
  "lin_entry raw match_dict = do {
     frame_id_str \<leftarrow> map_of match_dict ''id'';
     frame_id_int \<leftarrow> py_int 16 frame_id_str;
     data_bytes \<leftarrow> hex_bytes match_dict;
     checksum_val \<leftarrow> optional_field (py_int 16) match_dict ''checksum'';
     let meta = concat (map (\<lambda>k. case group match_dict k of
                                     None \<Rightarrow> [] | Some v \<Rightarrow> [(k, v)])
                  [''sof'', ''br'', ''break_info'', ''eoh'', ''eob'', ''eof'', ''rbr'',
                   ''hbr'', ''hso'', ''rso'']);
     full_time_val \<leftarrow> optional_field py_float match_dict ''full_time'';
     header_time_val \<leftarrow> optional_field py_float match_dict ''header_time'';
     ts_str \<leftarrow> map_of match_dict ''ts'';
     ts \<leftarrow> py_float ts_str;
     ty \<leftarrow> map_of match_dict ''type'';
     Some ((plain_entry ts ''LIN'' frame_id_str frame_id_int ty data_bytes raw)
             \<lparr>declared_checksum := checksum_val, csm := map_of match_dict ''csm'',
              physical_metadata := (if meta = [] then None else Some meta),
              full_time_tbit := full_time_val, header_time_tbit := header_time_val\<rparr>)
   }"

definition can_entry :: "string \<Rightarrow> string \<Rightarrow> bool \<Rightarrow> groupdict \<Rightarrow> LogEntry option" where
  "can_entry raw prefix strip_x match_dict = do {
     ts_str \<leftarrow> map_of match_dict ''ts'';
     ts \<leftarrow> py_float ts_str;
     ch \<leftarrow> map_of match_dict ''channel'';
     fid \<leftarrow> map_of match_dict ''id'';
     frame_id_int \<leftarrow>
       py_int 16 (if strip_x
                  then rev (dropWhile (\<lambda>c. c = CHR ''x'') (rev (lower fid)))
                  else fid);
     ty \<leftarrow> map_of match_dict ''type'';
     data_bytes \<leftarrow> hex_bytes match_dict;
     Some (plain_entry ts (prefix @ ch) fid frame_id_int ty data_bytes raw)
   }"

definition event_entry :: "string \<Rightarrow> groupdict \<Rightarrow> LogEntry option" where
  "event_entry raw match_dict = do {
     ts_str \<leftarrow> map_of match_dict ''ts'';
     ts \<leftarrow> py_float ts_str;
     ec \<leftarrow> optional_field (py_int 10) match_dict ''event_channel'';
     Some ((plain_entry ts ''LIN'' ''SleepModeEvent'' (- 1) ''SleepModeEvent'' [] raw)
             \<lparr>event_channel := ec\<rparr>)
   }"

definition parse_line :: "line_matches \<Rightarrow> LogEntry option" where
  "parse_line l =
     (let raw = raw_line_stripped l in
      case m_spike l of
        Some match_dict \<Rightarrow> spike_entry raw match_dict
      | None \<Rightarrow>
     (case m_transerr l of
        Some match_dict \<Rightarrow> error_entry raw ''TransmErr'' match_dict
      | None \<Rightarrow>
     (case m_rcverr l of
        Some match_dict \<Rightarrow> error_entry raw ''RcvError'' match_dict
      | None \<Rightarrow>
     (case m_lin l of
        Some match_dict \<Rightarrow> lin_entry raw match_dict
      | None \<Rightarrow>
     (case m_canfd l of
        Some match_dict \<Rightarrow> can_entry raw ''CANFD'' False match_dict
      | None \<Rightarrow>
     (case m_can l of
        Some match_dict \<Rightarrow> can_entry raw ''CAN'' True match_dict
      | None \<Rightarrow>
     (case m_event l of
        Some match_dict \<Rightarrow> event_entry raw match_dict
      | None \<Rightarrow> None)))))))"

text \<open>
  \<^verbatim>\<open>parse_log\<close>: the entries yielded for the lines of the file, in order. A line whose
  stripped text is empty is skipped before any matching.
\<close>

primrec parse_log :: "line_matches list \<Rightarrow> LogEntry list" where
  "parse_log [] = []"
| "parse_log (l # ls) =
     (if raw_line_stripped l = [] then parse_log ls
      else (case parse_line l of
              None \<Rightarrow> parse_log ls
            | Some log_entry \<Rightarrow> log_entry # parse_log ls))"

text \<open>
  \<^verbatim>\<open>log_stats['_internal_parse_stats']\<close>. The only statements of the program that write
  it are the two in the main loop of \<^verbatim>\<open>process_log_file\<close>: \<^verbatim>\<open>processed\<close> is incremented
  for every entry that \<^verbatim>\<open>parse_log\<close> yields, and \<^verbatim>\<open>skipped\<close> for every entry of a CAN
  channel without a loaded database (those entries are then dropped with
  \<^verbatim>\<open>continue\<close>). \<open>count_entry\<close> is the effect of one loop iteration on these counters,
  \<open>internal_parse_stats\<close> their value after the loop.
\<close>

record parse_stats =
  processed :: nat
  skipped :: nat

definition count_entry :: "string set \<Rightarrow> LogEntry \<Rightarrow> parse_stats \<Rightarrow> parse_stats" where
  "count_entry valid_can_channels entry st =
     (let st1 = st\<lparr>processed := processed st + 1\<rparr> in
      if starts_with (channel entry) ''CAN'' \<and> channel entry \<notin> valid_can_channels
      then st1\<lparr>skipped := skipped st1 + 1\<rparr>
      else st1)"

definition internal_parse_stats :: "string set \<Rightarrow> line_matches list \<Rightarrow> parse_stats" where
  "internal_parse_stats valid_can_channels lines =
     fold (count_entry valid_can_channels) (parse_log lines) \<lparr>processed = 0, skipped = 0\<rparr>"

text \<open>A line matched by none of the seven patterns.\<close>

definition matches_nothing :: "line_matches \<Rightarrow> bool" where
  "matches_nothing l \<longleftrightarrow>
     m_spike l = None \<and> m_transerr l = None \<and> m_rcverr l = None \<and> m_lin l = None
     \<and> m_canfd l = None \<and> m_can l = None \<and> m_event l = None"

definition unmatched_line :: "string \<Rightarrow> line_matches" where
  "unmatched_line s =
     \<lparr>raw_line_stripped = s, m_spike = None, m_transerr = None, m_rcverr = None,
      m_lin = None, m_event = None, m_canfd = None, m_can = None\<rparr>"

text \<open>
  The lines \<^verbatim>\<open>0.000 Li 01 Rx\<close> and \<^verbatim>\<open>0.010 2 100 Rx d 1 02\<close> with the groups that
  \<^verbatim>\<open>LIN_PATTERN\<close> and \<^verbatim>\<open>CAN_PATTERN\<close> capture.
\<close>

definition lin_line :: line_matches where
  "lin_line =
     (unmatched_line ''0.000 Li 01 Rx'')
       \<lparr>m_lin := Some [(''ts'', ''0.000''), (''id'', ''01''), (''type'', ''Rx''),
                       (''data'', [])]\<rparr>"

definition can_line :: line_matches where
  "can_line =
     (unmatched_line ''0.010 2 100 Rx d 1 02'')
       \<lparr>m_can := Some [(''ts'', ''0.010''), (''channel'', ''2''), (''id'', ''100''),
                       (''type'', ''Rx''), (''dl'', ''1''), (''data'', '' 02'')]\<rparr>"

subsection \<open>LDF parser\<close>

text \<open>
  \<^verbatim>\<open>parse_ldf\<close> locates the sections of the file with regular expressions and a
  brace scanner and then works on the captured groups. The model starts from these
  groups; every field below is named after the source expression that yields it.
  \<^item> \<open>nodes_match\<close>: the \<^verbatim>\<open>Nodes\<close> block, with the groups of \<^verbatim>\<open>MASTER_NODE_RE\<close> (name,
    time base, optional jitter) and the stripped non-empty names of \<^verbatim>\<open>SLAVE_NODES_RE\<close>;
  \<^item> \<open>signal_lines\<close>: for every line of the \<^verbatim>\<open>Signals\<close> block that has a colon, the
    stripped name and \<^verbatim>\<open>smart_split(rhs)\<close>;
  \<^item> \<open>signal_encoding_details\<close>: the dictionary built from the
    \<^verbatim>\<open>Signal_encoding_types\<close> block, whose construction raises nothing;
  \<^item> \<open>representation_lines\<close>: encoding name and signal names of every line of the
    \<^verbatim>\<open>Signal_representation\<close> block;
  \<^item> \<open>frame_defs\<close>: the tuples of \<^verbatim>\<open>FRAME_DEF_RE.findall\<close>, with the groups of
    \<^verbatim>\<open>FRAME_SIG_RE\<close> for the signal lines (\<^const>\<open>None\<close>: no \<^verbatim>\<open>Frames\<close> block);
  \<^item> \<open>sporadic_lines\<close>: name and stripped non-empty associated names per line;
  \<^item> \<open>event_triggered_lines\<close>: name and stripped tokens per line (\<^const>\<open>None\<close> for a line
    without a colon, whose unpacking raises inside the \<^verbatim>\<open>try\<close>);
  \<^item> \<open>diag_defs\<close>: name and identifier text of \<^verbatim>\<open>DIAG_FRAME_DEF_RE.findall\<close>;
  \<^item> \<open>schedule_defs\<close>: per table of \<^verbatim>\<open>SCHEDULE_TABLE_DEF_RE.findall\<close> its name and the
    pairs of \<^verbatim>\<open>SCHEDULE_ENTRY_RE.findall\<close>;
  \<^item> \<open>node_attributes\<close>: per node of the \<^verbatim>\<open>Node_attributes\<close> block its name and the
    captured \<^verbatim>\<open>response_error\<close> signal.
  \<^verbatim>\<open>LDFSignal.min_value\<close> and \<^verbatim>\<open>max_value\<close> are never set by the parser and are left out
  of the record.
\<close>

record nodes_groups =
  master_match :: "(string \<times> string \<times> string option) option"
  slaves_match :: "string list option"

record ldf_groups =
  nodes_match :: "nodes_groups option"
  signal_lines :: "(string \<times> string list) list"
  signal_encoding_details :: "(string \<times> encoding_details) list"
  representation_lines :: "(string \<times> string list) list"
  frame_defs :: "(string \<times> string \<times> string \<times> string \<times> (string \<times> string) list) list option"
  sporadic_lines :: "(string \<times> string list) list"
  event_triggered_lines :: "(string \<times> string list) option list"
  diag_defs :: "(string \<times> string) list"
  schedule_defs :: "(string \<times> (string \<times> string) list) list"
  node_attributes :: "(string \<times> string option) list"

text \<open>
  \<^verbatim>\<open>int(s)\<close> and \<^verbatim>\<open>int(s, 0)\<close> on stripped text with an optional sign: base 10, or
  with base 0 the prefixes \<^verbatim>\<open>0x\<close>, \<^verbatim>\<open>0o\<close>, \<^verbatim>\<open>0b\<close> and no leading zero on a non-zero
  decimal. Digit separators are not modelled.
\<close>

definition signed :: "(string \<Rightarrow> nat option) \<Rightarrow> string \<Rightarrow> int option" where
  "signed conv s =
     (case strip s of
        [] \<Rightarrow> None
      | c # cs \<Rightarrow>
          if c = CHR ''-'' then map_option (\<lambda>n. - int n) (conv cs)
          else if c = CHR ''+'' then map_option int (conv cs)
          else map_option int (conv (c # cs)))"

definition nat_of_digits :: "nat \<Rightarrow> string \<Rightarrow> nat option" where
  "nat_of_digits base s = (if s = [] then None else digits_val base s 0)"

definition py_int_dec :: "string \<Rightarrow> int option" where
  "py_int_dec s = signed (nat_of_digits 10) s"

definition nat_of_literal :: "string \<Rightarrow> nat option" where
  "nat_of_literal s =
     (let p = lower (take 2 s) in
      if p = ''0x'' then nat_of_digits 16 (drop 2 s)
      else if p = ''0o'' then nat_of_digits 8 (drop 2 s)
      else if p = ''0b'' then nat_of_digits 2 (drop 2 s)
      else if s \<noteq> [] \<and> hd s = CHR ''0''
      then (if list_all (\<lambda>c. c = CHR ''0'') s then Some 0 else None)
      else nat_of_digits 10 s)"

definition py_int_auto :: "string \<Rightarrow> int option" where
  "py_int_auto s = signed nat_of_literal s"

definition isalpha :: "char \<Rightarrow> bool" where
  "isalpha c \<longleftrightarrow>
     (CHR ''a'' \<le> c \<and> c \<le> CHR ''z'') \<or> (CHR ''A'' \<le> c \<and> c \<le> CHR ''Z'')"

text \<open>
  The \<^verbatim>\<open>Nodes\<close> section; the commas of a number are replaced by points before
  \<^verbatim>\<open>float\<close>, and a failed conversion leaves the key out (time base) or at \<open>0.0\<close>
  (jitter).
\<close>

definition comma_to_point :: "string \<Rightarrow> string" where
  "comma_to_point s = map (\<lambda>c. if c = CHR '','' then CHR ''.'' else c) s"

definition parse_nodes :: "nodes_groups \<Rightarrow> ldf_nodes" where
  "parse_nodes g =
     \<lparr>master = (case master_match g of None \<Rightarrow> None | Some (n, tb, j) \<Rightarrow> Some (strip n)),
      master_timebase_s =
        (case master_match g of
           None \<Rightarrow> None
         | Some (n, tb, j) \<Rightarrow> map_option (\<lambda>v. v / 1000) (py_float (comma_to_point tb))),
      master_jitter_s =
        Some (case master_match g of
                None \<Rightarrow> 0
              | Some (n, tb, j) \<Rightarrow>
                  (case j of
                     None \<Rightarrow> 0
                   | Some js \<Rightarrow>
                       if js = [] then 0
                       else (case py_float (comma_to_point js) of
                               None \<Rightarrow> 0 | Some v \<Rightarrow> v / 1000))),
      slaves = (case slaves_match g of None \<Rightarrow> [] | Some ss \<Rightarrow> ss),
      slaves_with_error_signal = []\<rparr>"

text \<open>
  One line of the \<^verbatim>\<open>Signals\<close> section. \<^verbatim>\<open>int(tokens[0])\<close> raises \<^verbatim>\<open>ValueError\<close> and
  \<^verbatim>\<open>tokens[1]\<close>, \<^verbatim>\<open>tokens[2]\<close> raise \<^verbatim>\<open>IndexError\<close>, outside any \<^verbatim>\<open>try\<close> block.
\<close>

definition signal_of_line ::
  "string \<Rightarrow> string list \<Rightarrow> py_error + LDFSignal" where
  "signal_of_line sname tokens =
     (case py_int_dec (hd tokens) of
        None \<Rightarrow> Inl ValueError
      | Some size_bits \<Rightarrow>
          if length tokens < 2 then Inl IndexError
          else if isalpha (hd (tokens ! 1)) then
            Inr \<lparr>sg_name = sname, sg_length = size_bits, sg_publisher = tokens ! 1,
                 sg_subscriber =
                   (case filter (\<lambda>s. s \<noteq> []) (map strip (drop 2 tokens)) of
                      [] \<Rightarrow> [] | s # _ \<Rightarrow> s),
                 sg_start_bit = None, sg_unit = None, sg_factor = 1, sg_offset = 0,
                 sg_logical_map = [], sg_encoding_type = ''physical''\<rparr>
          else if length tokens < 3 then Inl IndexError
          else
            Inr \<lparr>sg_name = sname, sg_length = size_bits, sg_publisher = tokens ! 2,
                 sg_subscriber =
                   (case filter (\<lambda>s. s \<noteq> []) (map strip (drop 3 tokens)) of
                      [] \<Rightarrow> [] | s # _ \<Rightarrow> s),
                 sg_start_bit = None, sg_unit = None, sg_factor = 1, sg_offset = 0,
                 sg_logical_map = [],
                 sg_encoding_type =
                   (if starts_with (tokens ! 1) ''{'' then ''byte_array''
                    else ''physical'')\<rparr>)"

primrec parse_signals ::
  "(string \<times> string list) list \<Rightarrow> (string \<times> LDFSignal) list \<Rightarrow>
   py_error + (string \<times> LDFSignal) list" where
  "parse_signals [] signals_base = Inr signals_base"
| "parse_signals (l # ls) signals_base =
     (if snd l = [] then parse_signals ls signals_base
      else (case signal_of_line (fst l) (snd l) of
              Inl e \<Rightarrow> Inl e
            | Inr s \<Rightarrow> parse_signals ls (AList.update (fst l) s signals_base)))"

text \<open>The dictionary \<^verbatim>\<open>signal_to_encoding_map\<close> of the \<^verbatim>\<open>Signal_representation\<close> block.\<close>

definition representation_step ::
  "(string \<times> LDFSignal) list \<Rightarrow> (string \<times> encoding_details) list \<Rightarrow>
   (string \<times> string list) \<Rightarrow> (string \<times> string) list \<Rightarrow> (string \<times> string) list" where
  "representation_step signals_base details line m =
     (if map_of details (fst line) = None then m
      else fold (\<lambda>sig_name m'. if map_of signals_base sig_name \<noteq> None
                               then AList.update sig_name (fst line) m' else m')
             (snd line) m)"

text \<open>One signal line of a frame; a start bit that does not convert drops the signal.\<close>

definition signal_instance ::
  "(string \<times> LDFSignal) list \<Rightarrow> (string \<times> encoding_details) list \<Rightarrow>
   (string \<times> string) list \<Rightarrow> (string \<times> string) \<Rightarrow> LDFSignal list" where
  "signal_instance signals_base details signal_to_encoding_map sl =
     (case map_of signals_base (fst sl) of
        None \<Rightarrow> []
      | Some base_sig_info \<Rightarrow>
          (let enc = (case map_of signal_to_encoding_map (fst sl) of
                        None \<Rightarrow> None
                      | Some encoding_name \<Rightarrow>
                          if encoding_name = [] then None else map_of details encoding_name)
           in case py_int_dec (snd sl) of
                None \<Rightarrow> []
              | Some sb \<Rightarrow>
                  [\<lparr>sg_name = fst sl, sg_length = sg_length base_sig_info,
                    sg_publisher = sg_publisher base_sig_info,
                    sg_subscriber = sg_subscriber base_sig_info,
                    sg_start_bit = Some sb,
                    sg_unit = Option.bind enc enc_unit,
                    sg_factor = (case Option.bind enc enc_factor of None \<Rightarrow> 1 | Some v \<Rightarrow> v),
                    sg_offset = (case Option.bind enc enc_offset of None \<Rightarrow> 0 | Some v \<Rightarrow> v),
                    sg_logical_map =
                      (case Option.bind enc enc_logical_map of None \<Rightarrow> [] | Some v \<Rightarrow> v),
                    sg_encoding_type =
                      (case Option.bind enc enc_encoding_type of
                         None \<Rightarrow> ''physical'' | Some v \<Rightarrow> v)\<rparr>]))"

text \<open>
  One tuple of the \<^verbatim>\<open>Frames\<close> block: a frame whose identifier or DLC does not convert is
  skipped; otherwise the frame is stored as it is written. There is no test of the
  identifier or of the DLC against a range.
\<close>

definition frame_step ::
  "(string \<times> LDFSignal) list \<Rightarrow> (string \<times> encoding_details) list \<Rightarrow>
   (string \<times> string) list \<Rightarrow> (string \<times> string \<times> string \<times> string \<times> (string \<times> string) list) \<Rightarrow>
   (string \<times> LDFFrame) list \<Rightarrow> (string \<times> LDFFrame) list" where
  "frame_step signals_base details signal_to_encoding_map fd fs =
     (case fd of (fname, fid_str, publisher, dlc_str, sig_lines) \<Rightarrow>
        (case (py_int_auto fid_str, py_int_dec dlc_str) of
           (Some fid, Some frame_dlc) \<Rightarrow>
             AList.update fname
               \<lparr>fr_name = fname, fr_id = Some fid, fr_publisher = Some publisher,
                fr_dlc = Some frame_dlc,
                fr_signals =
                  concat (map (signal_instance signals_base details signal_to_encoding_map)
                            sig_lines),
                fr_frame_type = ''standard'', fr_associated_frames = []\<rparr> fs
         | _ \<Rightarrow> fs))"

definition sporadic_step ::
  "(string \<times> string list) \<Rightarrow> (string \<times> LDFFrame) list \<Rightarrow> (string \<times> LDFFrame) list" where
  "sporadic_step line fs =
     (let associated_frame_names = filter (\<lambda>n. map_of fs n \<noteq> None) (snd line) in
      if associated_frame_names = [] then fs
      else AList.update (fst line)
             \<lparr>fr_name = fst line, fr_id = None, fr_publisher = None, fr_dlc = None,
              fr_signals = [], fr_frame_type = ''sporadic'',
              fr_associated_frames = associated_frame_names\<rparr> fs)"

definition existing_names :: "(string \<times> LDFFrame) list \<Rightarrow> string list \<Rightarrow> string list" where
  "existing_names fs names = filter (\<lambda>n. n \<noteq> [] \<and> map_of fs n \<noteq> None) names"

definition event_triggered_step ::
  "(string \<times> string list) option \<Rightarrow> (string \<times> LDFFrame) list \<Rightarrow> (string \<times> LDFFrame) list" where
  "event_triggered_step line fs =
     (case line of
        None \<Rightarrow> fs
      | Some (event_frame_name, tokens) \<Rightarrow>
          (let frame_id_et = (case tokens of [] \<Rightarrow> None | t # _ \<Rightarrow> py_int_auto t);
               associated_frame_names_et =
                 (case tokens of
                    [] \<Rightarrow> []
                  | t # ts \<Rightarrow>
                      if frame_id_et \<noteq> None then existing_names fs ts
                      else existing_names fs tokens)
           in if associated_frame_names_et = [] then fs
              else AList.update event_frame_name
                     \<lparr>fr_name = event_frame_name, fr_id = frame_id_et, fr_publisher = None,
                      fr_dlc = None, fr_signals = [], fr_frame_type = ''event_triggered'',
                      fr_associated_frames = associated_frame_names_et\<rparr> fs))"

definition diagnostic_step ::
  "string option \<Rightarrow> (string \<times> string) \<Rightarrow> (string \<times> LDFFrame) list \<Rightarrow>
   (string \<times> LDFFrame) list" where
  "diagnostic_step master_name dd fs =
     (case py_int_auto (snd dd) of
        None \<Rightarrow> fs
      | Some fid \<Rightarrow>
          AList.update (fst dd)
            \<lparr>fr_name = fst dd, fr_id = Some fid,
             fr_publisher = (if fid = 0x3C then master_name else None),
             fr_dlc = Some 8, fr_signals = [], fr_frame_type = ''diagnostic'',
             fr_associated_frames = []\<rparr> fs)"

text \<open>
  The entries of one schedule table: the loop stops at the first entry whose frame is
  not in \<^verbatim>\<open>frames\<close> (or whose delay does not convert) and marks the table invalid.
\<close>

primrec schedule_entries_of ::
  "(string \<times> LDFFrame) list \<Rightarrow> (string \<times> string) list \<Rightarrow> ScheduleEntry list option" where
  "schedule_entries_of fs [] = Some []"
| "schedule_entries_of fs (e # es) =
     (if map_of fs (fst e) \<noteq> None then
        (case py_int_dec (snd e) of
           None \<Rightarrow> None
         | Some d \<Rightarrow>
             map_option ((#) \<lparr>frame_name = fst e, delay_ms = d\<rparr>) (schedule_entries_of fs es))
      else None)"

definition schedule_step ::
  "(string \<times> LDFFrame) list \<Rightarrow> (string \<times> (string \<times> string) list) \<Rightarrow> schedule_dict \<Rightarrow>
   schedule_dict" where
  "schedule_step fs sd scheds =
     (case schedule_entries_of fs (snd sd) of
        None \<Rightarrow> scheds
      | Some schedule_entries \<Rightarrow>
          if schedule_entries \<noteq> [] then AList.update (fst sd) schedule_entries scheds
          else scheds)"

definition node_attribute_step ::
  "string list \<Rightarrow> (string \<times> string option) \<Rightarrow> (string \<times> string) list \<Rightarrow>
   (string \<times> string) list" where
  "node_attribute_step slave_names na m =
     (case snd na of
        None \<Rightarrow> m
      | Some error_signal_name \<Rightarrow>
          if fst na \<in> set slave_names then AList.update (fst na) error_signal_name m else m)"

definition parse_ldf :: "ldf_groups \<Rightarrow> py_error + LDFData" where
  "parse_ldf g =
     (case nodes_match g of
        None \<Rightarrow> Inl ValueError
      | Some ng \<Rightarrow>
          (case parse_signals (signal_lines g) [] of
             Inl e \<Rightarrow> Inl e
           | Inr signals_base \<Rightarrow>
               (let nodes0 = parse_nodes ng;
                    details = signal_encoding_details g;
                    signal_to_encoding_map =
                      fold (representation_step signals_base details)
                        (representation_lines g) [];
                    frames1 = (case frame_defs g of
                                 None \<Rightarrow> []
                               | Some fds \<Rightarrow>
                                   fold (frame_step signals_base details signal_to_encoding_map)
                                     fds []);
                    frames2 = fold sporadic_step (sporadic_lines g) frames1;
                    frames3 = fold event_triggered_step (event_triggered_lines g) frames2;
                    frames4 = fold (diagnostic_step (master nodes0)) (diag_defs g) frames3;
                    scheds = fold (schedule_step frames4) (schedule_defs g) [];
                    nodes1 = nodes0\<lparr>slaves_with_error_signal :=
                                      fold (node_attribute_step (slaves nodes0))
                                        (node_attributes g) []\<rparr>
                in if frames4 = [] then Inl ValueError
                   else Inr \<lparr>nodes = nodes1, frames = frames4, schedules = scheds,
                             signal_encoding = details\<rparr>)))"

text \<open>
  The invariant of the bus model as the specification states it: every schedule entry
  references a frame of the frames map, and every unconditional frame has an identifier
  in \<open>0..63\<close>, a publisher and a DLC in \<open>1..8\<close>.
\<close>

definition schedule_refs_ok :: "LDFData \<Rightarrow> bool" where
  "schedule_refs_ok d \<longleftrightarrow>
     (\<forall>(n, es) \<in> set (schedules d). \<forall>e \<in> set es. map_of (frames d) (frame_name e) \<noteq> None)"

definition unconditional_ok :: "LDFFrame \<Rightarrow> bool" where
  "unconditional_ok f \<longleftrightarrow>
     (case fr_id f of None \<Rightarrow> False | Some i \<Rightarrow> 0 \<le> i \<and> i \<le> 63)
     \<and> (case fr_publisher f of None \<Rightarrow> False | Some p \<Rightarrow> p \<noteq> [])
     \<and> (case fr_dlc f of None \<Rightarrow> False | Some n \<Rightarrow> 1 \<le> n \<and> n \<le> 8)"

text \<open>
  A standard frame is complete when the three fields that \<^verbatim>\<open>parse_ldf\<close> reads from its
  header (identifier, publisher, size) are present.
\<close>

definition standard_complete :: "LDFFrame \<Rightarrow> bool" where
  "standard_complete f \<longleftrightarrow>
     (fr_frame_type f = ''standard'' \<longrightarrow>
        fr_id f \<noteq> None \<and> fr_publisher f \<noteq> None \<and> fr_dlc f \<noteq> None)"

definition bus_model_invariant :: "LDFData \<Rightarrow> bool" where
  "bus_model_invariant d \<longleftrightarrow>
     schedule_refs_ok d
     \<and> (\<forall>(n, f) \<in> set (frames d). fr_frame_type f = ''standard'' \<longrightarrow> unconditional_ok f)"

text \<open>
  A description with master \<open>M\<close>, slave \<open>S\<close> and the single frame
  \<^verbatim>\<open>F: <id>, S, <dlc> { }\<close>, scheduled once.
\<close>

definition one_frame_ldf :: "string \<Rightarrow> string \<Rightarrow> ldf_groups" where
  "one_frame_ldf fid_str dlc_str =
     \<lparr>nodes_match = Some \<lparr>master_match = Some (''M'', ''5'', None),
                          slaves_match = Some [''S'']\<rparr>,
      signal_lines = [], signal_encoding_details = [], representation_lines = [],
      frame_defs = Some [(''F'', fid_str, ''S'', dlc_str, [])],
      sporadic_lines = [], event_triggered_lines = [], diag_defs = [],
      schedule_defs = [(''T'', [(''F'', ''10'')])], node_attributes = []\<rparr>"

definition one_frame_data :: "int \<Rightarrow> int \<Rightarrow> LDFData" where
  "one_frame_data fid n =
     \<lparr>nodes = \<lparr>master = Some ''M'', master_timebase_s = Some (5 / 1000),
                master_jitter_s = Some 0, slaves = [''S''], slaves_with_error_signal = []\<rparr>,
      frames = [(''F'', \<lparr>fr_name = ''F'', fr_id = Some fid, fr_publisher = Some ''S'',
                         fr_dlc = Some n, fr_signals = [], fr_frame_type = ''standard'',
                         fr_associated_frames = []\<rparr>)],
      schedules = [(''T'', [\<lparr>frame_name = ''F'', delay_ms = 10\<rparr>])],
      signal_encoding = []\<rparr>"


section \<open>Verification\<close>

subsection \<open>Checksum\<close>

lemma classic_fold_spec_eq: "classic_fold_spec s = fold_carries s"
proof (induction s rule: fold_carries.induct)
  case (1 s)
  show ?case
  proof (cases "0xFF < s")
    case True
    with 1 show ?thesis
      by (subst classic_fold_spec.simps, subst fold_carries.simps) simp
  next
    case False
    then show ?thesis
      by (subst classic_fold_spec.simps, subst fold_carries.simps) simp
  qed
qed

lemma fold_carries_small: "s \<le> 0xFF \<Longrightarrow> fold_carries s = s"
  by (subst fold_carries.simps) simp

lemma classic_checksum_spec_Nil: "classic_checksum_spec [] = 0xFF"
  by (simp add: classic_checksum_spec_def classic_fold_spec_eq fold_carries_small)

text \<open>
  Claim C6. Without a PID, \<^const>\<open>calculate_checksum\<close> is the reference classic checksum
  (sum, carry folding, complement), which is \<open>0xFF\<close> on empty data; and for every PID
  \<open>P\<close> in \<open>0..255\<close> and every data list \<open>D\<close> the enhanced checksum of \<open>D\<close> under \<open>P\<close>
  is the classic checksum of \<open>P # D\<close>.
\<close>

theorem calculate_checksum_classic_enhanced:
  "calculate_checksum D None = Inr (classic_checksum_spec D)
   \<and> classic_checksum_spec [] = 0xFF
   \<and> (0 \<le> P \<and> P \<le> 0xFF \<longrightarrow>
        calculate_checksum D (Some P) = Inr (classic_checksum_spec (P # D))
        \<and> calculate_checksum D (Some P) = calculate_checksum (P # D) None)"
proof (intro conjI impI)
  show "calculate_checksum D None = Inr (classic_checksum_spec D)"
    by (cases D) (simp_all add: calculate_checksum_def classic_checksum_spec_Nil,
        simp add: classic_checksum_spec_def classic_fold_spec_eq)
  show "classic_checksum_spec [] = 0xFF" by (rule classic_checksum_spec_Nil)
next
  assume "0 \<le> P \<and> P \<le> 0xFF"
  then show "calculate_checksum D (Some P) = Inr (classic_checksum_spec (P # D))"
    by (simp add: calculate_checksum_def classic_checksum_spec_def classic_fold_spec_eq)
next
  assume "0 \<le> P \<and> P \<le> 0xFF"
  then show "calculate_checksum D (Some P) = calculate_checksum (P # D) None"
    by (simp add: calculate_checksum_def)
qed

theorem calculate_checksum_classic_enhanced_witness:
  "(0::int) \<le> 0x42 \<and> (0x42::int) \<le> 0xFF
   \<and> calculate_checksum [0x05, 0xFA] (Some 0x42)
       = Inr (classic_checksum_spec [0x42, 0x05, 0xFA])
   \<and> calculate_checksum [0x05, 0xFA] (Some 0x42) = Inr 0xBD"
proof -
  have "calculate_checksum [0x05, 0xFA] (Some 0x42) = Inr 0xBD" by code_simp
  then show ?thesis
    using calculate_checksum_classic_enhanced [of "[0x05, 0xFA]" "0x42"] by simp
qed

subsection \<open>Protected identifier\<close>

lemma pid_table:
  "\<forall>i \<in> set [0..63].
     calculate_pid i = Inr (pid_spec i) \<and> expected_pid (pid_spec i) = pid_spec i"
  by code_simp

lemma pid_in_range:
  assumes "0 \<le> fid" "fid \<le> 63"
  shows "calculate_pid fid = Inr (pid_spec fid)"
    and "expected_pid (pid_spec fid) = pid_spec fid"
proof -
  from assms have "fid \<in> set [0..63]" by simp
  with pid_table show "calculate_pid fid = Inr (pid_spec fid)"
    and "expected_pid (pid_spec fid) = pid_spec fid" by blast+
qed

text \<open>
  Claim C7. For every frame id in \<open>0..63\<close>, \<^const>\<open>calculate_pid\<close> returns the PID of
  the specification's parity formula, the PID recomputed by \<^const>\<open>validate_id_parity\<close>
  equals it, and the validator leaves the parity buckets of any LIN record carrying that
  PID untouched; outside \<open>0..63\<close> \<^const>\<open>calculate_pid\<close> raises \<^verbatim>\<open>ValueError\<close>.
\<close>

theorem pid_parity_roundtrip:
  "(0 \<le> fid \<and> fid \<le> 63 \<longrightarrow>
      calculate_pid fid = Inr (pid_spec fid)
      \<and> expected_pid (pid_spec fid) = pid_spec fid
      \<and> validate_id_parity (entry\<lparr>channel := ''LIN'', frame_id_int := pid_spec fid\<rparr>) summary
          = summary)
   \<and> (\<not> (0 \<le> fid \<and> fid \<le> 63) \<longrightarrow> calculate_pid fid = Inl ValueError)"
proof (intro conjI impI)
  assume r: "0 \<le> fid \<and> fid \<le> 63"
  then show "calculate_pid fid = Inr (pid_spec fid)" using pid_in_range(1) by blast
  from r show e: "expected_pid (pid_spec fid) = pid_spec fid" using pid_in_range(2) by blast
  show "validate_id_parity (entry\<lparr>channel := ''LIN'', frame_id_int := pid_spec fid\<rparr>) summary
          = summary"
    using e by (simp add: validate_id_parity_def Let_def)
next
  assume "\<not> (0 \<le> fid \<and> fid \<le> 63)"
  then show "calculate_pid fid = Inl ValueError"
    by (auto simp add: calculate_pid_def)
qed

theorem pid_parity_roundtrip_witness:
  "(0::int) \<le> 8 \<and> (8::int) \<le> 63 \<and> calculate_pid 8 = Inr 8 \<and> calculate_pid 2 = Inr 0x42
   \<and> validate_id_parity (entry_enh\<lparr>channel := ''LIN'', frame_id_int := pid_spec 2\<rparr>) Map.empty
       = Map.empty
   \<and> calculate_pid 64 = Inl ValueError \<and> calculate_pid (-1) = Inl ValueError"
proof -
  have a: "pid_spec 8 = 8" "pid_spec 2 = 0x42" by code_simp+
  show ?thesis
    using pid_parity_roundtrip [of 8 entry_enh Map.empty]
      pid_parity_roundtrip [of 2 entry_enh Map.empty]
      pid_parity_roundtrip [of 64 entry_enh Map.empty]
      pid_parity_roundtrip [of "-1" entry_enh Map.empty]
    by (simp add: a)
qed

subsection \<open>Checksum validator\<close>

lemma lower_Rx: "lower ''Rx'' = ''rx''"
  by code_simp

lemma lower_Enhanced: "lower ''Enhanced'' = ''enhanced''"
  by code_simp

text \<open>
  Claim C1. The analysis engine is claimed never to raise on a record's content, and in
  particular \<^const>\<open>validate_lin_checksum\<close> is claimed to return normally whatever the CSM
  field. On the record of the log line \<^verbatim>\<open>0.010 Li 02 Rx checksum=00\<close> (a declared
  checksum, no data byte, no CSM field), and on every LIN Rx record with a declared
  checksum, an empty data list and no CSM field, the validator raises
  \<^verbatim>\<open>AttributeError\<close>.
\<close>

theorem validate_lin_checksum_raises:
  assumes "channel entry = ''LIN''" and "lower (type entry) = ''rx''"
    and "declared_checksum entry = Some declared"
    and "data entry = []" and "csm entry = None"
  shows "validate_lin_checksum entry ldf_id_to_frame_map summary = Inl AttributeError"
  using assms by (simp add: validate_lin_checksum_def)

theorem validate_lin_checksum_raises_witness:
  "channel entry_no_csm = ''LIN'' \<and> lower (type entry_no_csm) = ''rx''
   \<and> declared_checksum entry_no_csm = Some 0
   \<and> data entry_no_csm = [] \<and> csm entry_no_csm = None
   \<and> validate_lin_checksum entry_no_csm Map.empty Map.empty = Inl AttributeError"
proof -
  have h: "channel entry_no_csm = ''LIN''" "lower (type entry_no_csm) = ''rx''"
    "declared_checksum entry_no_csm = Some 0" "data entry_no_csm = []"
    "csm entry_no_csm = None"
    by (simp_all add: entry_no_csm_def lower_Rx)
  from validate_lin_checksum_raises [OF h] h show ?thesis by simp
qed

lemma calculate_pid_byte:
  "calculate_pid fid = Inr pid \<Longrightarrow> 0 \<le> pid \<and> pid \<le> 0xFF"
  by (auto simp: calculate_pid_def Let_def and_255_mod split: if_splits)

lemma calculate_checksum_total_None: "\<exists>c. calculate_checksum D None = Inr c"
  by (simp add: calculate_checksum_def)

lemma calculate_checksum_prepend:
  "0 \<le> P \<Longrightarrow> P \<le> 0xFF \<Longrightarrow>
   calculate_checksum (P # D) None = calculate_checksum D (Some P)"
  by (simp add: calculate_checksum_def)

lemma bump_checksum_bucket_count:
  "\<exists>b. bump_checksum_bucket entry n k summary k = Some b
       \<and> cb_count b = (case summary k of None \<Rightarrow> 0 | Some r \<Rightarrow> cb_count r) + 1
       \<and> cb_last_ts b = Some (timestamp entry)"
  by (simp add: bump_checksum_bucket_def Let_def checksum_default_def split: option.splits)

text \<open>
  Claim C3, as stated, fails: the validator passes the logged identifier itself to
  \<^const>\<open>calculate_pid\<close>, without masking it by \<open>0x3F\<close>. For the record with identifier
  \<open>0xC1\<close> (the full PID of frame 1), data \<open>[0x55]\<close>, declared checksum \<open>0x00\<close> and
  \<open>CSM = Enhanced\<close>, the checksum under the PID of \<open>0xC1 & 0x3F\<close> is \<open>0xE8\<close>, which
  differs from the declared one, and yet no bucket is recorded.
\<close>

theorem validate_lin_checksum_full_pid_counterexample:
  "channel entry_full_pid = ''LIN'' \<and> lower (type entry_full_pid) = ''rx''
   \<and> declared_checksum entry_full_pid = Some 0
   \<and> lower (the (csm entry_full_pid)) = ''enhanced''
   \<and> frame_id_int entry_full_pid = 0xC1
   \<and> calculate_pid (frame_id_int entry_full_pid AND 0x3F) = Inr 0xC1
   \<and> calculate_checksum (data entry_full_pid) (Some 0xC1) = Inr 0xE8
   \<and> validate_lin_checksum entry_full_pid Map.empty Map.empty = Inr Map.empty"
proof -
  have 1: "calculate_pid 1 = Inr 0xC1" by code_simp
  have 2: "calculate_checksum [0x55] (Some 0xC1) = Inr 0xE8" by code_simp
  have 3: "calculate_pid 0xC1 = Inl ValueError" by (simp add: calculate_pid_def)
  show ?thesis
    by (simp add: entry_full_pid_def lower_Rx lower_Enhanced 1 2 3 validate_lin_checksum_def)
qed

text \<open>
  Claim C3, amended. For every LIN Rx record with a declared checksum and
  \<open>CSM = Enhanced\<close>: when the logged identifier lies in \<open>0..0x3F\<close>, the expected
  checksum is the enhanced checksum of the data under \<open>calculate_pid\<close> of that
  identifier, and a mismatch is recorded in the bucket keyed by (identifier, expected,
  declared); when the identifier lies outside \<open>0..0x3F\<close>, validation is skipped and no
  bucket is touched.
\<close>

theorem validate_lin_checksum_enhanced:
  assumes "channel entry = ''LIN''" and "lower (type entry) = ''rx''"
    and "declared_checksum entry = Some declared"
    and "csm entry = Some c" and "lower c = ''enhanced''"
  shows "(0 \<le> frame_id_int entry \<and> frame_id_int entry \<le> 0x3F \<longrightarrow>
           (\<exists>pid expected.
              calculate_pid (frame_id_int entry) = Inr pid
              \<and> calculate_checksum (data entry) (Some pid) = Inr expected
              \<and> validate_lin_checksum entry ldf_id_to_frame_map summary =
                  Inr (if expected \<noteq> declared
                       then bump_checksum_bucket entry
                              (case ldf_id_to_frame_map (frame_id_int entry) of
                                 Some f \<Rightarrow> fr_name f | None \<Rightarrow> frame_id entry)
                              (frame_id_int entry, expected, declared) summary
                       else summary)))
       \<and> (\<not> (0 \<le> frame_id_int entry \<and> frame_id_int entry \<le> 0x3F) \<longrightarrow>
             validate_lin_checksum entry ldf_id_to_frame_map summary = Inr summary)"
proof (intro conjI impI)
  assume r: "0 \<le> frame_id_int entry \<and> frame_id_int entry \<le> 0x3F"
  then obtain pid where pid: "calculate_pid (frame_id_int entry) = Inr pid"
    by (auto simp: calculate_pid_def Let_def)
  then have b: "0 \<le> pid" "pid \<le> 0xFF" using calculate_pid_byte by blast+
  obtain expected where e: "calculate_checksum (pid # data entry) None = Inr expected"
    using calculate_checksum_total_None by blast
  with b have e': "calculate_checksum (data entry) (Some pid) = Inr expected"
    by (simp add: calculate_checksum_prepend)
  have "validate_lin_checksum entry ldf_id_to_frame_map summary =
          Inr (if expected \<noteq> declared
               then bump_checksum_bucket entry
                      (case ldf_id_to_frame_map (frame_id_int entry) of
                         Some f \<Rightarrow> fr_name f | None \<Rightarrow> frame_id entry)
                      (frame_id_int entry, expected, declared) summary
               else summary)"
    using assms pid e by (simp add: validate_lin_checksum_def Let_def)
  with pid e' show "\<exists>pid expected.
              calculate_pid (frame_id_int entry) = Inr pid
              \<and> calculate_checksum (data entry) (Some pid) = Inr expected
              \<and> validate_lin_checksum entry ldf_id_to_frame_map summary =
                  Inr (if expected \<noteq> declared
                       then bump_checksum_bucket entry
                              (case ldf_id_to_frame_map (frame_id_int entry) of
                                 Some f \<Rightarrow> fr_name f | None \<Rightarrow> frame_id entry)
                              (frame_id_int entry, expected, declared) summary
                       else summary)" by blast
next
  assume "\<not> (0 \<le> frame_id_int entry \<and> frame_id_int entry \<le> 0x3F)"
  then have "calculate_pid (frame_id_int entry) = Inl ValueError"
    by (auto simp: calculate_pid_def)
  then show "validate_lin_checksum entry ldf_id_to_frame_map summary = Inr summary"
    using assms by (simp add: validate_lin_checksum_def Let_def)
qed

theorem validate_lin_checksum_enhanced_witness:
  "channel entry_enh = ''LIN'' \<and> lower (type entry_enh) = ''rx''
   \<and> declared_checksum entry_enh = Some 0 \<and> csm entry_enh = Some ''Enhanced''
   \<and> lower ''Enhanced'' = ''enhanced''
   \<and> validate_lin_checksum entry_enh Map.empty Map.empty =
       Inr (bump_checksum_bucket entry_enh ''02'' (2, 0x68, 0) Map.empty)
   \<and> validate_lin_checksum entry_full_pid Map.empty Map.empty = Inr Map.empty"
proof -
  have 1: "calculate_pid 2 = Inr 0x42" by code_simp
  have 2: "calculate_checksum [0x55] (Some 0x42) = Inr 0x68" by code_simp
  have h: "channel entry_enh = ''LIN''" "lower (type entry_enh) = ''rx''"
    "declared_checksum entry_enh = Some 0" "csm entry_enh = Some ''Enhanced''"
    by (simp_all add: entry_enh_def lower_Rx)
  have g: "channel entry_full_pid = ''LIN''" "lower (type entry_full_pid) = ''rx''"
    "declared_checksum entry_full_pid = Some 0" "csm entry_full_pid = Some ''Enhanced''"
    by (simp_all add: entry_full_pid_def lower_Rx)
  have fe: "frame_id_int entry_enh = 2" "data entry_enh = [0x55]"
    "frame_id entry_enh = ''02''"
    by (simp_all add: entry_enh_def)
  have ff: "frame_id_int entry_full_pid = 0xC1" by (simp add: entry_full_pid_def)
  from validate_lin_checksum_enhanced [OF h lower_Enhanced, of Map.empty Map.empty]
  have a: "validate_lin_checksum entry_enh Map.empty Map.empty =
       Inr (bump_checksum_bucket entry_enh ''02'' (2, 0x68, 0) Map.empty)"
    by (simp add: fe 1 2)
  from validate_lin_checksum_enhanced [OF g lower_Enhanced, of Map.empty Map.empty]
  have b: "validate_lin_checksum entry_full_pid Map.empty Map.empty = Inr Map.empty"
    by (simp add: ff)
  show ?thesis using h a b lower_Enhanced by simp
qed

subsection \<open>Schedule grouper\<close>

lemma first_with_snoc:
  "first_with ch S (ps @ [x]) hv =
     (case first_with ch S ps hv of Some m \<Rightarrow> Some m
      | None \<Rightarrow> if ch (dict_get S x) = hv then Some x else None)"
  by (induction ps) (auto simp: first_with_def)

lemma first_with_mem: "first_with ch S ps hv = Some m \<Longrightarrow> m \<in> set ps \<and> ch (dict_get S m) = hv"
  unfolding first_with_def by (induction ps) (auto split: if_splits)

lemma first_with_None: "first_with ch S ps hv = None \<longleftrightarrow> (\<forall>m \<in> set ps. ch (dict_get S m) \<noteq> hv)"
  unfolding first_with_def by (auto simp: find_None_iff)

lemma first_with_own: "n \<in> set ps \<Longrightarrow> \<exists>m. first_with ch S ps (ch (dict_get S n)) = Some m"
  using first_with_None [of ch S ps "ch (dict_get S n)"] by (cases "first_with ch S ps (ch (dict_get S n))") auto

lemma rep_in_snoc_old: "n \<in> set ps \<Longrightarrow> rep_in ch S (ps @ [x]) n = rep_in ch S ps n"
  using first_with_own [of n ps ch S] by (auto simp: rep_in_def first_with_snoc)

lemma rep_in_mem: "n \<in> set ps \<Longrightarrow> rep_in ch S ps n \<in> set ps"
  using first_with_own [of n ps ch S] first_with_mem [of ch S ps] by (auto simp: rep_in_def)

lemma rep_in_hash: "n \<in> set ps \<Longrightarrow> ch (dict_get S (rep_in ch S ps n)) = ch (dict_get S n)"
  using first_with_own [of n ps ch S] first_with_mem [of ch S ps] by (auto simp: rep_in_def)

lemma rep_in_snoc_new:
  "rep_in ch S (ps @ [x]) x =
     (case first_with ch S ps (ch (dict_get S x)) of Some m \<Rightarrow> m | None \<Rightarrow> x)"
  by (auto simp: rep_in_def first_with_snoc split: option.splits)

lemma update_fresh: "k \<notin> fst ` set al \<Longrightarrow> AList.update k v al = al @ [(k, v)]"
  by (induction al) auto

lemma keys_dd_append:
  "map fst (dd_append k v d) = (if k \<in> set (map fst d) then map fst d else map fst d @ [k])"
proof (cases "map_of d k")
  case None
  then have "k \<notin> set (map fst d)" by (simp add: map_of_eq_None_iff)
  with None show ?thesis by (simp add: dd_append_def)
next
  case (Some vs)
  then have "k \<in> set (map fst d)" by (metis map_of_eq_None_iff option.distinct(1) set_map)
  with Some show ?thesis by (simp add: dd_append_def update_keys)
qed

lemma group_step_new:
  assumes "hash_to_representative_name st (ch (dict_get S x)) = None"
  shows "group_step ch S x st =
     \<lparr>hash_to_representative_name = (hash_to_representative_name st)(ch (dict_get S x) \<mapsto> x),
      representative_to_all_grouped_names_map =
        dd_append x x (representative_to_all_grouped_names_map st),
      original_name_to_representative_name_map =
        AList.update x x (original_name_to_representative_name_map st)\<rparr>"
  using assms by (simp add: group_step_def Let_def)

lemma group_step_old:
  assumes "hash_to_representative_name st (ch (dict_get S x)) = Some m"
  shows "group_step ch S x st =
     \<lparr>hash_to_representative_name = hash_to_representative_name st,
      representative_to_all_grouped_names_map =
        dd_append m x (representative_to_all_grouped_names_map st),
      original_name_to_representative_name_map =
        AList.update x m (original_name_to_representative_name_map st)\<rparr>"
  using assms by (simp add: group_step_def Let_def)

lemma loop_inv_step:
  assumes inv: "loop_inv ch S ps st" and d: "distinct (ps @ [x])"
  shows "loop_inv ch S (ps @ [x]) (group_step ch S x st)"
proof -
  let ?hx = "ch (dict_get S x)"
  from d have xn: "x \<notin> set ps" and dp: "distinct ps" by auto
  from inv have h: "hash_to_representative_name st = first_with ch S ps"
    and o: "original_name_to_representative_name_map st = map (\<lambda>n. (n, rep_in ch S ps n)) ps"
    and r: "map fst (representative_to_all_grouped_names_map st) = filter (\<lambda>n. rep_in ch S ps n = n) ps"
    by (simp_all add: loop_inv_def)
  have "x \<notin> fst ` set (map (\<lambda>n. (n, rep_in ch S ps n)) ps)" using xn by (auto simp: image_iff)
  then have upd: "AList.update x v (map (\<lambda>n. (n, rep_in ch S ps n)) ps)
      = map (\<lambda>n. (n, rep_in ch S ps n)) ps @ [(x, v)]" for v
    by (rule update_fresh)
  have mp: "map (\<lambda>n. (n, rep_in ch S ps n)) ps = map (\<lambda>n. (n, rep_in ch S (ps @ [x]) n)) ps"
    by (rule map_cong) (simp_all add: rep_in_snoc_old)
  have filt: "filter (\<lambda>n. rep_in ch S ps n = n) ps = filter (\<lambda>n. rep_in ch S (ps @ [x]) n = n) ps"
    by (rule filter_cong) (simp_all add: rep_in_snoc_old)
  show ?thesis
  proof (cases "first_with ch S ps ?hx")
    case None
    then have rx: "rep_in ch S (ps @ [x]) x = x" by (simp add: rep_in_snoc_new)
    have gs: "group_step ch S x st =
       \<lparr>hash_to_representative_name = (first_with ch S ps)(?hx \<mapsto> x),
        representative_to_all_grouped_names_map =
          dd_append x x (representative_to_all_grouped_names_map st),
        original_name_to_representative_name_map =
          map (\<lambda>n. (n, rep_in ch S ps n)) ps @ [(x, x)]\<rparr>"
      using group_step_new [of st ch S x] None by (simp add: h o upd)
    have H: "(first_with ch S ps)(?hx \<mapsto> x) = first_with ch S (ps @ [x])"
      using None by (intro ext) (auto simp: first_with_snoc split: option.splits)
    have "x \<notin> set (filter (\<lambda>n. rep_in ch S ps n = n) ps)" using xn by simp
    then have R: "map fst (dd_append x x (representative_to_all_grouped_names_map st))
       = filter (\<lambda>n. rep_in ch S (ps @ [x]) n = n) (ps @ [x])"
      using rx by (simp add: keys_dd_append r filt)
    show ?thesis unfolding loop_inv_def gs using H R rx mp by simp
  next
    case (Some m)
    then have rx: "rep_in ch S (ps @ [x]) x = m" by (simp add: rep_in_snoc_new)
    from Some have m: "m \<in> set ps" "ch (dict_get S m) = ?hx" using first_with_mem by fastforce+
    have gs: "group_step ch S x st =
       \<lparr>hash_to_representative_name = first_with ch S ps,
        representative_to_all_grouped_names_map =
          dd_append m x (representative_to_all_grouped_names_map st),
        original_name_to_representative_name_map =
          map (\<lambda>n. (n, rep_in ch S ps n)) ps @ [(x, m)]\<rparr>"
      using group_step_old [of st ch S x m] Some by (simp add: h o upd)
    have H: "first_with ch S ps = first_with ch S (ps @ [x])"
      using Some by (intro ext) (auto simp: first_with_snoc split: option.splits)
    from m have "rep_in ch S ps m = m" using Some by (simp add: rep_in_def)
    with m have "m \<in> set (filter (\<lambda>n. rep_in ch S ps n = n) ps)" by simp
    moreover have "m \<noteq> x" using m xn by auto
    ultimately have R: "map fst (dd_append m x (representative_to_all_grouped_names_map st))
       = filter (\<lambda>n. rep_in ch S (ps @ [x]) n = n) (ps @ [x])"
      using rx by (simp add: keys_dd_append r filt)
    show ?thesis unfolding loop_inv_def gs using H R rx mp by simp
  qed
qed

lemma loop_inv_fold:
  "distinct ps \<Longrightarrow> loop_inv ch S ps (fold (group_step ch S) ps grouping_init)"
proof (induction ps rule: rev_induct)
  case Nil
  show ?case by (auto simp: loop_inv_def grouping_init_def first_with_def)
next
  case (snoc x ps)
  then show ?case using loop_inv_step [of ch S ps _ x] by simp
qed

lemma fold_update_fresh:
  "distinct ks \<Longrightarrow> set ks \<inter> fst ` set acc = {} \<Longrightarrow>
   fold (\<lambda>k u. AList.update k (f k) u) ks acc = acc @ map (\<lambda>k. (k, f k)) ks"
proof (induction ks arbitrary: acc)
  case Nil
  then show ?case by simp
next
  case (Cons k ks)
  then have "AList.update k (f k) acc = acc @ [(k, f k)]" by (simp add: update_fresh)
  moreover have "set ks \<inter> fst ` set (acc @ [(k, f k)]) = {}" using Cons.prems by auto
  ultimately show ?case using Cons by simp
qed


lemma group_closed_form:
  assumes ne: "S \<noteq> []" and d: "distinct (map fst S)"
  defines "names \<equiv> sort (map fst S)"
  shows "group_equivalent_schedules ch S =
    (map (\<lambda>k. (k, dict_get S k)) (filter (\<lambda>n. rep_in ch S names n = n) names),
     map (\<lambda>n. (n, rep_in ch S names n)) names,
     snd (snd (group_equivalent_schedules ch S)))"
proof -
  have dn: "distinct names" using d by (simp add: names_def)
  let ?st = "fold (group_step ch S) names grouping_init"
  have inv: "loop_inv ch S names ?st" using dn by (rule loop_inv_fold)
  then have o: "original_name_to_representative_name_map ?st = map (\<lambda>n. (n, rep_in ch S names n)) names"
    and r: "map fst (representative_to_all_grouped_names_map ?st) = filter (\<lambda>n. rep_in ch S names n = n) names"
    by (simp_all add: loop_inv_def)
  have "distinct (filter (\<lambda>n. rep_in ch S names n = n) names)" using dn by simp
  then have u: "fold (\<lambda>rep_name u. AList.update rep_name (dict_get S rep_name) u)
          (filter (\<lambda>n. rep_in ch S names n = n) names) []
        = map (\<lambda>k. (k, dict_get S k)) (filter (\<lambda>n. rep_in ch S names n = n) names)"
    using fold_update_fresh [of "filter (\<lambda>n. rep_in ch S names n = n) names" "[]" "dict_get S"] by simp
  show ?thesis
    using ne by (simp add: group_equivalent_schedules_def Let_def o r u
        flip: names_def grouping_init_def)
qed

lemma rep_in_eq_iff:
  assumes "a \<in> set ps" "b \<in> set ps"
  shows "rep_in ch S ps a = rep_in ch S ps b \<longleftrightarrow> ch (dict_get S a) = ch (dict_get S b)"
proof
  assume "rep_in ch S ps a = rep_in ch S ps b"
  then show "ch (dict_get S a) = ch (dict_get S b)"
    using rep_in_hash [of a ps ch S] rep_in_hash [of b ps ch S] assms by simp
next
  assume "ch (dict_get S a) = ch (dict_get S b)"
  then show "rep_in ch S ps a = rep_in ch S ps b" by (simp add: rep_in_def)
qed

lemma map_of_graph: "map_of (map (\<lambda>k. (k, f k)) xs) k = (if k \<in> set xs then Some (f k) else None)"
  by (induction xs) auto

lemma dict_get_graph: "k \<in> set xs \<Longrightarrow> dict_get (map (\<lambda>k. (k, f k)) xs) k = f k"
  by (simp add: dict_get_def map_of_graph)

lemma representative_of_closed:
  assumes d: "distinct (map fst S)" and a: "a \<in> fst ` set S"
  shows "representative_of ch S a = Some (rep_in ch S (sort (map fst S)) a)"
proof -
  from a have ne: "S \<noteq> []" by auto
  from a have "a \<in> set (sort (map fst S))" by simp
  then show ?thesis
    unfolding representative_of_def
    by (subst group_closed_form [OF ne d]) (simp add: map_of_graph)
qed

lemma dict_get_eq_iff:
  assumes "a \<in> fst ` set S" "b \<in> fst ` set S"
  shows "dict_get S a = dict_get S b \<longleftrightarrow> map_of S a = map_of S b"
proof -
  from assms obtain x y where "map_of S a = Some x" "map_of S b = Some y"
    by (metis domD dom_map_of_conv_image_fst)
  then show ?thesis by (simp add: dict_get_def)
qed

lemma dict_get_in_ran:
  assumes "a \<in> fst ` set S" shows "dict_get S a \<in> snd ` set S"
proof -
  from assms obtain x where "map_of S a = Some x" by (metis domD dom_map_of_conv_image_fst)
  then show ?thesis using map_of_SomeD [of S a x] by (force simp: dict_get_def)
qed

lemma unique_idem:
  assumes d: "distinct (map fst S)"
  shows "unique_schedules_of ch (unique_schedules_of ch S) = unique_schedules_of ch S"
proof (cases "S = []")
  case True
  then show ?thesis by (simp add: unique_schedules_of_def group_equivalent_schedules_def)
next
  case False
  define names where "names = sort (map fst S)"
  define R where "R = filter (\<lambda>n. rep_in ch S names n = n) names"
  define U where "U = map (\<lambda>k. (k, dict_get S k)) R"
  have US: "unique_schedules_of ch S = U"
    unfolding unique_schedules_of_def U_def R_def names_def
    by (subst group_closed_form [OF False d]) simp
  show ?thesis
  proof (cases "U = []")
    case True
    then show ?thesis unfolding US by (simp add: unique_schedules_of_def group_equivalent_schedules_def)
  next
    case ne: False
    have dn: "distinct names" "sorted names" using d by (simp_all add: names_def)
    have dR: "distinct R" and sR: "sorted R" using dn by (simp_all add: R_def sorted_wrt_filter)
    have keysU: "map fst U = R" by (simp add: U_def comp_def)
    have dU: "distinct (map fst U)" using dR keysU by simp
    have sortR: "sort (map fst U) = R" using sR keysU by (simp add: sorted_sort_id)
    have get: "dict_get U k = dict_get S k" if "k \<in> set R" for k
      using that unfolding U_def by (rule dict_get_graph)
    have Rsub: "set R \<subseteq> set names" by (auto simp: R_def)
    have own: "rep_in ch U R n = n" if n: "n \<in> set R" for n
    proof -
      obtain m where m: "first_with ch U R (ch (dict_get U n)) = Some m"
        using first_with_own [OF n] by blast
      then have mR: "m \<in> set R" and mh: "ch (dict_get U m) = ch (dict_get U n)"
        using first_with_mem [of ch U R] by blast+
      then have "ch (dict_get S m) = ch (dict_get S n)" using get n by simp
      then have "rep_in ch S names m = rep_in ch S names n" by (simp add: rep_in_def)
      moreover have "rep_in ch S names m = m" "rep_in ch S names n = n"
        using mR n by (simp_all add: R_def)
      ultimately have "m = n" by simp
      with m show ?thesis by (simp add: rep_in_def)
    qed
    have "unique_schedules_of ch U = map (\<lambda>k. (k, dict_get U k)) (filter (\<lambda>n. rep_in ch U R n = n) R)"
      unfolding unique_schedules_of_def
      by (subst group_closed_form [OF ne dU]) (simp add: sortR)
    also have "filter (\<lambda>n. rep_in ch U R n = n) R = R" using own by (simp add: filter_id_conv)
    also have "map (\<lambda>k. (k, dict_get U k)) R = U" unfolding U_def
      by (rule map_cong) (simp_all add: get[unfolded U_def])
    finally show ?thesis unfolding US .
  qed
qed

text \<open>
  Claim C9. Let \<open>S\<close> be a schedules dictionary (distinct names) and \<open>ch\<close> the content
  hash. Every schedule gets a representative; two schedules get the same representative
  if and only if their contents have the same hash, hence, when the hash has no
  collision among the tables of \<open>S\<close>, if and only if their ordered entry sequences are
  identical. Grouping is idempotent: grouping the unique-schedules dictionary returns
  that dictionary.
\<close>

theorem group_equivalent_schedules_iff_idem:
  assumes d: "distinct (map fst S)"
  shows "(\<forall>a \<in> fst ` set S. \<forall>b \<in> fst ` set S.
            representative_of ch S a \<noteq> None
            \<and> (representative_of ch S a = representative_of ch S b
                 \<longleftrightarrow> ch (dict_get S a) = ch (dict_get S b))
            \<and> (inj_on ch (snd ` set S) \<longrightarrow>
                 (representative_of ch S a = representative_of ch S b
                    \<longleftrightarrow> map_of S a = map_of S b)))
     \<and> unique_schedules_of ch (unique_schedules_of ch S) = unique_schedules_of ch S"
proof (intro conjI ballI impI)
  fix a b assume a: "a \<in> fst ` set S" and b: "b \<in> fst ` set S"
  have ra: "representative_of ch S a = Some (rep_in ch S (sort (map fst S)) a)"
    and rb: "representative_of ch S b = Some (rep_in ch S (sort (map fst S)) b)"
    using representative_of_closed [OF d] a b by blast+
  from ra show "representative_of ch S a \<noteq> None" by simp
  have mem: "a \<in> set (sort (map fst S))" "b \<in> set (sort (map fst S))" using a b by simp_all
  show iff: "representative_of ch S a = representative_of ch S b
                 \<longleftrightarrow> ch (dict_get S a) = ch (dict_get S b)"
    using rep_in_eq_iff [OF mem] ra rb by simp
  assume inj: "inj_on ch (snd ` set S)"
  have "ch (dict_get S a) = ch (dict_get S b) \<longleftrightarrow> dict_get S a = dict_get S b"
    using inj dict_get_in_ran [OF a] dict_get_in_ran [OF b] by (auto dest: inj_onD)
  then show "representative_of ch S a = representative_of ch S b \<longleftrightarrow> map_of S a = map_of S b"
    using iff dict_get_eq_iff [OF a b] by simp
next
  show "unique_schedules_of ch (unique_schedules_of ch S) = unique_schedules_of ch S"
    using d by (rule unique_idem)
qed

lemma example_unique_schedules:
  "unique_schedules_of (\<lambda>es. es) example_schedules =
     [(''T1'', [\<lparr>frame_name = ''F1'', delay_ms = 10\<rparr>, \<lparr>frame_name = ''F2'', delay_ms = 10\<rparr>]),
      (''T3'', [\<lparr>frame_name = ''F1'', delay_ms = 10\<rparr>, \<lparr>frame_name = ''F2'', delay_ms = 20\<rparr>])]"
  by code_simp

lemma example_representatives:
  "representative_of (\<lambda>es. es) example_schedules ''T2'' = Some ''T1''"
  "representative_of (\<lambda>es. es) example_schedules ''T1'' = Some ''T1''"
  "representative_of (\<lambda>es. es) example_schedules ''T3'' = Some ''T3''"
  by code_simp+

theorem group_equivalent_schedules_iff_idem_witness:
  "distinct (map fst example_schedules)
   \<and> ''T1'' \<in> fst ` set example_schedules \<and> ''T2'' \<in> fst ` set example_schedules
   \<and> ''T3'' \<in> fst ` set example_schedules
   \<and> inj_on (\<lambda>es. es) (snd ` set example_schedules)
   \<and> representative_of (\<lambda>es. es) example_schedules ''T1''
       = representative_of (\<lambda>es. es) example_schedules ''T2''
   \<and> map_of example_schedules ''T1'' = map_of example_schedules ''T2''
   \<and> representative_of (\<lambda>es. es) example_schedules ''T1''
       \<noteq> representative_of (\<lambda>es. es) example_schedules ''T3''
   \<and> map_of example_schedules ''T1'' \<noteq> map_of example_schedules ''T3''
   \<and> unique_schedules_of (\<lambda>es. es) (unique_schedules_of (\<lambda>es. es) example_schedules)
       = unique_schedules_of (\<lambda>es. es) example_schedules"
proof -
  have d: "distinct (map fst example_schedules)" by (simp add: example_schedules_def)
  have k: "''T1'' \<in> fst ` set example_schedules" "''T2'' \<in> fst ` set example_schedules"
    "''T3'' \<in> fst ` set example_schedules" by (simp_all add: example_schedules_def)
  have i: "inj_on (\<lambda>es. es) (snd ` set example_schedules)" by simp
  have m: "map_of example_schedules ''T1'' = map_of example_schedules ''T2''"
    "map_of example_schedules ''T1'' \<noteq> map_of example_schedules ''T3''"
    by (simp_all add: example_schedules_def)
  note t = group_equivalent_schedules_iff_idem [OF d, of "\<lambda>es. es"]
  from t k(1,2) i m(1) have 1: "representative_of (\<lambda>es. es) example_schedules ''T1''
       = representative_of (\<lambda>es. es) example_schedules ''T2''" by blast
  from t k(1,3) i m(2) have 2: "representative_of (\<lambda>es. es) example_schedules ''T1''
       \<noteq> representative_of (\<lambda>es. es) example_schedules ''T3''" by blast
  from t have 3:
    "unique_schedules_of (\<lambda>es. es) (unique_schedules_of (\<lambda>es. es) example_schedules)
       = unique_schedules_of (\<lambda>es. es) example_schedules" by blast
  from d k i m 1 2 3 show ?thesis by blast
qed

subsection \<open>Gateway correlation\<close>

lemma correlate_target_balanced:
  "balanced (snd pr) \<Longrightarrow> balanced (snd (correlate_target tol sources sd td tgt pr))"
  by (simp add: correlate_target_def balanced_def Let_def split: option.splits prod.splits)

lemma fold_correlate_target_balanced:
  "balanced (snd pr) \<Longrightarrow> balanced (snd (fold (correlate_target tol sources sd td) targets pr))"
  by (induction targets arbitrary: pr) (simp_all add: correlate_target_balanced)

lemma balanced_default: "balanced gateway_result_default"
  by (simp add: balanced_def gateway_result_default_def)

lemma all_balanced_upd: "all_balanced results \<Longrightarrow> balanced r \<Longrightarrow> all_balanced (results(k \<mapsto> r))"
  by (simp add: all_balanced_def)

lemma correlate_mapping_balanced:
  assumes "all_balanced results"
  shows "all_balanced (correlate_mapping tol ldf dbc src_events it results)"
proof -
  let ?res = "case results (fst it) of None \<Rightarrow> gateway_result_default | Some r \<Rightarrow> r"
  have b: "balanced ?res" using assms balanced_default
    by (auto simp: all_balanced_def split: option.splits)
  then have "balanced (snd (fold (correlate_target tol sources sd td) (snd it) (0, ?res)))"
    for sources sd td
    by (simp add: fold_correlate_target_balanced)
  with b assms show ?thesis
    by (auto simp: correlate_mapping_def Let_def intro!: all_balanced_upd split: option.splits)
qed

lemma post_process_balanced:
  "all_balanced (gateway_results st) \<Longrightarrow>
   all_balanced (post_process_gateway_correlation tol ldf dbc st)"
proof -
  have "all_balanced results \<Longrightarrow>
        all_balanced (fold (correlate_mapping tol ldf dbc se) te results)" for se te results
    by (induction te arbitrary: results) (simp_all add: correlate_mapping_balanced)
  then show "all_balanced (gateway_results st) \<Longrightarrow>
   all_balanced (post_process_gateway_correlation tol ldf dbc st)"
    by (simp add: post_process_gateway_correlation_def)
qed

lemma capture_mapping_balanced:
  "all_balanced (gateway_results st) \<Longrightarrow> capture_mapping b entry m st = Inr st' \<Longrightarrow>
   all_balanced (gateway_results st')"
  by (auto simp: capture_mapping_def Let_def all_balanced_def balanced_def gateway_result_default_def
      split: option.splits if_splits sum.splits)

lemma capture_mappings_balanced:
  "all_balanced (gateway_results st) \<Longrightarrow> capture_mappings b entry ms st = Inr st' \<Longrightarrow>
   all_balanced (gateway_results st')"
  by (induction ms arbitrary: st) (auto split: sum.splits dest: capture_mapping_balanced)

lemma gateway_event_capture_balanced:
  "all_balanced (gateway_results st) \<Longrightarrow> gateway_event_capture en lookup ea st = Inr st' \<Longrightarrow>
   all_balanced (gateway_results st')"
  by (auto simp: gateway_event_capture_def Let_def split: if_splits sum.splits
      dest: capture_mappings_balanced)

lemma capture_all_balanced:
  "all_balanced (gateway_results st) \<Longrightarrow> capture_all en lookup eas st = Inr st' \<Longrightarrow>
   all_balanced (gateway_results st')"
  by (induction eas arbitrary: st) (auto split: sum.splits dest: gateway_event_capture_balanced)

text \<open>
  Claim C8. Whatever records the gateway event capture has consumed (when it returned
  normally), after the correlation post-pass every entry of the gateway results satisfies
  \<open>comparisons = matches + mismatches_value + mismatches_type + mismatches_timing\<close>.
\<close>

theorem gateway_results_balanced:
  assumes "capture_all en lookup eas gateway_state_init = Inr st"
  shows "\<forall>idx res. post_process_gateway_correlation tol ldf dbc st idx = Some res \<longrightarrow>
           comparisons res =
             matches res + mismatches_value res + mismatches_type res + mismatches_timing res"
proof -
  have "all_balanced (gateway_results gateway_state_init)"
    by (simp add: all_balanced_def gateway_state_init_def)
  with assms have "all_balanced (gateway_results st)" by (rule capture_all_balanced[rotated])
  then have "all_balanced (post_process_gateway_correlation tol ldf dbc st)"
    by (rule post_process_balanced)
  then show ?thesis by (simp add: all_balanced_def balanced_def)
qed

lemma correlate_target_counts:
  "comparisons (snd (correlate_target tol sources sd td tgt pr)) = comparisons (snd pr) + 1"
  by (simp add: correlate_target_def Let_def split: option.splits prod.splits)

lemma extract_example_values:
  "extract_signal_value [2] 0 8 False False = Inr 2"
  "extract_signal_value [3] 0 8 False False = Inr 3"
  by code_simp+

lemma capture_example: "capture_all True lookup_AB log_AB gateway_state_init = Inr state_AB"
  by (simp add: log_AB_def lookup_AB_def gateway_event_capture_def bare_entry_def
      capture_mapping_def mapping_AB_def sig_A_def sig_B_def extract_example_values
      gateway_state_init_def dd_append_def state_AB_def gateway_result_default_def)

lemma post_process_example:
  "map_option (\<lambda>r. (comparisons r, matches r, mismatches_value r, mismatches_type r,
                     mismatches_timing r))
     (post_process_gateway_correlation (22 / 1000) [''A'' \<mapsto> sig_A] [''B'' \<mapsto> sig_B]
        state_AB 0)
   = Some (2, 1, 0, 0, 1)"
  by code_simp

theorem gateway_results_balanced_witness:
  "capture_all True lookup_AB log_AB gateway_state_init = Inr state_AB
   \<and> (case post_process_gateway_correlation (22 / 1000) [''A'' \<mapsto> sig_A] [''B'' \<mapsto> sig_B]
              state_AB 0 of
         None \<Rightarrow> False
       | Some r \<Rightarrow>
           comparisons r = 2 \<and> matches r = 1 \<and> mismatches_timing r = 1
           \<and> comparisons r =
               matches r + mismatches_value r + mismatches_type r + mismatches_timing r)"
proof -
  obtain r where r: "post_process_gateway_correlation (22 / 1000) [''A'' \<mapsto> sig_A]
      [''B'' \<mapsto> sig_B] state_AB 0 = Some r"
    using post_process_example by blast
  with post_process_example
  have v: "comparisons r = 2" "matches r = 1" "mismatches_timing r = 1" by simp_all
  from gateway_results_balanced [OF capture_example] r
  have "comparisons r =
          matches r + mismatches_value r + mismatches_type r + mismatches_timing r"
    by blast
  with capture_example r v show ?thesis by simp
qed

text \<open>
  The gateway event capture calls \<^const>\<open>extract_signal_value\<close> outside any \<^verbatim>\<open>try\<close>
  block: a CAN record with one data byte, mapped to a big-endian signal of the second
  byte, raises \<^verbatim>\<open>IndexError\<close>.
\<close>

lemma extract_short_data: "extract_signal_value [2] 15 8 True False = Inl IndexError"
  by code_simp

lemma gateway_event_capture_raises:
  "gateway_event_capture True lookup_AC (bare_entry (1 / 100) ''CAN1'' 0x100 [2], True) st
     = Inl IndexError"
  by (simp add: gateway_event_capture_def lookup_AC_def bare_entry_def capture_mapping_def
      mapping_AC_def mapping_AB_def sig_C_def extract_short_data)

subsection \<open>Aggregation of CAN databases\<close>

lemma message_step_same_baud:
  assumes "map_of attrs ''Baudrate'' = Some b" and "first_baudrate_found st = Some b"
  shows "\<exists>st'. message_step attrs im st = (None, st')
           \<and> first_baudrate_found st' = Some b
           \<and> global_attributes_aggregated st' = global_attributes_aggregated st"
  using assms by (simp add: message_step_def Let_def)

lemma message_loop_same_baud:
  assumes "map_of attrs ''Baudrate'' = Some b" and "first_baudrate_found st = Some b"
  shows "\<exists>st'. message_loop attrs ims st = (None, st')
           \<and> first_baudrate_found st' = Some b
           \<and> global_attributes_aggregated st' = global_attributes_aggregated st"
  using assms(2)
proof (induction ims arbitrary: st)
  case Nil
  then show ?case by simp
next
  case (Cons im ims)
  from message_step_same_baud [OF assms(1) Cons.prems, of im]
  obtain st1 where s: "message_step attrs im st = (None, st1)"
    "first_baudrate_found st1 = Some b"
    "global_attributes_aggregated st1 = global_attributes_aggregated st" by blast
  from Cons.IH [OF s(2)] s show ?case by simp
qed

lemma message_step_first_baud:
  assumes "map_of attrs ''Baudrate'' = Some b" and "first_baudrate_found st = None"
    and "global_attributes_aggregated st = []"
  shows "\<exists>st'. message_step attrs im st = (None, st')
           \<and> first_baudrate_found st' = Some b
           \<and> global_attributes_aggregated st' = [(''Baudrate'', b)]"
  using assms by (simp add: message_step_def Let_def)

lemma message_loop_conflict:
  assumes "map_of attrs ''Baudrate'' = Some b2" and "first_baudrate_found st = Some b1"
    and "b1 \<noteq> b2"
  shows "global_attributes_aggregated (snd (message_loop attrs ims st))
           = global_attributes_aggregated st"
    and "ims \<noteq> [] \<Longrightarrow> fst (message_loop attrs ims st) = Some ValueError"
  using assms by (cases ims; simp add: message_step_def Let_def)+

text \<open>
  Claim C4. Two database files of one channel with different \<^verbatim>\<open>Baudrate\<close> values are
  claimed to make channel parsing fail. The \<^verbatim>\<open>raise ValueError\<close> of the baud-rate check
  sits inside the \<^verbatim>\<open>try\<close> block whose handler catches every exception and continues
  with the next file, so \<^const>\<open>parse_dbcs_for_channel\<close> returns a merged model, with the
  baud rate of the first file.
\<close>

theorem parse_dbcs_for_channel_conflict_returns:
  assumes "map_of attrs1 ''Baudrate'' = Some b1" and "map_of attrs2 ''Baudrate'' = Some b2"
    and "b1 \<noteq> b2" and "msgs1 \<noteq> []"
  shows "\<exists>msgs. parse_dbcs_for_channel [Inr (msgs1, attrs1), Inr (msgs2, attrs2)]
                  = Inr (msgs, [(''Baudrate'', b1)])"
proof -
  obtain im ims where m: "msgs1 = im # ims" using assms(4) by (cases msgs1) auto
  from message_step_first_baud [OF assms(1), of channel_state_init im]
  obtain st1 where s1: "message_step attrs1 im channel_state_init = (None, st1)"
    "first_baudrate_found st1 = Some b1"
    "global_attributes_aggregated st1 = [(''Baudrate'', b1)]"
    by (auto simp: channel_state_init_def)
  from message_loop_same_baud [OF assms(1) s1(2), of ims]
  obtain st2 where s2: "message_loop attrs1 ims st1 = (None, st2)"
    "first_baudrate_found st2 = Some b1"
    "global_attributes_aggregated st2 = [(''Baudrate'', b1)]"
    using s1(3) by auto
  have f1: "file_step (Inr (msgs1, attrs1)) channel_state_init = st2"
    using m s1(1) s2(1) by (simp add: file_step_def)
  have "global_attributes_aggregated (file_step (Inr (msgs2, attrs2)) st2) = [(''Baudrate'', b1)]"
    using message_loop_conflict(1) [OF assms(2) s2(2) assms(3)] s2(3) by (simp add: file_step_def)
  then show ?thesis using f1 by (simp add: parse_dbcs_for_channel_def)
qed

lemma parse_dbcs_for_channel_total: "\<exists>r. parse_dbcs_for_channel file_results = Inr r"
  by (simp add: parse_dbcs_for_channel_def Let_def)

lemma conflict_example:
  "parse_dbcs_for_channel [dbc_500k, dbc_250k] =
     Inr ([(0x100, msg_M1), (0x200, msg_M2)], [(''Baudrate'', AInt 500000)])"
  by code_simp

lemma conflict_raise_is_caught:
  "fst (message_loop [(''Baudrate'', AInt 250000), (''_Baudrate_source'', AStr ''explicit'')]
          [(0x200, msg_M2)] (file_step dbc_500k channel_state_init)) = Some ValueError"
  by code_simp

theorem parse_dbcs_for_channel_conflict_returns_witness:
  "map_of [(''Baudrate'', AInt 500000), (''_Baudrate_source'', AStr ''explicit'')] ''Baudrate''
     = Some (AInt 500000)
   \<and> map_of [(''Baudrate'', AInt 250000), (''_Baudrate_source'', AStr ''explicit'')] ''Baudrate''
     = Some (AInt 250000)
   \<and> AInt 500000 \<noteq> AInt 250000 \<and> [(0x100 :: int, msg_M1)] \<noteq> []
   \<and> parse_dbcs_for_channel [dbc_500k, dbc_250k] =
       Inr ([(0x100, msg_M1), (0x200, msg_M2)], [(''Baudrate'', AInt 500000)])"
proof -
  have "\<exists>msgs. parse_dbcs_for_channel [dbc_500k, dbc_250k] = Inr (msgs, [(''Baudrate'', AInt 500000)])"
    unfolding dbc_500k_def dbc_250k_def
    by (rule parse_dbcs_for_channel_conflict_returns [where ?b1.0 = "AInt 500000"
          and ?b2.0 = "AInt 250000"]) simp_all
  moreover have "AInt 500000 \<noteq> AInt 250000" by simp
  moreover have "[(0x100 :: int, msg_M1)] \<noteq> []" by simp
  moreover have "map_of [(''Baudrate'', AInt 500000), (''_Baudrate_source'', AStr ''explicit'')]
     ''Baudrate'' = Some (AInt 500000)" by simp
  moreover have "map_of [(''Baudrate'', AInt 250000), (''_Baudrate_source'', AStr ''explicit'')]
     ''Baudrate'' = Some (AInt 250000)" by simp
  ultimately show ?thesis using conflict_example by blast
qed

subsection \<open>Schedule adherence\<close>

lemma bump_requests_runtime [simp]:
  "schedule_runtime (bump_requests ldf_data n ls) = schedule_runtime ls"
  "cycles (bump_requests ldf_data n ls) = cycles ls"
  "global_errors (bump_requests ldf_data n ls) = global_errors ls"
  by (simp_all add: bump_requests_def Let_def split: option.splits)

lemma fold_bump_requests_runtime [simp]:
  "schedule_runtime (fold (bump_requests ldf_data) ns ls) = schedule_runtime ls"
  "cycles (fold (bump_requests ldf_data) ns ls) = cycles ls"
  "global_errors (fold (bump_requests ldf_data) ns ls) = global_errors ls"
  by (induction ns arbitrary: ls) simp_all

lemma finalize_cycle_total:
  assumes "cursor_inv ls"
  shows "\<exists>ls'. finalize_cycle current_ts st ls = Inr ls'"
  using assms
  by (auto simp: finalize_cycle_def cursor_inv_def Let_def falsy_timestamp_def split: option.splits)

lemma finalize_cycle_result:
  assumes "finalize_cycle current_ts st ls = Inr ls'"
  shows "schedule_runtime ls' = schedule_runtime (reset_state ls)"
    and "global_errors ls' = global_errors ls"
    and "cycles ls' = cycles ls @
           (if falsy_timestamp (cycle_start_timestamp (schedule_runtime ls))
               \<or> cycle_log (schedule_runtime ls) = [] then []
            else [\<lparr>cy_id = the (rs_id (schedule_runtime ls)),
                   schedule_name = (if length (active_schedules (schedule_runtime ls)) = 1
                                    then hd (active_schedules (schedule_runtime ls))
                                    else ''Ambiguous''),
                   start_ts = the (cycle_start_timestamp (schedule_runtime ls)),
                   end_ts = current_ts, status = st,
                   events = cycle_log (schedule_runtime ls),
                   had_timing_errors = has_timing_errors (schedule_runtime ls)\<rparr>])"
  using assms
  by (auto simp: finalize_cycle_def reset_state_def Let_def split: if_splits option.splits)

lemma reset_state_fields [simp]:
  "active_schedules (schedule_runtime (reset_state ls)) = []"
  "current_index (schedule_runtime (reset_state ls)) = 0"
  "cycle_log (schedule_runtime (reset_state ls)) = []"
  "cycle_start_timestamp (schedule_runtime (reset_state ls)) = None"
  by (simp_all add: reset_state_def)

lemma schedule_loop_empty:
  "active_schedules (schedule_runtime ls) = [] \<Longrightarrow>
   schedule_loop ldf_data tf mt current_ts n ls = start_cycle_or_intrusion ldf_data current_ts n ls"
  by (subst schedule_loop.simps) simp

lemma schedule_loop_no_match:
  assumes "active_schedules (schedule_runtime ls) \<noteq> []"
    and "expected_frames_info ldf_data (current_index (schedule_runtime ls))
           (active_schedules (schedule_runtime ls)) [] = Inr info"
    and "map_of info n = None"
    and "finalize_cycle current_ts ''Aborted'' (no_match_state ldf_data current_ts n info ls) = Inr ls'"
  shows "schedule_loop ldf_data tf mt current_ts n ls = start_cycle_or_intrusion ldf_data current_ts n ls'"
proof -
  have e: "active_schedules (schedule_runtime ls') = []"
    using assms(4) by (rule finalize_cycle_resets)
  have "schedule_loop ldf_data tf mt current_ts n ls = schedule_loop ldf_data tf mt current_ts n ls'"
  proof (cases "info = []")
    case True
    with assms show ?thesis
      by (subst schedule_loop.simps) (simp add: no_match_state_def)
  next
    case False
    with assms show ?thesis
      by (subst schedule_loop.simps) (simp add: no_match_state_def Let_def)
  qed
  then show ?thesis using e by (simp add: schedule_loop_empty)
qed


lemma no_match_state_runtime:
  "schedule_runtime (no_match_state ldf_data ts n info ls) =
     (schedule_runtime ls)\<lparr>cycle_log := cycle_log (schedule_runtime ls) @
        (if info = [] then []
         else [\<lparr>ev_ts = ts, ev_type = ''Sequence Mismatch'',
                ev_details = SequenceMismatch (map fst info) n\<rparr>])\<rparr>"
  "cycles (no_match_state ldf_data ts n info ls) = cycles ls"
  "global_errors (no_match_state ldf_data ts n info ls) = global_errors ls"
  by (simp_all add: no_match_state_def log_cycle_event_def)

lemma cursor_inv_no_match: "cursor_inv ls \<Longrightarrow> cursor_inv (no_match_state ldf_data ts n info ls)"
  by (simp add: cursor_inv_def no_match_state_runtime)

text \<open>
  Claim C10, amended. Let the cursor be non-empty and let the frame of the record be
  none of the frames expected at the cursor. Then the cycle is finalised as
  \<^verbatim>\<open>Aborted\<close> and the cursor is reset; when at least one frame was expected, a
  \<^verbatim>\<open>Sequence Mismatch\<close> event (expected names, observed name) is the last event of the
  aborted cycle, which is recorded when its start timestamp is not zero; when no frame
  was expected, no event is added. In the same call the record is evaluated again on the
  reset state: the result equals that of the validator on the reset state, which is an
  \<^verbatim>\<open>Intrusion Frame\<close> global error if the frame opens no schedule table, and otherwise
  the completion check applied to a new cycle with all candidate tables active,
  \<open>current_index = 1\<close> and a \<^verbatim>\<open>Cycle Start\<close> event.
\<close>

theorem schedule_no_match_reevaluated:
  assumes ty: "type entry \<in> {''Rx'', ''TransmErr'', ''RcvError''}"
    and fr: "ldf_id_to_frame_map (frame_id_int entry) = Some f"
    and act: "active_schedules (schedule_runtime ls) \<noteq> []"
    and inf: "expected_frames_info ldf_data (current_index (schedule_runtime ls))
                (active_schedules (schedule_runtime ls)) [] = Inr info"
    and nm: "map_of info (fr_name f) = None"
    and inv: "cursor_inv ls"
  shows "\<exists>ls'.
      finalize_cycle (timestamp entry) ''Aborted''
        (no_match_state ldf_data (timestamp entry) (fr_name f) info ls) = Inr ls'
      \<and> active_schedules (schedule_runtime ls') = []
      \<and> current_index (schedule_runtime ls') = 0
      \<and> cycle_log (schedule_runtime ls') = []
      \<and> global_errors ls' = global_errors ls
      \<and> (info \<noteq> [] \<and> \<not> falsy_timestamp (cycle_start_timestamp (schedule_runtime ls)) \<longrightarrow>
           cycles ls' = cycles ls @
             [\<lparr>cy_id = the (rs_id (schedule_runtime ls)),
               schedule_name = (if length (active_schedules (schedule_runtime ls)) = 1
                                then hd (active_schedules (schedule_runtime ls))
                                else ''Ambiguous''),
               start_ts = the (cycle_start_timestamp (schedule_runtime ls)),
               end_ts = timestamp entry, status = ''Aborted'',
               events = cycle_log (schedule_runtime ls) @
                 [\<lparr>ev_ts = timestamp entry, ev_type = ''Sequence Mismatch'',
                   ev_details = SequenceMismatch (map fst info) (fr_name f)\<rparr>],
               had_timing_errors = has_timing_errors (schedule_runtime ls)\<rparr>])
      \<and> (info = [] \<longrightarrow>
           (\<forall>c \<in> set (cycles ls') - set (cycles ls).
              events c = cycle_log (schedule_runtime ls)))
      \<and> validate_schedule_order_and_presence entry ldf_data ldf_id_to_frame_map ls tf mt
          = validate_schedule_order_and_presence entry ldf_data ldf_id_to_frame_map ls' tf mt
      \<and> (candidate_schedules ldf_data (fr_name f) = [] \<longrightarrow>
           validate_schedule_order_and_presence entry ldf_data ldf_id_to_frame_map ls tf mt
             = Inr (ls'\<lparr>global_errors := global_errors ls' @
                        [\<lparr>ev_ts = timestamp entry, ev_type = ''Intrusion Frame'',
                          ev_details = FrameName (fr_name f)\<rparr>]\<rparr>))
      \<and> (candidate_schedules ldf_data (fr_name f) \<noteq> [] \<longrightarrow>
           validate_schedule_order_and_presence entry ldf_data ldf_id_to_frame_map ls tf mt
             = check_and_finalize_if_complete ldf_data (timestamp entry)
                 (ls'\<lparr>schedule_runtime := (schedule_runtime ls')
                       \<lparr>active_schedules := sort (candidate_schedules ldf_data (fr_name f)),
                        current_index := 1,
                        last_event_timestamp := Some (timestamp entry),
                        cycle_start_timestamp := Some (timestamp entry),
                        rs_id := Some (cycle_id (schedule_runtime ls')),
                        cycle_log :=
                          [\<lparr>ev_ts = timestamp entry, ev_type = ''Cycle Start'',
                            ev_details = TriggerFrame (fr_name f)\<rparr>]\<rparr>\<rparr>))"
proof -
  let ?ts = "timestamp entry" and ?n = "fr_name f"
  let ?nm = "no_match_state ldf_data ?ts ?n info ls"
  obtain ls' where fin: "finalize_cycle ?ts ''Aborted'' ?nm = Inr ls'"
    using finalize_cycle_total [OF cursor_inv_no_match [OF inv]] by blast
  note res = finalize_cycle_result [OF fin]
  have rt: "schedule_runtime ls' = schedule_runtime (reset_state ?nm)" by (rule res(1))
  have a: "active_schedules (schedule_runtime ls') = []"
    "current_index (schedule_runtime ls') = 0" "cycle_log (schedule_runtime ls') = []"
    by (simp_all add: rt)
  have g: "global_errors ls' = global_errors ls"
    using res(2) by (simp add: no_match_state_runtime)
  have c1: "info \<noteq> [] \<and> \<not> falsy_timestamp (cycle_start_timestamp (schedule_runtime ls)) \<longrightarrow>
           cycles ls' = cycles ls @
             [\<lparr>cy_id = the (rs_id (schedule_runtime ls)),
               schedule_name = (if length (active_schedules (schedule_runtime ls)) = 1
                                then hd (active_schedules (schedule_runtime ls))
                                else ''Ambiguous''),
               start_ts = the (cycle_start_timestamp (schedule_runtime ls)),
               end_ts = timestamp entry, status = ''Aborted'',
               events = cycle_log (schedule_runtime ls) @
                 [\<lparr>ev_ts = timestamp entry, ev_type = ''Sequence Mismatch'',
                   ev_details = SequenceMismatch (map fst info) (fr_name f)\<rparr>],
               had_timing_errors = has_timing_errors (schedule_runtime ls)\<rparr>]"
    using res(3) by (simp add: no_match_state_runtime)
  have c2: "info = [] \<longrightarrow>
           (\<forall>c \<in> set (cycles ls') - set (cycles ls).
              events c = cycle_log (schedule_runtime ls))"
    using res(3) by (auto simp: no_match_state_runtime split: if_splits)
  have v: "validate_schedule_order_and_presence entry ldf_data ldf_id_to_frame_map ls tf mt
      = start_cycle_or_intrusion ldf_data ?ts ?n ls'"
    using ty fr schedule_loop_no_match [OF act inf nm fin]
    by (simp add: validate_schedule_order_and_presence_def)
  have v': "validate_schedule_order_and_presence entry ldf_data ldf_id_to_frame_map ls' tf mt
      = start_cycle_or_intrusion ldf_data ?ts ?n ls'"
    using ty fr a(1) by (simp add: validate_schedule_order_and_presence_def schedule_loop_empty)
  have i: "candidate_schedules ldf_data ?n = [] \<longrightarrow>
           start_cycle_or_intrusion ldf_data ?ts ?n ls'
             = Inr (ls'\<lparr>global_errors := global_errors ls' @
                        [\<lparr>ev_ts = ?ts, ev_type = ''Intrusion Frame'',
                          ev_details = FrameName ?n\<rparr>]\<rparr>)"
    by (simp add: start_cycle_or_intrusion_def)
  have s: "candidate_schedules ldf_data ?n \<noteq> [] \<longrightarrow>
           start_cycle_or_intrusion ldf_data ?ts ?n ls'
             = check_and_finalize_if_complete ldf_data ?ts
                 (ls'\<lparr>schedule_runtime := (schedule_runtime ls')
                       \<lparr>active_schedules := sort (candidate_schedules ldf_data ?n),
                        current_index := 1,
                        last_event_timestamp := Some ?ts,
                        cycle_start_timestamp := Some ?ts,
                        rs_id := Some (cycle_id (schedule_runtime ls')),
                        cycle_log :=
                          [\<lparr>ev_ts = ?ts, ev_type = ''Cycle Start'',
                            ev_details = TriggerFrame ?n\<rparr>]\<rparr>\<rparr>)"
    using a(3) by (simp add: start_cycle_or_intrusion_def log_cycle_event_def Let_def)
  from fin a g c1 c2 v v' i s show ?thesis by (intro exI [of _ ls']) simp
qed


lemma cursor_inv_init: "cursor_inv schedule_stats_init"
  by (simp add: cursor_inv_def schedule_stats_init_def)

lemma finalize_cycle_inv: "finalize_cycle ts st ls = Inr ls' \<Longrightarrow> cursor_inv ls'"
  using finalize_cycle_result(1) [of ts st ls ls'] by (simp add: cursor_inv_def)

lemma check_and_finalize_inv:
  "cursor_inv ls \<Longrightarrow> check_and_finalize_if_complete ldf_data ts ls = Inr ls' \<Longrightarrow> cursor_inv ls'"
  by (auto simp: check_and_finalize_if_complete_def Let_def
      split: if_splits sum.splits dest: finalize_cycle_inv)

lemma start_cycle_or_intrusion_inv:
  assumes i: "cursor_inv ls" and s: "start_cycle_or_intrusion ldf_data ts n ls = Inr ls'"
  shows "cursor_inv ls'"
proof (cases "candidate_schedules ldf_data n = []")
  case True
  with s i show ?thesis by (auto simp: start_cycle_or_intrusion_def cursor_inv_def)
next
  case False
  let ?st = "log_cycle_event ts ''Cycle Start'' (TriggerFrame n)
             (ls\<lparr>schedule_runtime := (schedule_runtime ls)
                   \<lparr>active_schedules := sort (candidate_schedules ldf_data n),
                    current_index := 1,
                    last_event_timestamp := Some ts,
                    cycle_start_timestamp := Some ts,
                    rs_id := Some (cycle_id (schedule_runtime ls))\<rparr>\<rparr>)"
  have "cursor_inv ?st" by (simp add: cursor_inv_def log_cycle_event_def)
  moreover have "check_and_finalize_if_complete ldf_data ts ?st = Inr ls'"
    using s False by (simp add: start_cycle_or_intrusion_def Let_def)
  ultimately show ?thesis by (rule check_and_finalize_inv)
qed

lemma slot_step_runtime:
  "slot_step ldf_data tf mt ts n idx lts sn ls = Inr ls' \<Longrightarrow>
   rs_id (schedule_runtime ls') = rs_id (schedule_runtime ls)
   \<and> cycle_start_timestamp (schedule_runtime ls') = cycle_start_timestamp (schedule_runtime ls)"
  by (auto simp: slot_step_def Let_def split: sum.splits if_splits)

lemma slot_loop_runtime:
  "slot_loop (slot_step ldf_data tf mt ts n idx lts) sns ls = Inr ls' \<Longrightarrow>
   rs_id (schedule_runtime ls') = rs_id (schedule_runtime ls)
   \<and> cycle_start_timestamp (schedule_runtime ls') = cycle_start_timestamp (schedule_runtime ls)"
proof (induction sns arbitrary: ls)
  case Nil
  then show ?case by simp
next
  case (Cons sn sns)
  then show ?case by (auto split: sum.splits dest!: slot_step_runtime)
qed

lemma bump_responses_runtime [simp]:
  "schedule_runtime (bump_responses ldf_data n ls) = schedule_runtime ls"
  by (simp add: bump_responses_def Let_def split: option.splits)

lemma matched_slot_inv:
  assumes "cursor_inv ls" and "matched_slot ldf_data tf mt ts n pm ls = Inr ls'"
  shows "cursor_inv ls'"
proof -
  from assms(2) obtain ls2 where
    l: "(case pm of [] \<Rightarrow> Inr (bump_responses ldf_data n ls)
          | _ \<Rightarrow> (case last_event_timestamp (schedule_runtime (bump_responses ldf_data n ls)) of
                    None \<Rightarrow> Inl TypeError
                  | Some last_ts \<Rightarrow>
                      slot_loop (slot_step ldf_data tf mt ts n
                                   (current_index (schedule_runtime (bump_responses ldf_data n ls)))
                                   last_ts) pm (bump_responses ldf_data n ls))) = Inr ls2"
    and c: "check_and_finalize_if_complete ldf_data ts
               (ls2\<lparr>schedule_runtime := (schedule_runtime ls2)
                     \<lparr>active_schedules := sort pm,
                      current_index := current_index (schedule_runtime ls2) + 1,
                      last_event_timestamp := Some ts\<rparr>\<rparr>) = Inr ls'"
    by (auto simp: matched_slot_def Let_def split: sum.splits)
  from l have "rs_id (schedule_runtime ls2) = rs_id (schedule_runtime ls)
     \<and> cycle_start_timestamp (schedule_runtime ls2) = cycle_start_timestamp (schedule_runtime ls)"
    by (cases pm) (auto split: option.splits simp del: slot_loop.simps dest!: slot_loop_runtime)
  with assms(1) have "cursor_inv (ls2\<lparr>schedule_runtime := (schedule_runtime ls2)
                     \<lparr>active_schedules := sort pm,
                      current_index := current_index (schedule_runtime ls2) + 1,
                      last_event_timestamp := Some ts\<rparr>\<rparr>)"
    by (simp add: cursor_inv_def)
  then show ?thesis using c by (rule check_and_finalize_inv)
qed

lemma schedule_loop_inv:
  "cursor_inv ls \<Longrightarrow> schedule_loop ldf_data tf mt ts n ls = Inr ls' \<Longrightarrow> cursor_inv ls'"
proof (induction ldf_data tf mt ts n ls rule: schedule_loop.induct)
  case (1 ldf_data tf mt ts n ls)
  show ?case
  proof (cases "active_schedules (schedule_runtime ls) = []")
    case True
    with "1.prems" show ?thesis
      by (simp add: schedule_loop_empty start_cycle_or_intrusion_inv)
  next
    case False
    from "1.prems"(2) False obtain info where
      inf: "expected_frames_info ldf_data (current_index (schedule_runtime ls))
              (active_schedules (schedule_runtime ls)) [] = Inr info"
      by (subst (asm) schedule_loop.simps) (auto split: sum.splits)
    show ?thesis
    proof (cases "map_of info n")
      case None
      from "1.prems"(2) False inf None obtain ls2 where
        fin: "finalize_cycle ts ''Aborted'' (no_match_state ldf_data ts n info ls) = Inr ls2"
        by (subst (asm) schedule_loop.simps)
          (auto simp: no_match_state_def Let_def split: sum.splits if_splits)
      from schedule_loop_no_match [OF False inf None fin] "1.prems"(2)
      have "start_cycle_or_intrusion ldf_data ts n ls2 = Inr ls'" by simp
      moreover have "cursor_inv ls2" using fin by (rule finalize_cycle_inv)
      ultimately show ?thesis by (rule start_cycle_or_intrusion_inv [rotated])
    next
      case (Some pm)
      then have ne: "info \<noteq> []" by auto
      from "1.prems"(2) False inf Some ne
      have "matched_slot ldf_data tf mt ts n pm (fold (bump_requests ldf_data) (map fst info) ls)
              = Inr ls'"
        by (subst (asm) schedule_loop.simps) (simp add: Let_def)
      moreover have "cursor_inv (fold (bump_requests ldf_data) (map fst info) ls)"
        using "1.prems"(1) by (simp add: cursor_inv_def)
      ultimately show ?thesis by (rule matched_slot_inv [rotated])
    qed
  qed
qed

lemma validate_schedule_inv:
  "cursor_inv ls \<Longrightarrow>
   validate_schedule_order_and_presence entry ldf_data m ls tf mt = Inr ls' \<Longrightarrow> cursor_inv ls'"
  by (auto simp: validate_schedule_order_and_presence_def split: if_splits option.splits
      dest: schedule_loop_inv)

lemma validate_schedule_all_inv:
  "cursor_inv ls \<Longrightarrow> validate_schedule_all ldf_data m tf mt es ls = Inr ls' \<Longrightarrow> cursor_inv ls'"
  by (induction es arbitrary: ls) (auto split: sum.splits dest: validate_schedule_inv)

lemma reach_cursor_after_F1:
  "validate_schedule_order_and_presence (rx (1 / 10) 1) ldf_AB frame_map_AB schedule_stats_init
     (1 / 10) (5 / 1000) = Inr cursor_after_F1"
  by (simp add: validate_schedule_order_and_presence_def rx_def bare_entry_def frame_map_AB_def
      frame_F_def schedule_loop_empty schedule_stats_init_def start_cycle_or_intrusion_def
      candidate_schedules_def ldf_AB_def Let_def log_cycle_event_def
      check_and_finalize_if_complete_def cursor_after_F1_def)

text \<open>
  Claim C10, as stated, fails when no frame is expected at the cursor. The tables \<open>A\<close>
  and \<open>B\<close> list the same frames with different delays, so both stay active to their
  end; the completion check needs a single active table, and the next record finds
  nothing expected. The cycle is aborted without a \<^verbatim>\<open>Sequence Mismatch\<close> event: the
  recorded cycle holds the \<^verbatim>\<open>Cycle Start\<close> event only.
\<close>

theorem schedule_exhausted_counterexample:
  "map_sum id (active_schedules \<circ> schedule_runtime)
     (validate_schedule_all ldf_AB frame_map_AB (1 / 10) (5 / 1000)
        [rx (1 / 10) 1, rx (11 / 100) 2] schedule_stats_init) = Inr [''A'', ''B'']
   \<and> map_sum id (current_index \<circ> schedule_runtime)
     (validate_schedule_all ldf_AB frame_map_AB (1 / 10) (5 / 1000)
        [rx (1 / 10) 1, rx (11 / 100) 2] schedule_stats_init) = Inr 2
   \<and> expected_frames_info ldf_AB 2 [''A'', ''B''] [] = Inr []
   \<and> map_sum id cycles
     (validate_schedule_all ldf_AB frame_map_AB (1 / 10) (5 / 1000)
        [rx (1 / 10) 1, rx (11 / 100) 2, rx (2 / 10) 1] schedule_stats_init) =
       Inr [\<lparr>cy_id = 0, schedule_name = ''Ambiguous'', start_ts = 1 / 10, end_ts = 2 / 10,
             status = ''Aborted'',
             events = [\<lparr>ev_ts = 1 / 10, ev_type = ''Cycle Start'',
                        ev_details = TriggerFrame ''F1''\<rparr>],
             had_timing_errors = True\<rparr>]
   \<and> map_sum id (cycle_log \<circ> schedule_runtime)
     (validate_schedule_all ldf_AB frame_map_AB (1 / 10) (5 / 1000)
        [rx (1 / 10) 1, rx (11 / 100) 2, rx (2 / 10) 1] schedule_stats_init) =
       Inr [\<lparr>ev_ts = 2 / 10, ev_type = ''Cycle Start'', ev_details = TriggerFrame ''F1''\<rparr>]
   \<and> map_sum id global_errors
     (validate_schedule_all ldf_AB frame_map_AB (1 / 10) (5 / 1000)
        [rx (1 / 10) 1, rx (11 / 100) 2, rx (2 / 10) 1] schedule_stats_init) = Inr []"
  by code_simp

theorem schedule_no_match_reevaluated_witness:
  "type (rx (11 / 100) 3) \<in> {''Rx'', ''TransmErr'', ''RcvError''}
   \<and> frame_map_AB (frame_id_int (rx (11 / 100) 3)) = Some (frame_F ''F3'' 3 ''S'')
   \<and> active_schedules (schedule_runtime cursor_after_F1) \<noteq> []
   \<and> expected_frames_info ldf_AB (current_index (schedule_runtime cursor_after_F1))
        (active_schedules (schedule_runtime cursor_after_F1)) [] = Inr [(''F2'', [''A'', ''B''])]
   \<and> map_of [(''F2'', [''A'', ''B''])] (fr_name (frame_F ''F3'' 3 ''S'')) = None
   \<and> cursor_inv cursor_after_F1
   \<and> map_sum id global_errors
        (validate_schedule_order_and_presence (rx (11 / 100) 3) ldf_AB frame_map_AB
           cursor_after_F1 (1 / 10) (5 / 1000)) =
       Inr [\<lparr>ev_ts = 11 / 100, ev_type = ''Intrusion Frame'', ev_details = FrameName ''F3''\<rparr>]
   \<and> map_sum id cycles
        (validate_schedule_order_and_presence (rx (11 / 100) 3) ldf_AB frame_map_AB
           cursor_after_F1 (1 / 10) (5 / 1000)) =
       Inr [\<lparr>cy_id = 0, schedule_name = ''Ambiguous'', start_ts = 1 / 10, end_ts = 11 / 100,
             status = ''Aborted'',
             events = [\<lparr>ev_ts = 1 / 10, ev_type = ''Cycle Start'',
                        ev_details = TriggerFrame ''F1''\<rparr>,
                       \<lparr>ev_ts = 11 / 100, ev_type = ''Sequence Mismatch'',
                        ev_details = SequenceMismatch [''F2''] ''F3''\<rparr>],
             had_timing_errors = False\<rparr>]"
proof -
  let ?e = "rx (11 / 100) 3" and ?f = "frame_F ''F3'' 3 ''S''"
  have ty: "type ?e \<in> {''Rx'', ''TransmErr'', ''RcvError''}"
    by (simp add: rx_def bare_entry_def)
  have fr: "frame_map_AB (frame_id_int ?e) = Some ?f"
    by (simp add: rx_def bare_entry_def frame_map_AB_def)
  have act: "active_schedules (schedule_runtime cursor_after_F1) \<noteq> []"
    by (simp add: cursor_after_F1_def)
  have inf: "expected_frames_info ldf_AB (current_index (schedule_runtime cursor_after_F1))
        (active_schedules (schedule_runtime cursor_after_F1)) [] = Inr [(''F2'', [''A'', ''B''])]"
    by (simp add: cursor_after_F1_def ldf_AB_def schedule_of_def dd_append_def)
  have nm: "map_of [(''F2'', [''A'', ''B''])] (fr_name ?f) = None"
    by (simp add: frame_F_def)
  have inv: "cursor_inv cursor_after_F1"
    by (simp add: cursor_inv_def cursor_after_F1_def)
  have cand: "candidate_schedules ldf_AB (fr_name ?f) = []"
    by (simp add: candidate_schedules_def ldf_AB_def frame_F_def)
  have ts: "timestamp ?e = 11 / 100" by (simp add: rx_def bare_entry_def)
  have nf: "\<not> falsy_timestamp (cycle_start_timestamp (schedule_runtime cursor_after_F1))"
    by (simp add: falsy_timestamp_def cursor_after_F1_def)
  from schedule_no_match_reevaluated [where entry = "?e" and ldf_id_to_frame_map = frame_map_AB
      and f = "?f" and ls = cursor_after_F1 and ldf_data = ldf_AB
      and info = "[(''F2'', [''A'', ''B''])]" and tf = "1 / 10" and mt = "5 / 1000",
      OF ty fr act inf nm inv]
  obtain ls' where
    g: "global_errors ls' = global_errors cursor_after_F1"
    and c: "cycles ls' = cycles cursor_after_F1 @
             [\<lparr>cy_id = the (rs_id (schedule_runtime cursor_after_F1)),
               schedule_name = (if length (active_schedules (schedule_runtime cursor_after_F1)) = 1
                                then hd (active_schedules (schedule_runtime cursor_after_F1))
                                else ''Ambiguous''),
               start_ts = the (cycle_start_timestamp (schedule_runtime cursor_after_F1)),
               end_ts = timestamp ?e, status = ''Aborted'',
               events = cycle_log (schedule_runtime cursor_after_F1) @
                 [\<lparr>ev_ts = timestamp ?e, ev_type = ''Sequence Mismatch'',
                   ev_details = SequenceMismatch (map fst [(''F2'', [''A'', ''B''])]) (fr_name ?f)\<rparr>],
               had_timing_errors = has_timing_errors (schedule_runtime cursor_after_F1)\<rparr>]"
    and v: "validate_schedule_order_and_presence ?e ldf_AB frame_map_AB cursor_after_F1
              (1 / 10) (5 / 1000)
             = Inr (ls'\<lparr>global_errors := global_errors ls' @
                        [\<lparr>ev_ts = timestamp ?e, ev_type = ''Intrusion Frame'',
                          ev_details = FrameName (fr_name ?f)\<rparr>]\<rparr>)"
    using cand nf by auto
  have 1: "map_sum id global_errors
        (validate_schedule_order_and_presence ?e ldf_AB frame_map_AB
           cursor_after_F1 (1 / 10) (5 / 1000)) =
       Inr [\<lparr>ev_ts = 11 / 100, ev_type = ''Intrusion Frame'', ev_details = FrameName ''F3''\<rparr>]"
    unfolding v by (simp add: g ts cursor_after_F1_def schedule_stats_init_def frame_F_def)
  have 2: "map_sum id cycles
        (validate_schedule_order_and_presence ?e ldf_AB frame_map_AB
           cursor_after_F1 (1 / 10) (5 / 1000)) =
       Inr [\<lparr>cy_id = 0, schedule_name = ''Ambiguous'', start_ts = 1 / 10, end_ts = 11 / 100,
             status = ''Aborted'',
             events = [\<lparr>ev_ts = 1 / 10, ev_type = ''Cycle Start'',
                        ev_details = TriggerFrame ''F1''\<rparr>,
                       \<lparr>ev_ts = 11 / 100, ev_type = ''Sequence Mismatch'',
                        ev_details = SequenceMismatch [''F2''] ''F3''\<rparr>],
             had_timing_errors = False\<rparr>]"
    unfolding v by (simp add: c ts cursor_after_F1_def schedule_stats_init_def frame_F_def)
  from ty fr act inf nm inv 1 2 show ?thesis by blast
qed

lemma mismatch_starts_new_cycle:
  "map_sum id schedule_runtime
     (validate_schedule_order_and_presence (rx (11 / 100) 1) ldf_AB frame_map_AB
        cursor_after_F1 (1 / 10) (5 / 1000)) =
   Inr \<lparr>active_schedules = [''A'', ''B''], current_index = 1,
         last_event_timestamp = Some (11 / 100), cycle_start_timestamp = Some (11 / 100),
         cycle_log = [\<lparr>ev_ts = 11 / 100, ev_type = ''Cycle Start'',
                       ev_details = TriggerFrame ''F1''\<rparr>],
         cycle_id = 1, has_timing_errors = False, rs_id = Some 1\<rparr>"
  by code_simp

subsection \<open>Log tokenizer\<close>

lemma parse_line_unmatched: "matches_nothing u \<Longrightarrow> parse_line u = None"
  by (simp add: matches_nothing_def parse_line_def)

lemma parse_log_append: "parse_log (xs @ ys) = parse_log xs @ parse_log ys"
  by (induction xs) (auto split: option.splits)

lemma parse_log_unmatched:
  "matches_nothing u \<Longrightarrow> parse_log (before @ u # after) = parse_log (before @ after)"
  by (simp add: parse_log_append parse_line_unmatched)

lemma fold_count_entry:
  "fold (count_entry valid) es st =
     \<lparr>processed = processed st + length es,
      skipped = skipped st
        + length (filter (\<lambda>e. starts_with (channel e) ''CAN'' \<and> channel e \<notin> valid) es)\<rparr>"
  by (induction es arbitrary: st) (auto simp: count_entry_def Let_def)

text \<open>
  Claim C5, amended. A line matched by none of the seven patterns yields no entry and
  changes no counter: the entries and the internal parse statistics of a log are those of
  the log without that line. \<^verbatim>\<open>processed\<close> is the number of entries yielded, and
  \<^verbatim>\<open>skipped\<close> the number of yielded entries of a CAN channel without a loaded database.
\<close>

theorem unmatched_line_not_counted:
  assumes "matches_nothing u"
  shows "parse_line u = None
     \<and> parse_log (before @ u # after) = parse_log (before @ after)
     \<and> internal_parse_stats valid (before @ u # after)
         = internal_parse_stats valid (before @ after)
     \<and> processed (internal_parse_stats valid lines) = length (parse_log lines)
     \<and> skipped (internal_parse_stats valid lines)
         = length (filter (\<lambda>e. starts_with (channel e) ''CAN'' \<and> channel e \<notin> valid)
                     (parse_log lines))"
  using assms
  by (simp add: parse_line_unmatched parse_log_unmatched internal_parse_stats_def
      fold_count_entry)

text \<open>
  Claim C5, as stated, fails: for a log whose only line is \<^verbatim>\<open>hello world\<close>, which no
  pattern matches, no entry is produced and the \<^verbatim>\<open>skipped\<close> counter stays at 0.
\<close>

theorem unmatched_line_counterexample:
  "matches_nothing (unmatched_line ''hello world'')
   \<and> raw_line_stripped (unmatched_line ''hello world'') \<noteq> []
   \<and> parse_log [unmatched_line ''hello world''] = []
   \<and> skipped (internal_parse_stats {} [unmatched_line ''hello world'']) = 0
   \<and> processed (internal_parse_stats {} [unmatched_line ''hello world'']) = 0"
  by (simp add: matches_nothing_def unmatched_line_def parse_line_def internal_parse_stats_def)

lemma example_parse:
  "parse_log [lin_line, can_line] =
     [plain_entry 0 ''LIN'' ''01'' 1 ''Rx'' [] ''0.000 Li 01 Rx'',
      plain_entry (1 / 100) ''CAN2'' ''100'' 0x100 ''Rx'' [2] ''0.010 2 100 Rx d 1 02'']"
  by code_simp

theorem unmatched_line_not_counted_witness:
  "matches_nothing (unmatched_line ''hello world'')
   \<and> parse_log [lin_line, unmatched_line ''hello world'', can_line] = parse_log [lin_line, can_line]
   \<and> internal_parse_stats {''CAN1''} [lin_line, unmatched_line ''hello world'', can_line]
       = \<lparr>processed = 2, skipped = 1\<rparr>"
proof -
  have m: "matches_nothing (unmatched_line ''hello world'')"
    by (simp add: matches_nothing_def unmatched_line_def)
  have s: "internal_parse_stats {''CAN1''} [lin_line, can_line] = \<lparr>processed = 2, skipped = 1\<rparr>"
    unfolding internal_parse_stats_def example_parse
    by (simp add: count_entry_def plain_entry_def starts_with_def)
  from unmatched_line_not_counted [OF m, of "[lin_line]" "[can_line]" "{''CAN1''}"] m s
  show ?thesis by simp
qed
subsection \<open>The bus model returned by \<^verbatim>\<open>parse_ldf\<close>\<close>

text \<open>
  Two properties hold of every model that \<^verbatim>\<open>parse_ldf\<close> returns: the entries of the schedule
  tables it keeps name frames of the frames map (a table is cut at the first entry that
  does not), and a standard frame carries an identifier, a publisher and a size.
\<close>

lemma schedule_entries_of_refs:
  "schedule_entries_of fs es = Some xs \<Longrightarrow> \<forall>e \<in> set xs. map_of fs (frame_name e) \<noteq> None"
proof (induction es arbitrary: xs)
  case Nil
  then show ?case by simp
next
  case (Cons e es)
  then show ?case by (auto split: if_splits option.splits)
qed

lemma set_update_subset: "set (AList.update k v al) \<subseteq> insert (k, v) (set al)"
  by (induction al) auto

lemma schedule_step_refs:
  assumes "\<forall>(n, es) \<in> set scheds. \<forall>e \<in> set es. map_of fs (frame_name e) \<noteq> None"
  shows "\<forall>(n, es) \<in> set (schedule_step fs sd scheds).
           \<forall>e \<in> set es. map_of fs (frame_name e) \<noteq> None"
proof (cases "schedule_entries_of fs (snd sd)")
  case None
  with assms show ?thesis by (simp add: schedule_step_def)
next
  case (Some xs)
  have sub: "set (AList.update (fst sd) xs scheds) \<subseteq> insert (fst sd, xs) (set scheds)"
    by (rule set_update_subset)
  have new: "\<forall>e \<in> set xs. map_of fs (frame_name e) \<noteq> None"
    using schedule_entries_of_refs [OF Some] .
  have "\<forall>(n, es) \<in> insert (fst sd, xs) (set scheds).
          \<forall>e \<in> set es. map_of fs (frame_name e) \<noteq> None"
    using assms new by simp
  then have "\<forall>(n, es) \<in> set (AList.update (fst sd) xs scheds).
          \<forall>e \<in> set es. map_of fs (frame_name e) \<noteq> None"
    using sub by blast
  with assms Some show ?thesis by (simp add: schedule_step_def)
qed

lemma fold_schedule_step_refs:
  assumes "\<forall>(n, es) \<in> set scheds. \<forall>e \<in> set es. map_of fs (frame_name e) \<noteq> None"
  shows "\<forall>(n, es) \<in> set (fold (schedule_step fs) sds scheds).
           \<forall>e \<in> set es. map_of fs (frame_name e) \<noteq> None"
  using assms
proof (induction sds arbitrary: scheds)
  case Nil
  then show ?case by simp
next
  case (Cons sd sds)
  from Cons.IH [OF schedule_step_refs [OF Cons.prems]] show ?case by simp
qed

lemma parse_ldf_result:
  assumes "parse_ldf g = Inr d"
  shows "\<exists>fs. frames d = fs \<and> schedules d = fold (schedule_step fs) (schedule_defs g) []"
  using assms
  by (auto simp: parse_ldf_def Let_def split: option.splits sum.splits if_splits; blast)

lemma parse_ldf_schedule_refs:
  assumes "parse_ldf g = Inr d"
  shows "schedule_refs_ok d"
proof -
  from parse_ldf_result [OF assms]
  have s: "schedules d = fold (schedule_step (frames d)) (schedule_defs g) []" by simp
  have "\<forall>(n, es) \<in> set (fold (schedule_step (frames d)) (schedule_defs g) []).
           \<forall>e \<in> set es. map_of (frames d) (frame_name e) \<noteq> None"
    by (rule fold_schedule_step_refs) simp
  then show ?thesis by (simp add: schedule_refs_ok_def s)
qed

lemma update_preserves:
  assumes "\<forall>(n, f) \<in> set fs. P f" and "P v"
  shows "\<forall>(n, f) \<in> set (AList.update k v fs). P f"
proof -
  have "\<forall>(n, f) \<in> insert (k, v) (set fs). P f" using assms by simp
  then show ?thesis using set_update_subset [of k v fs] by blast
qed

lemma fold_preserves:
  assumes "\<And>x fs. Q fs \<Longrightarrow> Q (step x fs)" and "Q fs"
  shows "Q (fold step xs fs)"
  using assms(2) by (induction xs arbitrary: fs) (simp_all add: assms(1))

lemma update_or_same_complete:
  assumes "\<forall>(n, f) \<in> set fs. standard_complete f"
    and "fs' = fs \<or> (\<exists>k v. fs' = AList.update k v fs \<and> standard_complete v)"
  shows "\<forall>(n, f) \<in> set fs'. standard_complete f"
  using assms update_preserves [where P = standard_complete and fs = fs] by blast

lemma frame_step_shape:
  "frame_step sb det m fd fs = fs \<or>
   (\<exists>k v. frame_step sb det m fd fs = AList.update k v fs \<and> standard_complete v)"
proof -
  obtain fname fid_str publisher dlc_str sig_lines
    where fd: "fd = (fname, fid_str, publisher, dlc_str, sig_lines)"
    by (cases fd)
  have c: "\<And>i n s. standard_complete \<lparr>fr_name = fname, fr_id = Some i,
             fr_publisher = Some publisher, fr_dlc = Some n, fr_signals = s,
             fr_frame_type = ''standard'', fr_associated_frames = []\<rparr>"
    by (simp add: standard_complete_def)
  show ?thesis
  proof (cases "py_int_auto fid_str")
    case None
    then show ?thesis by (simp add: frame_step_def fd)
  next
    case i: (Some fid)
    show ?thesis
    proof (cases "py_int_dec dlc_str")
      case None
      then show ?thesis by (simp add: frame_step_def fd i)
    next
      case (Some n)
      show ?thesis unfolding frame_step_def fd prod.case i Some option.case
        using c by blast
    qed
  qed
qed

lemma sporadic_step_shape:
  "sporadic_step line fs = fs \<or>
   (\<exists>k v. sporadic_step line fs = AList.update k v fs \<and> standard_complete v)"
proof (cases "filter (\<lambda>n. map_of fs n \<noteq> None) (snd line) = []")
  case True
  then show ?thesis by (simp add: sporadic_step_def)
next
  case False
  have "standard_complete \<lparr>fr_name = fst line, fr_id = None, fr_publisher = None, fr_dlc = None,
              fr_signals = [], fr_frame_type = ''sporadic'',
              fr_associated_frames = filter (\<lambda>n. map_of fs n \<noteq> None) (snd line)\<rparr>"
    by (simp add: standard_complete_def)
  with False show ?thesis unfolding sporadic_step_def Let_def by (simp only: if_False) blast
qed

lemma event_triggered_step_shape:
  "event_triggered_step line fs = fs \<or>
   (\<exists>k v. event_triggered_step line fs = AList.update k v fs \<and> standard_complete v)"
proof (cases line)
  case None
  then show ?thesis by (simp add: event_triggered_step_def)
next
  case (Some p)
  obtain nm tokens where p: "p = (nm, tokens)" by (cases p)
  have c: "\<And>i a. standard_complete \<lparr>fr_name = nm, fr_id = i, fr_publisher = None,
                      fr_dlc = None, fr_signals = [], fr_frame_type = ''event_triggered'',
                      fr_associated_frames = a\<rparr>"
    by (simp add: standard_complete_def)
  show ?thesis
    unfolding event_triggered_step_def Some p Let_def option.case prod.case
    using c by (metis (no_types))
qed

lemma diagnostic_step_shape:
  "diagnostic_step mn dd fs = fs \<or>
   (\<exists>k v. diagnostic_step mn dd fs = AList.update k v fs \<and> standard_complete v)"
proof (cases "py_int_auto (snd dd)")
  case None
  then show ?thesis by (simp add: diagnostic_step_def)
next
  case (Some fid)
  have "standard_complete \<lparr>fr_name = fst dd, fr_id = Some fid,
             fr_publisher = (if fid = 0x3C then mn else None),
             fr_dlc = Some 8, fr_signals = [], fr_frame_type = ''diagnostic'',
             fr_associated_frames = []\<rparr>"
    by (simp add: standard_complete_def)
  then show ?thesis unfolding diagnostic_step_def Some option.case by blast
qed

lemma frame_step_complete:
  "\<forall>(n, f) \<in> set fs. standard_complete f \<Longrightarrow>
   \<forall>(n, f) \<in> set (frame_step sb det m fd fs). standard_complete f"
  by (rule update_or_same_complete [OF _ frame_step_shape])

lemma sporadic_step_complete:
  "\<forall>(n, f) \<in> set fs. standard_complete f \<Longrightarrow>
   \<forall>(n, f) \<in> set (sporadic_step line fs). standard_complete f"
  by (rule update_or_same_complete [OF _ sporadic_step_shape])

lemma event_triggered_step_complete:
  "\<forall>(n, f) \<in> set fs. standard_complete f \<Longrightarrow>
   \<forall>(n, f) \<in> set (event_triggered_step line fs). standard_complete f"
  by (rule update_or_same_complete [OF _ event_triggered_step_shape])

lemma diagnostic_step_complete:
  "\<forall>(n, f) \<in> set fs. standard_complete f \<Longrightarrow>
   \<forall>(n, f) \<in> set (diagnostic_step mn dd fs). standard_complete f"
  by (rule update_or_same_complete [OF _ diagnostic_step_shape])

lemma parse_ldf_frames:
  assumes "parse_ldf g = Inr d"
  shows "\<exists>sb det m mn. frames d =
     fold (diagnostic_step mn) (diag_defs g)
       (fold event_triggered_step (event_triggered_lines g)
          (fold sporadic_step (sporadic_lines g)
             (case frame_defs g of None \<Rightarrow> [] | Some fds \<Rightarrow> fold (frame_step sb det m) fds [])))"
  using assms
  by (auto simp: parse_ldf_def Let_def split: option.splits sum.splits if_splits; blast)

lemma parse_ldf_standard_complete:
  assumes "parse_ldf g = Inr d"
  shows "\<forall>(n, f) \<in> set (frames d). standard_complete f"
proof -
  from parse_ldf_frames [OF assms] obtain sb det m mn where f: "frames d =
     fold (diagnostic_step mn) (diag_defs g)
       (fold event_triggered_step (event_triggered_lines g)
          (fold sporadic_step (sporadic_lines g)
             (case frame_defs g of None \<Rightarrow> [] | Some fds \<Rightarrow> fold (frame_step sb det m) fds [])))"
    by blast
  have 1: "\<forall>(n, f) \<in> set (case frame_defs g of None \<Rightarrow> []
              | Some fds \<Rightarrow> fold (frame_step sb det m) fds []). standard_complete f"
  proof (cases "frame_defs g")
    case None
    then show ?thesis by simp
  next
    case (Some fds)
    have "\<forall>(n, f) \<in> set (fold (frame_step sb det m) fds []). standard_complete f"
      by (rule fold_preserves [where Q = "\<lambda>fs. \<forall>(n, f) \<in> set fs. standard_complete f"])
        (simp_all add: frame_step_complete)
    with Some show ?thesis by simp
  qed
  have 2: "\<forall>(n, f) \<in> set (fold sporadic_step (sporadic_lines g)
             (case frame_defs g of None \<Rightarrow> []
              | Some fds \<Rightarrow> fold (frame_step sb det m) fds [])). standard_complete f"
    by (rule fold_preserves [where Q = "\<lambda>fs. \<forall>(n, f) \<in> set fs. standard_complete f"])
      (simp_all add: sporadic_step_complete 1)
  have 3: "\<forall>(n, f) \<in> set (fold event_triggered_step (event_triggered_lines g)
          (fold sporadic_step (sporadic_lines g)
             (case frame_defs g of None \<Rightarrow> []
              | Some fds \<Rightarrow> fold (frame_step sb det m) fds []))). standard_complete f"
    by (rule fold_preserves [where Q = "\<lambda>fs. \<forall>(n, f) \<in> set fs. standard_complete f"])
      (simp_all add: event_triggered_step_complete 2)
  have "\<forall>(n, f) \<in> set (fold (diagnostic_step mn) (diag_defs g)
       (fold event_triggered_step (event_triggered_lines g)
          (fold sporadic_step (sporadic_lines g)
             (case frame_defs g of None \<Rightarrow> []
              | Some fds \<Rightarrow> fold (frame_step sb det m) fds [])))). standard_complete f"
    by (rule fold_preserves [where Q = "\<lambda>fs. \<forall>(n, f) \<in> set fs. standard_complete f"])
      (simp_all add: diagnostic_step_complete 3)
  then show ?thesis by (simp add: f)
qed

text \<open>
  Claim C2. Every bus model returned by \<^verbatim>\<open>parse_ldf\<close> should have schedule entries that
  reference existing frames and standard frames with an identifier in 0..63, a
  publisher and a size in 1..8, as the docstring of \<^verbatim>\<open>LDFFrame\<close> documents the two
  fields. The parser converts the identifier and the size of a frame header with
  \<^verbatim>\<open>int\<close> and stores them without any range test: for an LDF with one standard frame
  and one schedule table over it, whatever identifier and size the header gives end
  up in the model, so that the model satisfies the range part of the invariant only
  when the file already does. The schedule part holds.
\<close>

theorem parse_ldf_stores_frame_unchecked:
  assumes "py_int_auto fid_str = Some fid" and "py_int_dec dlc_str = Some n"
  shows "parse_ldf (one_frame_ldf fid_str dlc_str) = Inr (one_frame_data fid n)
     \<and> schedule_refs_ok (one_frame_data fid n)
     \<and> (bus_model_invariant (one_frame_data fid n)
          \<longleftrightarrow> 0 \<le> fid \<and> fid \<le> 63 \<and> 1 \<le> n \<and> n \<le> 8)"
proof -
  have d10: "py_int_dec ''10'' = Some 10" by code_simp
  have f5: "py_float (comma_to_point ''5'') = Some 5" by code_simp
  have sM: "strip ''M'' = ''M''" by code_simp
  have p: "parse_ldf (one_frame_ldf fid_str dlc_str) = Inr (one_frame_data fid n)"
    using assms
    by (simp add: parse_ldf_def one_frame_ldf_def one_frame_data_def parse_nodes_def
        frame_step_def schedule_step_def d10 f5 sM Let_def)
  then have r: "schedule_refs_ok (one_frame_data fid n)" by (rule parse_ldf_schedule_refs)
  have "(bus_model_invariant (one_frame_data fid n)
          \<longleftrightarrow> 0 \<le> fid \<and> fid \<le> 63 \<and> 1 \<le> n \<and> n \<le> 8)"
    using r by (auto simp: bus_model_invariant_def unconditional_ok_def one_frame_data_def)
  with p r show ?thesis by simp
qed

theorem parse_ldf_stores_frame_unchecked_witness:
  "py_int_auto ''100'' = Some 100 \<and> py_int_dec ''9'' = Some 9
   \<and> parse_ldf (one_frame_ldf ''100'' ''9'') = Inr (one_frame_data 100 9)
   \<and> \<not> bus_model_invariant (one_frame_data 100 9)"
proof -
  have a: "py_int_auto ''100'' = Some 100" by code_simp
  have b: "py_int_dec ''9'' = Some 9" by code_simp
  from parse_ldf_stores_frame_unchecked [OF a b] a b show ?thesis by simp
qed


end
